(* ===== verification/Prelude.thy ===== *)
theory Prelude
  imports Main "HOL-Library.AList" "HOL-Library.Multiset"
begin

text \<open>
  Shared material of the development: the Python built-ins the cogs call
  (\<open>str.strip\<close>, \<open>str.lower\<close>, \<open>int(str)\<close>, \<open>str(int)\<close>,
  \<open>random.choice\<close>), a bind for the error-or-value sum type that models
  early returns, the random-number source as an explicit list of draws, and
  the generic lemmas on strings, association lists and sums that the
  component theories share.  Nothing here models code of the repository;
  these are models of the language runtime, restricted to ASCII text (a
  Python \<open>str\<close> is a list of 8-bit characters here).
\<close>

named_theorems py_simps \<open>evaluation rules of the Python built-ins\<close>

subsection \<open>Early returns: the error-or-value sum\<close>

text \<open>
  A handler that stops with \<open>return\<close> after sending a message is modelled as a
  value \<open>Inl e\<close>; a handler that goes on is \<open>Inr x\<close>.  \<open>sbind\<close> chains the
  steps of a handler the way consecutive statements run.
\<close>

definition sbind :: "'e + 'a \<Rightarrow> ('a \<Rightarrow> 'e + 'b) \<Rightarrow> 'e + 'b" where
  "sbind m f = (case m of Inl e \<Rightarrow> Inl e | Inr a \<Rightarrow> f a)"

subsection \<open>Strings\<close>

text \<open>
  Python's \<open>str.isspace\<close> on the ASCII range: tab, line feed, vertical tab,
  form feed, carriage return, the four separators 28--31 and the blank.
\<close>

definition py_isspace :: "char \<Rightarrow> bool" where
  "py_isspace c \<longleftrightarrow> (let n = (of_char c :: nat) in (9 \<le> n \<and> n \<le> 13) \<or> (28 \<le> n \<and> n \<le> 32))"

definition py_strip :: "string \<Rightarrow> string" where
  "py_strip s = rev (dropWhile py_isspace (rev (dropWhile py_isspace s)))"

definition py_lower_char :: "char \<Rightarrow> char" where
  "py_lower_char c = (let n = (of_char c :: nat) in if 65 \<le> n \<and> n \<le> 90 then char_of (n + 32) else c)"

definition py_lower :: "string \<Rightarrow> string" where
  "py_lower s = map py_lower_char s"

definition py_isdigit :: "char \<Rightarrow> bool" where
  "py_isdigit c \<longleftrightarrow> (let n = (of_char c :: nat) in 48 \<le> n \<and> n \<le> 57)"

text \<open>
  The body of a decimal literal accepted by \<open>int()\<close>: digits, with single
  underscores allowed between two digits (\<open>int("1_0") == 10\<close>).
\<close>

fun py_digits_ok :: "string \<Rightarrow> bool" where
  "py_digits_ok [] = False"
| "py_digits_ok (c # r) =
     (py_isdigit c \<and>
      (case r of [] \<Rightarrow> True
       | d # r' \<Rightarrow> (if d = CHR ''_'' then py_digits_ok r' else py_digits_ok r)))"

definition digit_value :: "char \<Rightarrow> nat" where
  "digit_value c = of_char c - 48"

definition digits_nat :: "string \<Rightarrow> nat" where
  "digits_nat s = foldl (\<lambda>n c. 10 * n + digit_value c) 0 s"

text \<open>
  \<open>int(s)\<close> for a \<open>str\<close> argument: surrounding whitespace is ignored, an
  optional sign, then the digits; anything else raises \<open>ValueError\<close>,
  which is \<open>None\<close> here.
\<close>

definition py_int_body :: "string \<Rightarrow> int option" where
  "py_int_body s =
     (if py_digits_ok s then Some (int (digits_nat (filter (\<lambda>c. c \<noteq> CHR ''_'') s))) else None)"

definition py_int :: "string \<Rightarrow> int option" where
  "py_int s =
     (case py_strip s of
        [] \<Rightarrow> None
      | c # r \<Rightarrow>
          (if c = CHR ''-'' then map_option uminus (py_int_body r)
           else if c = CHR ''+'' then py_int_body r
           else py_int_body (c # r)))"

text \<open>\<open>str(n)\<close> of an int: the decimal digits, with a leading minus sign.\<close>

definition digit_char :: "nat \<Rightarrow> char" where
  "digit_char d = char_of (48 + d)"

fun str_nat :: "nat \<Rightarrow> string" where
  "str_nat n = (if n < 10 then [digit_char n] else str_nat (n div 10) @ [digit_char (n mod 10)])"

declare str_nat.simps [simp del]

definition str_int :: "int \<Rightarrow> string" where
  "str_int i = (if i < 0 then CHR ''-'' # str_nat (nat (- i)) else str_nat (nat i))"

subsection \<open>Random draws\<close>

text \<open>
  The random module is modelled by the list of numbers it produces: each
  \<open>_randbelow(n)\<close> takes the next number modulo \<open>n\<close>.  Quantifying over the
  list covers every outcome of the generator.  An exhausted list draws 0.
\<close>

type_synonym rng = "nat list"

definition randbelow :: "nat \<Rightarrow> rng \<Rightarrow> nat \<times> rng" where
  "randbelow n rs = (case rs of [] \<Rightarrow> (0, []) | r # rs' \<Rightarrow> (r mod n, rs'))"

definition py_choice :: "'a list \<Rightarrow> rng \<Rightarrow> 'a \<times> rng" where
  "py_choice xs rs = (let (i, rs') = randbelow (length xs) rs in (xs ! i, rs'))"

text \<open>
  \<open>random.shuffle(x)\<close>: for \<open>i\<close> from \<open>len(x) - 1\<close> down to 1, draw
  \<open>j = _randbelow(i + 1)\<close> and swap \<open>x[i]\<close> and \<open>x[j]\<close>.
\<close>

fun shuffle_loop :: "nat \<Rightarrow> 'a list \<Rightarrow> rng \<Rightarrow> 'a list \<times> rng" where
  "shuffle_loop 0 xs rs = (xs, rs)"
| "shuffle_loop (Suc i) xs rs =
     (let (j, rs') = randbelow (Suc (Suc i)) rs
      in shuffle_loop i (xs[Suc i := xs ! j, j := xs ! Suc i]) rs')"

definition py_shuffle :: "'a list \<Rightarrow> rng \<Rightarrow> 'a list \<times> rng" where
  "py_shuffle xs rs = shuffle_loop (length xs - 1) xs rs"

subsection \<open>Dictionaries\<close>

text \<open>\<open>d.get(k, default)\<close> on a map.\<close>

definition dict_get :: "('k \<rightharpoonup> 'v) \<Rightarrow> 'k \<Rightarrow> 'v \<Rightarrow> 'v" where
  "dict_get m k d = (case m k of None \<Rightarrow> d | Some v \<Rightarrow> v)"

subsection \<open>Sums and dictionaries\<close>

lemma sbind_Inl [simp]: "sbind (Inl e) f = Inl e"
  by (simp add: sbind_def)

lemma sbind_Inr [simp]: "sbind (Inr a) f = f a"
  by (simp add: sbind_def)

lemma sbind_eq_Inr:
  "sbind m f = Inr b \<longleftrightarrow> (\<exists>a. m = Inr a \<and> f a = Inr b)"
  by (cases m) simp_all

lemma sbind_eq_Inl:
  "sbind m f = Inl e \<longleftrightarrow> (m = Inl e \<or> (\<exists>a. m = Inr a \<and> f a = Inl e))"
  by (cases m) simp_all

lemma pair_of_fst: "fst p = a \<Longrightarrow> p = (a, snd p)"
  by (cases p) simp

lemma triple_of_fst: "fst p = a \<Longrightarrow> p = (a, fst (snd p), snd (snd p))"
  by (cases p) auto

lemma dict_get_upd [simp]:
  "dict_get (m(k \<mapsto> v)) k' d = (if k' = k then v else dict_get m k' d)"
  by (simp add: dict_get_def)

lemma dict_get_empty [simp]: "dict_get Map.empty k d = d"
  by (simp add: dict_get_def)

subsection \<open>Round trip of \<open>str\<close> and \<open>int\<close>\<close>

text \<open>
  The wizard stores ability scores as \<open>str(n)\<close>; reading them back with
  \<open>int()\<close> gives \<open>n\<close>.  The digits of \<open>str_nat\<close> are ASCII digits, which are
  neither white space, nor underscores, nor signs.
\<close>

lemma of_char_digit_char: "d < 10 \<Longrightarrow> of_char (digit_char d) = 48 + d"
  by (simp add: digit_char_def of_char_of)

lemma py_isdigit_digit_char [simp]: "d < 10 \<Longrightarrow> py_isdigit (digit_char d)"
  by (simp add: py_isdigit_def of_char_digit_char)

lemma digit_value_digit_char [simp]: "d < 10 \<Longrightarrow> digit_value (digit_char d) = d"
  by (simp add: digit_value_def of_char_digit_char)

lemma not_isspace_digit: "py_isdigit c \<Longrightarrow> \<not> py_isspace c"
  by (simp add: py_isdigit_def py_isspace_def Let_def)

lemma digit_not_underscore: "py_isdigit c \<Longrightarrow> c \<noteq> CHR ''_''"
  by (auto simp add: py_isdigit_def)

lemma digit_not_sign: "py_isdigit c \<Longrightarrow> c \<noteq> CHR ''-'' \<and> c \<noteq> CHR ''+''"
  by (auto simp add: py_isdigit_def)

lemma str_nat_digits: "c \<in> set (str_nat n) \<Longrightarrow> py_isdigit c"
proof (induction n rule: str_nat.induct)
  case (1 n)
  then show ?case by (subst (asm) str_nat.simps) (auto split: if_splits)
qed

lemma str_nat_nonempty: "str_nat n \<noteq> []"
  by (subst str_nat.simps) simp

lemma py_digits_ok_all_digits:
  "s \<noteq> [] \<Longrightarrow> \<forall>c \<in> set s. py_isdigit c \<Longrightarrow> py_digits_ok s"
proof (induction s rule: py_digits_ok.induct)
  case 1
  then show ?case by simp
next
  case (2 c r)
  show ?case
  proof (cases r)
    case Nil
    with "2.prems" show ?thesis by simp
  next
    case (Cons d r')
    with "2.prems" have "d \<noteq> CHR ''_''" by (simp add: digit_not_underscore)
    with Cons "2.IH"(2) "2.prems" show ?thesis by simp
  qed
qed

lemma digits_nat_snoc: "digits_nat (xs @ [c]) = 10 * digits_nat xs + digit_value c"
  by (simp add: digits_nat_def)

lemma digits_nat_str_nat: "digits_nat (str_nat n) = n"
proof (induction n rule: str_nat.induct)
  case (1 n)
  show ?case
  proof (cases "n < 10")
    case True
    then show ?thesis by (subst str_nat.simps) (simp add: digits_nat_def)
  next
    case False
    with "1.IH" show ?thesis by (subst str_nat.simps) (simp add: digits_nat_snoc)
  qed
qed

lemma dropWhile_none: "\<forall>c \<in> set xs. \<not> P c \<Longrightarrow> dropWhile P xs = xs"
  by (induction xs) auto

lemma py_strip_no_space: "\<forall>c \<in> set s. \<not> py_isspace c \<Longrightarrow> py_strip s = s"
  by (simp add: py_strip_def dropWhile_none)

lemma py_int_body_str_nat: "py_int_body (str_nat n) = Some (int n)"
proof -
  have d: "\<forall>c \<in> set (str_nat n). py_isdigit c" by (blast intro: str_nat_digits)
  then have "filter (\<lambda>c. c \<noteq> CHR ''_'') (str_nat n) = str_nat n"
    by (auto simp: filter_id_conv dest: digit_not_underscore)
  with d show ?thesis
    by (simp add: py_int_body_def py_digits_ok_all_digits str_nat_nonempty digits_nat_str_nat)
qed

lemma py_int_str_int [simp]: "py_int (str_int i) = Some i"
proof -
  obtain c r where cr: "str_nat (nat \<bar>i\<bar>) = c # r"
    using str_nat_nonempty by (cases "str_nat (nat \<bar>i\<bar>)") auto
  have dig: "\<forall>x \<in> set (str_nat (nat \<bar>i\<bar>)). py_isdigit x"
    by (blast intro: str_nat_digits)
  then have c: "py_isdigit c" by (simp add: cr)
  show ?thesis
  proof (cases "i < 0")
    case True
    have "\<forall>x \<in> set (str_int i). \<not> py_isspace x"
    proof -
      have "\<not> py_isspace (CHR ''-'')" by (simp add: py_isspace_def)
      with dig True show ?thesis by (auto simp: str_int_def dest: not_isspace_digit)
    qed
    then have "py_strip (str_int i) = str_int i" by (rule py_strip_no_space)
    then show ?thesis using True py_int_body_str_nat [of "nat (- i)"]
      by (simp add: py_int_def str_int_def)
  next
    case False
    have "\<forall>x \<in> set (str_int i). \<not> py_isspace x"
      using dig False by (auto simp: str_int_def dest: not_isspace_digit)
    then have "py_strip (str_int i) = str_int i" by (rule py_strip_no_space)
    then show ?thesis using False py_int_body_str_nat [of "nat i"] cr digit_not_sign [OF c]
      by (simp add: py_int_def str_int_def)
  qed
qed

subsection \<open>Random draws\<close>

lemma randbelow_less: "0 < n \<Longrightarrow> fst (randbelow n rs) < n"
  by (simp add: randbelow_def split: list.splits)

lemma py_choice_in: "xs \<noteq> [] \<Longrightarrow> fst (py_choice xs rs) \<in> set xs"
  using randbelow_less [of "length xs" rs]
  by (auto simp: py_choice_def split: prod.splits)

lemma mset_shuffle_loop:
  "i < length xs \<Longrightarrow> mset (fst (shuffle_loop i xs rs)) = mset xs"
proof (induction i xs rs rule: shuffle_loop.induct)
  case (1 xs rs)
  then show ?case by simp
next
  case (2 i xs rs)
  obtain j rs' where r: "randbelow (Suc (Suc i)) rs = (j, rs')" by fastforce
  then have "j < Suc (Suc i)" using randbelow_less [of "Suc (Suc i)" rs] by simp
  with "2.prems" have j: "j < length xs" by simp
  let ?ys = "xs[Suc i := xs ! j, j := xs ! Suc i]"
  have "mset ?ys = mset xs" using j "2.prems" by (rule mset_swap)
  moreover have "mset (fst (shuffle_loop i ?ys rs')) = mset ?ys"
    using "2.IH" [OF r [symmetric] refl] "2.prems" by simp
  ultimately show ?case using r by simp
qed

lemma mset_py_shuffle: "mset (fst (py_shuffle xs rs)) = mset xs"
  by (cases xs) (simp_all add: py_shuffle_def mset_shuffle_loop)


lemma shuffle_loop_onto:
  "i < length xs \<Longrightarrow> mset (take (Suc i) ys) = mset (take (Suc i) xs) \<Longrightarrow>
   drop (Suc i) ys = drop (Suc i) xs \<Longrightarrow> \<exists>rs. fst (shuffle_loop i xs rs) = ys"
proof (induction i arbitrary: xs)
  case 0
  then obtain x where "take 1 xs = [x]" by (cases xs) auto
  with "0.prems"(2) have "take 1 ys = take 1 xs" by (cases ys) auto
  then have "ys = xs" using "0.prems"(3) by (metis One_nat_def append_take_drop_id)
  then show ?case by simp
next
  case (Suc i)
  let ?n = "Suc i"
  have n: "?n < length xs" using Suc.prems(1) .
  have ly: "length ys = length xs"
    using Suc.prems(2,3) by (metis length_append append_take_drop_id mset_eq_length)
  have "ys ! ?n \<in> set (take (Suc ?n) ys)" using n ly by (simp add: take_Suc_conv_app_nth)
  then have "ys ! ?n \<in> set (take (Suc ?n) xs)" using Suc.prems(2) by (metis set_mset_mset)
  then obtain j where j: "j < Suc ?n" and xj: "xs ! j = ys ! ?n"
    using n by (auto simp: in_set_conv_nth)
  define xs' where "xs' = xs[?n := xs ! j, j := xs ! ?n]"
  have l': "length xs' = length xs" by (simp add: xs'_def)
  have xn: "xs' ! ?n = ys ! ?n" using n j xj by (cases "j = ?n") (simp_all add: xs'_def)
  have "drop ?n xs' = xs' ! ?n # drop (Suc ?n) xs'" using n l' by (simp add: Cons_nth_drop_Suc)
  also have "drop (Suc ?n) xs' = drop (Suc ?n) xs" using j by (simp add: xs'_def)
  finally have "drop ?n xs' = xs' ! ?n # drop (Suc ?n) xs" .
  moreover have "drop ?n ys = ys ! ?n # drop (Suc ?n) ys" using n ly by (simp add: Cons_nth_drop_Suc)
  ultimately have d: "drop ?n xs' = drop ?n ys" using xn Suc.prems(3) by simp
  have "take (Suc ?n) xs' = (take (Suc ?n) xs)[?n := take (Suc ?n) xs ! j, j := take (Suc ?n) xs ! ?n]"
    using n j by (simp add: xs'_def take_update_swap)
  then have "mset (take (Suc ?n) xs') = mset (take (Suc ?n) xs)"
    using n j mset_swap [of j "take (Suc ?n) xs" ?n] by simp
  then have "mset (take (Suc ?n) xs') = mset (take (Suc ?n) ys)" using Suc.prems(2) by simp
  moreover have "take (Suc ?n) xs' = take ?n xs' @ [xs' ! ?n]" using n l' by (simp add: take_Suc_conv_app_nth)
  moreover have "take (Suc ?n) ys = take ?n ys @ [ys ! ?n]" using n ly by (simp add: take_Suc_conv_app_nth)
  ultimately have m: "mset (take ?n ys) = mset (take ?n xs')" using xn by simp
  obtain rs where rs: "fst (shuffle_loop i xs' rs) = ys"
    using Suc.IH [of xs'] n l' m d by auto
  have "randbelow (Suc ?n) (j # rs) = (j, rs)" using j by (simp add: randbelow_def)
  then have "fst (shuffle_loop ?n xs (j # rs)) = ys" using rs by (simp add: xs'_def)
  then show ?case by blast
qed

lemma py_shuffle_onto: "mset ys = mset xs \<Longrightarrow> \<exists>rs. fst (py_shuffle xs rs) = ys"
proof (cases xs)
  case Nil
  then show "mset ys = mset xs \<Longrightarrow> ?thesis" by (simp add: py_shuffle_def)
next
  case (Cons x xs')
  assume m: "mset ys = mset xs"
  have l: "length ys = length xs" using m by (rule mset_eq_length)
  have "\<exists>rs. fst (shuffle_loop (length xs - 1) xs rs) = ys"
    using Cons l m by (intro shuffle_loop_onto) simp_all
  then show ?thesis by (simp add: py_shuffle_def)
qed

lemma py_choice_nth: "i < length xs \<Longrightarrow> py_choice xs (i # rs) = (xs ! i, rs)"
  by (simp add: py_choice_def randbelow_def)


lemma length_update_key: "k \<in> fst ` set xs \<Longrightarrow> length (AList.update k v xs) = length xs"
  by (induction xs) auto

end
