(* ===== verification/Session.thy ===== *)
theory Session
  imports Prelude
begin

text \<open>
  The shared game state.  The cogs keep each character as a Python dict
  (\<open>character_data\<close>) and read and write the per-channel game dict through
  the \<open>DnDGame\<close> cog's \<open>get_game\<close> and \<open>save_game\<close>.  That cog is not part
  of the sources; its two operations are modelled from the specification
  (section 6: a keyed store with \<open>get\<close> and \<open>save\<close>).  The game's
  \<open>characters\<close> dict is an association list, updated with \<open>AList.update\<close>,
  which keeps Python's insertion order and replaces an existing key in
  place.
\<close>

subsection \<open>Character records\<close>

text \<open>
  The values a character dict holds: strings (name, class, race, the
  ability scores as \<open>str(n)\<close>, timestamps), lists of strings (skills,
  inventory, spells, cantrips) and the NPC flag.  A dict is an association
  list in insertion order; \<open>d[k] = v\<close> is \<open>AList.update k v d\<close> and
  \<open>d.get(k)\<close> is \<open>map_of d k\<close>.
\<close>

datatype pyval = VStr string | VList "string list" | VBool bool

type_synonym char_data = "(string \<times> pyval) list"

subsection \<open>Games and the store\<close>

record game =
  player_ids :: "string list"
  game_master_id :: string
  created_by :: string
  characters :: "(string \<times> char_data) list"
  npcs :: "char_data list"
  last_updated :: string
  ooc_channel_id :: "string option"

type_synonym store = "string \<rightharpoonup> game"

definition get_game :: "store \<Rightarrow> string \<Rightarrow> game option" where
  "get_game st ch = st ch"

definition save_game :: "string \<Rightarrow> game \<Rightarrow> store \<Rightarrow> store" where
  "save_game ch g st = st(ch \<mapsto> g)"

text \<open>
  A dict has one entry per key: the association list of characters has
  distinct keys.  This is the session invariant "at most one live record per
  actor" of the specification.
\<close>

definition game_wf :: "game \<Rightarrow> bool" where
  "game_wf g \<longleftrightarrow> distinct (map fst (characters g))"

definition store_wf :: "store \<Rightarrow> bool" where
  "store_wf st \<longleftrightarrow> (\<forall>ch g. st ch = Some g \<longrightarrow> game_wf g)"

text \<open>\<open>user_id in game["characters"]\<close>.\<close>

definition has_character :: "game \<Rightarrow> string \<Rightarrow> bool" where
  "has_character g u \<longleftrightarrow> map_of (characters g) u \<noteq> None"

text \<open>The readiness test after a write: \<open>len(characters) == len(player_ids)\<close>.\<close>

definition all_ready :: "game \<Rightarrow> bool" where
  "all_ready g \<longleftrightarrow> length (characters g) = length (player_ids g)"

text \<open>Writing \<open>game["characters"][u] = cd\<close>.\<close>

definition put_character :: "string \<Rightarrow> char_data \<Rightarrow> game \<Rightarrow> game" where
  "put_character u cd g = g\<lparr>characters := AList.update u cd (characters g)\<rparr>"

text \<open>A stored score as a command reads it back: \<open>int(character[key])\<close>.\<close>

definition score_of :: "char_data \<Rightarrow> string \<Rightarrow> int option" where
  "score_of cd k = (case map_of cd k of Some (VStr s) \<Rightarrow> py_int s | _ \<Rightarrow> None)"

subsection \<open>Lemmas\<close>

lemma get_save_game [simp]:
  "get_game (save_game ch g st) ch' = (if ch' = ch then Some g else get_game st ch')"
  by (simp add: get_game_def save_game_def)

lemma put_character_wf [simp]: "game_wf g \<Longrightarrow> game_wf (put_character u cd g)"
  by (simp add: game_wf_def put_character_def distinct_update)

lemma map_of_put_character [simp]:
  "map_of (characters (put_character u cd g)) = (map_of (characters g))(u \<mapsto> cd)"
  by (simp add: put_character_def update_conv')

lemma length_put_character:
  "length (characters (put_character u cd g)) =
     (if has_character g u then length (characters g) else Suc (length (characters g)))"
proof -
  have "length (characters (put_character u cd g)) = length (map fst (AList.update u cd (characters g)))"
    by (simp add: put_character_def)
  also have "\<dots> = (if u \<in> set (map fst (characters g)) then length (characters g)
                    else Suc (length (characters g)))"
    by (simp add: update_keys)
  finally show ?thesis
    by (simp add: has_character_def map_of_eq_None_iff)
qed

lemma store_wf_save [simp]: "store_wf st \<Longrightarrow> game_wf g \<Longrightarrow> store_wf (save_game ch g st)"
  by (simp add: store_wf_def save_game_def)

end
