(* ===== verification/Transport.thy ===== *)
theory Transport
  imports Session
begin

text \<open>
  The messaging transport the cogs suspend on.  Everything a user does while
  a handler waits is an event of a script: a message (author, channel,
  text), a pick in a dropdown menu, or the expiry of the timer of the wait
  that is pending.  \<open>bot.wait_for('message', check=..., timeout=...)\<close>
  (discord.py, not part of the sources, modelled from section 6 of the
  specification) returns the first message that passes the check and skips
  the others; \<open>SelectionView.wait()\<close> returns when a dropdown callback has
  stored a value and stopped the view, or when the view timed out.  An
  exhausted script is a timeout: nobody answered in time.  Each wait
  consumes a prefix of the script, which is what makes the retry loops of
  the cogs terminate.
\<close>

datatype chan = TextChannel string | DMChannel string

record message =
  msg_author :: string
  msg_channel :: chan
  msg_content :: string

datatype event = Msg message | Pick string | Expire

text \<open>
  The command context: whether the \<open>DnDGame\<close> cog was found when the cog
  loaded (\<open>self.parent_cog\<close>), the invoking channel and the invoking user.
\<close>

record ctx =
  parent_loaded :: bool
  ctx_channel :: string
  ctx_author :: string

subsection \<open>Waits\<close>

fun wait_for :: "(message \<Rightarrow> bool) \<Rightarrow> event list \<Rightarrow> message option \<times> event list" where
  "wait_for chk [] = (None, [])"
| "wait_for chk (Expire # es) = (None, es)"
| "wait_for chk (Pick v # es) = wait_for chk es"
| "wait_for chk (Msg m # es) = (if chk m then (Some m, es) else wait_for chk es)"

text \<open>
  The dropdowns' \<open>callback\<close> stores \<open>self.values[0]\<close> in the view and
  stops it; \<open>on_timeout\<close> stops it with nothing stored.
\<close>

fun view_wait :: "event list \<Rightarrow> string option \<times> event list" where
  "view_wait [] = (None, [])"
| "view_wait (Expire # es) = (None, es)"
| "view_wait (Pick v # es) = (Some v, es)"
| "view_wait (Msg m # es) = view_wait es"

subsection \<open>The checks of the waits\<close>

text \<open>The replace-existing prompt: \<open>check_confirm\<close> of \<open>!creation\<close> and \<open>!random\<close>.\<close>

definition check_confirm :: "ctx \<Rightarrow> message \<Rightarrow> bool" where
  "check_confirm c m \<longleftrightarrow>
     msg_author m = ctx_author c \<and> msg_channel m = TextChannel (ctx_channel c) \<and>
     py_lower (msg_content m) \<in> set [''yes'', ''no'']"

text \<open>The wizard's text steps: any message of the author in a private channel.\<close>

definition is_dm :: "chan \<Rightarrow> bool" where
  "is_dm ch = (case ch of DMChannel _ \<Rightarrow> True | TextChannel _ \<Rightarrow> False)"

definition check_response :: "ctx \<Rightarrow> message \<Rightarrow> bool" where
  "check_response c m \<longleftrightarrow> msg_author m = ctx_author c \<and> is_dm (msg_channel m)"

text \<open>The accept-or-reroll prompt of \<open>display_and_confirm\<close>.\<close>

definition check_dm_confirm :: "ctx \<Rightarrow> message \<Rightarrow> bool" where
  "check_dm_confirm c m \<longleftrightarrow>
     msg_author m = ctx_author c \<and> msg_channel m = DMChannel (ctx_author c) \<and>
     py_lower (msg_content m) \<in> set [''yes'', ''no'']"

subsection \<open>Waits consume the script\<close>

lemma wait_for_Some:
  "wait_for chk es = (Some m, es') \<Longrightarrow> chk m \<and> length es' < length es"
  by (induction chk es rule: wait_for.induct) (auto split: if_splits)

lemma wait_for_length: "wait_for chk es = (r, es') \<Longrightarrow> length es' \<le> length es"
  by (induction chk es rule: wait_for.induct) (fastforce split: if_splits)+

lemma view_wait_length: "view_wait es = (r, es') \<Longrightarrow> length es' \<le> length es"
  by (induction es rule: view_wait.induct) fastforce+

end
