(* ===== verification/Wizard.thy ===== *)
theory Wizard
  imports Transport
begin

text \<open>
  The guided creation wizard, \<open>CharacterCreation.character_creation\<close>
  (the \<open>!creation\<close> command, \<open>src/cogs/character_creation.py\<close>, lines
  158--394).  Each prompt of the wizard is one definition, in the order of
  the code: the replace-existing gate, the name, the class and race menus,
  the optional backstory and alignment, the point-buy allocation of the six
  abilities (a retry loop inside a loop over the abilities), the final
  confirmation, and the write-back to the session store.  Every
  \<open>return\<close> of the handler is an \<open>Inl\<close> value of type \<open>abort\<close>; the
  handler's result says how it ended and gives the new store.
\<close>

subsection \<open>Outcomes\<close>

datatype wstep = SReplace | SName | SClass | SRace | SBackstory | SAlignment | SAbility | SConfirm

datatype abort =
    NoParent
  | NoGame
  | NotPlayer
  | Declined wstep
  | Cancelled wstep
  | NameRequired
  | TimedOut wstep

text \<open>
  A completed run gives the character dict, the points left unassigned
  (reported to the user when positive) and whether the "everyone has a
  character" notice was sent.
\<close>

datatype creation_result = Aborted abort | Created char_data int bool

subsection \<open>Steps\<close>

text \<open>The replace-existing gate, lines 182--199.\<close>

definition replace_gate :: "ctx \<Rightarrow> game \<Rightarrow> event list \<Rightarrow> abort + event list" where
  "replace_gate c g es =
     (if has_character g (ctx_author c) then
        (case wait_for (check_confirm c) es of
           (None, _) \<Rightarrow> Inl (TimedOut SReplace)
         | (Some m, es') \<Rightarrow>
             (if py_lower (msg_content m) \<noteq> ''yes'' then Inl (Declined SReplace) else Inr es'))
      else Inr es)"

text \<open>
  A free-text prompt (the \<open>try\<close> blocks of the name, backstory and
  alignment steps): the \<open>cancel\<close> token is compared before stripping, the
  answer is stripped.
\<close>

datatype text_reply = TextCancel | TextTimeout | TextReply string

definition ask_text :: "ctx \<Rightarrow> event list \<Rightarrow> text_reply \<times> event list" where
  "ask_text c es =
     (case wait_for (check_response c) es of
        (None, es') \<Rightarrow> (TextTimeout, es')
      | (Some m, es') \<Rightarrow>
          (if py_lower (msg_content m) = ''cancel'' then TextCancel
           else TextReply (py_strip (msg_content m)), es'))"

text \<open>Step 1, the name, lines 214--234: an empty name ends the wizard.\<close>

definition step_name :: "ctx \<Rightarrow> char_data \<Rightarrow> event list \<Rightarrow> abort + char_data \<times> event list" where
  "step_name c cd es =
     (case ask_text c es of
        (TextTimeout, _) \<Rightarrow> Inl (TimedOut SName)
      | (TextCancel, _) \<Rightarrow> Inl (Cancelled SName)
      | (TextReply name, es') \<Rightarrow>
          (if name = [] then Inl NameRequired else Inr (AList.update ''name'' (VStr name) cd, es')))"

text \<open>Steps 2 and 3, the class and race menus, lines 236--264.\<close>

definition step_menu :: "wstep \<Rightarrow> string \<Rightarrow> char_data \<Rightarrow> event list \<Rightarrow> abort + char_data \<times> event list" where
  "step_menu st key cd es =
     (case view_wait es of
        (None, _) \<Rightarrow> Inl (TimedOut st)
      | (Some v, es') \<Rightarrow> (if v = [] then Inl (TimedOut st) else Inr (AList.update key (VStr v) cd, es')))"

text \<open>Steps 4 and 5, backstory and alignment, lines 266--304: an empty answer is skipped.\<close>

definition step_optional ::
  "wstep \<Rightarrow> string \<Rightarrow> ctx \<Rightarrow> char_data \<Rightarrow> event list \<Rightarrow> abort + char_data \<times> event list" where
  "step_optional st key c cd es =
     (case ask_text c es of
        (TextTimeout, _) \<Rightarrow> Inl (TimedOut st)
      | (TextCancel, _) \<Rightarrow> Inl (Cancelled st)
      | (TextReply v, es') \<Rightarrow> Inr (if v = [] then cd else AList.update key (VStr v) cd, es'))"

subsection \<open>Step 6: point-buy allocation\<close>

definition ability_scores :: "string list" where
  "ability_scores = [''Strength'', ''Dexterity'', ''Constitution'', ''Intelligence'', ''Wisdom'', ''Charisma'']"

text \<open>
  The \<open>while True\<close> loop of one ability, lines 325--352: a cancel ends the
  wizard, a timeout ends it, a non-number or a number outside
  \<open>[0, min(7, remaining)]\<close> prompts again.  The loop is a \<open>function\<close>
  whose termination is the fact that every answered wait consumes an event.
\<close>

datatype points_reply = PointsCancel | PointsTimeout | Points int

function read_points :: "ctx \<Rightarrow> int \<Rightarrow> event list \<Rightarrow> points_reply \<times> event list" where
  "read_points c rem es =
     (case wait_for (check_response c) es of
        (None, es') \<Rightarrow> (PointsTimeout, es')
      | (Some m, es') \<Rightarrow>
          (if py_lower (msg_content m) = ''cancel'' then (PointsCancel, es')
           else
             (case py_int (py_strip (msg_content m)) of
                None \<Rightarrow> read_points c rem es'
              | Some p \<Rightarrow>
                  (if 0 \<le> p \<and> p \<le> min 7 rem then (Points p, es') else read_points c rem es'))))"
  by pat_completeness auto
termination
  by (relation "measure (\<lambda>(c, rem, es). length es)") (auto dest: wait_for_Some [OF sym])

declare read_points.simps [simp del]

text \<open>
  The loop over the abilities, lines 317--354.  \<open>ability_values\<close> is the
  dict of running totals (10 for every ability at the start), the character
  dict receives \<open>str\<close> of the total; with no points left an ability gets
  \<open>"10"\<close> without a prompt.
\<close>

fun allocate ::
  "ctx \<Rightarrow> string list \<Rightarrow> int \<Rightarrow> (string \<Rightarrow> int) \<Rightarrow> char_data \<Rightarrow> event list \<Rightarrow>
   abort + (int \<times> (string \<Rightarrow> int) \<times> char_data \<times> event list)" where
  "allocate c [] rem vals cd es = Inr (rem, vals, cd, es)"
| "allocate c (a # as) rem vals cd es =
     (let k = py_lower a in
      if rem = 0 then allocate c as rem vals (AList.update k (VStr ''10'') cd) es
      else
        (case read_points c rem es of
           (PointsCancel, _) \<Rightarrow> Inl (Cancelled SAbility)
         | (PointsTimeout, _) \<Rightarrow> Inl (TimedOut SAbility)
         | (Points p, es') \<Rightarrow>
             (let v = vals k + p in
              allocate c as (rem - p) (vals(k := v)) (AList.update k (VStr (str_int v)) cd) es')))"

subsection \<open>Confirmation and persistence\<close>

text \<open>The final confirmation, lines 356--372: anything but \<open>yes\<close> cancels.\<close>

definition step_confirm :: "ctx \<Rightarrow> event list \<Rightarrow> abort + event list" where
  "step_confirm c es =
     (case wait_for (check_response c) es of
        (None, _) \<Rightarrow> Inl (TimedOut SConfirm)
      | (Some m, es') \<Rightarrow> (if py_lower (msg_content m) \<noteq> ''yes'' then Inl (Declined SConfirm) else Inr es'))"

text \<open>
  Saving, lines 374--394: the character is written into the game read at
  the start of the command, the game is saved, read again, and the notice
  is sent when there are as many characters as players.
\<close>

definition commit_character ::
  "string \<Rightarrow> string \<Rightarrow> string \<Rightarrow> char_data \<Rightarrow> game \<Rightarrow> store \<Rightarrow> store \<times> bool" where
  "commit_character ch u t1 cd g st =
     (let g' = (put_character u cd g)\<lparr>last_updated := t1\<rparr>;
          st' = save_game ch g' st
      in (st', case get_game st' ch of None \<Rightarrow> False | Some g2 \<Rightarrow> all_ready g2))"

subsection \<open>The handler\<close>

text \<open>The prompts of lines 182--372, in order.\<close>

definition creation_steps :: "ctx \<Rightarrow> game \<Rightarrow> string \<Rightarrow> event list \<Rightarrow> abort + char_data \<times> int" where
  "creation_steps c g t0 es =
     sbind (replace_gate c g es) (\<lambda>es.
     sbind (step_name c [(''level'', VStr ''1''), (''created_at'', VStr t0)] es) (\<lambda>(cd, es).
     sbind (step_menu SClass ''class'' cd es) (\<lambda>(cd, es).
     sbind (step_menu SRace ''race'' cd es) (\<lambda>(cd, es).
     sbind (step_optional SBackstory ''backstory'' c cd es) (\<lambda>(cd, es).
     sbind (step_optional SAlignment ''alignment'' c cd es) (\<lambda>(cd, es).
     sbind (allocate c ability_scores 18 (\<lambda>_. 10) cd es) (\<lambda>(rem, vals, cd, es).
     sbind (step_confirm c es) (\<lambda>_. Inr (cd, rem)))))))))"

text \<open>
  \<open>!creation\<close>: the preconditions (cog loaded, a game in the channel, the
  author a player), the prompts, and the write.  \<open>t0\<close> and \<open>t1\<close> are the
  two readings of \<open>datetime.now()\<close>.
\<close>

definition character_creation ::
  "ctx \<Rightarrow> string \<Rightarrow> string \<Rightarrow> event list \<Rightarrow> store \<Rightarrow> creation_result \<times> store" where
  "character_creation c t0 t1 es st =
     (if \<not> parent_loaded c then (Aborted NoParent, st)
      else
        (case get_game st (ctx_channel c) of
           None \<Rightarrow> (Aborted NoGame, st)
         | Some g \<Rightarrow>
             (if ctx_author c \<notin> set (player_ids g) then (Aborted NotPlayer, st)
              else
                (case creation_steps c g t0 es of
                   Inl a \<Rightarrow> (Aborted a, st)
                 | Inr (cd, rem) \<Rightarrow>
                     (let (st', ready) = commit_character (ctx_channel c) (ctx_author c) t1 cd g st
                      in (Created cd rem ready, st'))))))"

subsection \<open>Lemmas: the allocation loop\<close>

text \<open>
  C25: Once the points are spent, the allocator prompts no more: every
  remaining ability gets 10 (line 322's \<open>if remaining_points > 0\<close> fails),
  and no reply is read, so the replies a user still sends are left for the
  next wait.
\<close>

theorem allocate_spent:
  "allocate c as 0 vals cd es = Inr (0, vals, fold (\<lambda>a cd. AList.update (py_lower a) (VStr ''10'') cd) as cd, es)"
  by (induction as arbitrary: cd) simp_all

lemma read_points_Points:
  "read_points c rem es = (Points p, es') \<Longrightarrow> 0 \<le> p \<and> p \<le> 7 \<and> p \<le> rem"
proof (induction c rem es rule: read_points.induct)
  case (1 c rem es)
  show ?case
  proof (cases "wait_for (check_response c) es")
    case (Pair r es1)
    show ?thesis
    proof (cases r)
      case None
      with Pair "1.prems" show ?thesis by (simp add: read_points.simps)
    next
      case (Some m)
      with Pair "1.prems" "1.IH" show ?thesis
        by (subst (asm) read_points.simps) (auto split: if_splits option.splits)
    qed
  qed
qed

lemma allocate_Inr:
  assumes "allocate c as rem vals cd es = Inr (rem', vals', cd', es')"
    and "0 \<le> rem" and "distinct (map py_lower as)"
    and "\<forall>a \<in> set as. vals (py_lower a) = 10"
  shows "0 \<le> rem' \<and>
    (\<forall>a \<in> set as. 10 \<le> vals' (py_lower a) \<and> vals' (py_lower a) \<le> 17 \<and>
       map_of cd' (py_lower a) = Some (VStr (str_int (vals' (py_lower a))))) \<and>
    (\<Sum>a\<leftarrow>as. vals' (py_lower a) - 10) = rem - rem' \<and>
    (\<forall>k. k \<notin> set (map py_lower as) \<longrightarrow> vals' k = vals k \<and> map_of cd' k = map_of cd k)"
  using assms
proof (induction as arbitrary: rem vals cd es)
  case Nil
  then show ?case by simp
next
  case (Cons a as)
  let ?k = "py_lower a"
  have k: "?k \<notin> set (map py_lower as)" using Cons.prems(3) by simp
  show ?case
  proof (cases "rem = 0")
    case True
    with Cons.prems(1) have run: "allocate c as rem vals (AList.update ?k (VStr ''10'') cd) es = Inr (rem', vals', cd', es')"
      by simp
    have ih: "0 \<le> rem' \<and>
      (\<forall>a \<in> set as. 10 \<le> vals' (py_lower a) \<and> vals' (py_lower a) \<le> 17 \<and>
         map_of cd' (py_lower a) = Some (VStr (str_int (vals' (py_lower a))))) \<and>
      (\<Sum>a\<leftarrow>as. vals' (py_lower a) - 10) = rem - rem' \<and>
      (\<forall>k. k \<notin> set (map py_lower as) \<longrightarrow> vals' k = vals k \<and> map_of cd' k = map_of (AList.update ?k (VStr ''10'') cd) k)"
      using Cons.IH [OF run] Cons.prems(2-4) by simp
    have "str_int 10 = ''10''" by code_simp
    with ih k Cons.prems(4) show ?thesis by (auto simp: update_conv')
  next
    case False
    then obtain p es1 where rp: "read_points c rem es = (Points p, es1)"
      using Cons.prems(1) by (auto simp: Let_def split: prod.splits points_reply.splits)
    have p: "0 \<le> p \<and> p \<le> 7 \<and> p \<le> rem" using read_points_Points [OF rp] .
    let ?v = "vals ?k + p"
    from Cons.prems(1) False rp have run:
      "allocate c as (rem - p) (vals(?k := ?v)) (AList.update ?k (VStr (str_int ?v)) cd) es1 = Inr (rem', vals', cd', es')"
      by (simp add: Let_def)
    have pre: "\<forall>b \<in> set as. (vals(?k := ?v)) (py_lower b) = 10"
      using Cons.prems(4) k by (fastforce simp: image_iff)
    have ih: "0 \<le> rem' \<and>
      (\<forall>a \<in> set as. 10 \<le> vals' (py_lower a) \<and> vals' (py_lower a) \<le> 17 \<and>
         map_of cd' (py_lower a) = Some (VStr (str_int (vals' (py_lower a))))) \<and>
      (\<Sum>a\<leftarrow>as. vals' (py_lower a) - 10) = (rem - p) - rem' \<and>
      (\<forall>k. k \<notin> set (map py_lower as) \<longrightarrow> vals' k = (vals(?k := ?v)) k \<and>
         map_of cd' k = map_of (AList.update ?k (VStr (str_int ?v)) cd) k)"
      using Cons.IH [OF run] p pre Cons.prems(3) by simp
    with k p Cons.prems(4) show ?thesis by (auto simp: update_conv')
  qed
qed

lemma ability_keys: "map py_lower ability_scores =
  [''strength'', ''dexterity'', ''constitution'', ''intelligence'', ''wisdom'', ''charisma'']"
  by code_simp

lemma creation_steps_Inr:
  assumes "creation_steps c g t0 es = Inr (cd, rem)"
  obtains es1 cd1 es2 cd2 es3 cd3 es4 cd4 es5 cd5 es6 vals es7 es8 where
    "replace_gate c g es = Inr es1"
    "step_name c [(''level'', VStr ''1''), (''created_at'', VStr t0)] es1 = Inr (cd1, es2)"
    "step_menu SClass ''class'' cd1 es2 = Inr (cd2, es3)"
    "step_menu SRace ''race'' cd2 es3 = Inr (cd3, es4)"
    "step_optional SBackstory ''backstory'' c cd3 es4 = Inr (cd4, es5)"
    "step_optional SAlignment ''alignment'' c cd4 es5 = Inr (cd5, es6)"
    "allocate c ability_scores 18 (\<lambda>_. 10) cd5 es6 = Inr (rem, vals, cd, es7)"
    "step_confirm c es7 = Inr es8"
  using assms unfolding creation_steps_def
  by (auto simp: sbind_eq_Inr split: prod.splits)

lemma allocate_scores:
  assumes "allocate c ability_scores 18 (\<lambda>_. 10) cd0 es = Inr (rem, vals, cd, es')"
  shows "0 \<le> rem \<and> (\<exists>vs. map (score_of cd) (map py_lower ability_scores) = map Some vs \<and>
           (\<forall>v \<in> set vs. 10 \<le> v \<and> v \<le> 17) \<and> sum_list vs - 60 = 18 - rem)"
proof -
  have d: "distinct (map py_lower ability_scores)" by (simp add: ability_keys)
  have "(\<forall>a \<in> set ability_scores. (\<lambda>_. 10::int) (py_lower a) = 10)" by simp
  from allocate_Inr [OF assms _ d this] have A: "0 \<le> rem"
    and B: "\<forall>a \<in> set ability_scores. 10 \<le> vals (py_lower a) \<and> vals (py_lower a) \<le> 17 \<and>
       map_of cd (py_lower a) = Some (VStr (str_int (vals (py_lower a))))"
    and C: "(\<Sum>a\<leftarrow>ability_scores. vals (py_lower a) - 10) = 18 - rem"
    by simp_all
  let ?vs = "map (\<lambda>a. vals (py_lower a)) ability_scores"
  have "map (score_of cd) (map py_lower ability_scores) = map Some ?vs"
    using B by (simp add: score_of_def)
  moreover have "\<forall>v \<in> set ?vs. 10 \<le> v \<and> v \<le> 17" using B by auto
  moreover have "sum_list ?vs - 60 = 18 - rem"
    using C by (simp add: ability_scores_def)
  ultimately show ?thesis using A by blast
qed

text \<open>
  C1: Every character the wizard stores has all six ability scores, stored as
  strings that \<open>int()\<close> reads back as values in [10, 17], and the points
  spent over base 10 are 18 minus the points it reports as left unassigned,
  which are never negative.
\<close>

theorem creation_scores:
  assumes "character_creation c t0 t1 es st = (Created cd f r, st')"
  shows "0 \<le> f \<and> (\<exists>vs. map (score_of cd) (map py_lower ability_scores) = map Some vs \<and>
           (\<forall>v \<in> set vs. 10 \<le> v \<and> v \<le> 17) \<and> sum_list vs - 60 = 18 - f)"
proof -
  from assms obtain g where "creation_steps c g t0 es = Inr (cd, f)"
    by (auto simp: character_creation_def split: if_splits option.splits sum.splits prod.splits)
  then show ?thesis by (rule creation_steps_Inr) (rule allocate_scores)
qed


lemma character_creation_cases:
  "character_creation c t0 t1 es st = (r, st') \<Longrightarrow>
     (\<exists>a. r = Aborted a \<and> st' = st) \<or>
     (\<exists>g cd f. parent_loaded c \<and> get_game st (ctx_channel c) = Some g \<and>
        ctx_author c \<in> set (player_ids g) \<and> creation_steps c g t0 es = Inr (cd, f) \<and>
        r = Created cd f (all_ready (put_character (ctx_author c) cd g)) \<and>
        st' = save_game (ctx_channel c) ((put_character (ctx_author c) cd g)\<lparr>last_updated := t1\<rparr>) st)"
  by (auto simp: character_creation_def commit_character_def all_ready_def put_character_def
      split: if_splits option.splits sum.splits prod.splits)

text \<open>
  C2: A wizard run that ends in any abort (missing cog, no game, not a player,
  declined or timed-out replacement, cancel, empty name, timeout at any step,
  declined confirmation) leaves the session store exactly as it was.
\<close>

theorem creation_abort_unchanged:
  assumes "character_creation c t0 t1 es st = (Aborted a, st')"
  shows "st' = st"
  using character_creation_cases [OF assms] by auto

text \<open>
  C4: A completed wizard run writes exactly one thing: the invoking player's entry
  in the \<open>characters\<close> dict of the game of the invoking channel (and its
  \<open>last_updated\<close> stamp); every other channel's game is untouched, and the
  "everyone has a character" notice is sent exactly when the updated game has
  as many characters as players.
\<close>

theorem creation_writes_own_record:
  assumes "character_creation c t0 t1 es st = (Created cd f r, st')"
  shows "\<exists>g. get_game st (ctx_channel c) = Some g \<and> ctx_author c \<in> set (player_ids g) \<and>
     get_game st' (ctx_channel c) = Some ((put_character (ctx_author c) cd g)\<lparr>last_updated := t1\<rparr>) \<and>
     (\<forall>ch. ch \<noteq> ctx_channel c \<longrightarrow> get_game st' ch = get_game st ch) \<and>
     r = all_ready (put_character (ctx_author c) cd g)"
  using character_creation_cases [OF assms] by auto

text \<open>
  C17: The readiness notice is not sent only once: when a player who already
  has a character completes the wizard again (replacing it), the notice is
  sent exactly when the game read at the start already had a character for
  every player, so in a complete game every replacement sends it again.
\<close>

theorem creation_replace_notice:
  assumes "character_creation c t0 t1 es st = (Created cd f r, st')"
    and "get_game st (ctx_channel c) = Some g" and "has_character g (ctx_author c)"
  shows "r = all_ready g"
  using character_creation_cases [OF assms(1)] assms(2,3)
  by (auto simp: all_ready_def put_character_def has_character_def length_update_key map_of_eq_None_iff)

text \<open>
  The wizard keeps the session invariant: every game's \<open>characters\<close> dict
  has at most one record per player.
\<close>

lemma creation_preserves_store_wf:
  assumes "store_wf st" and "character_creation c t0 t1 es st = (r, st')"
  shows "store_wf st'"
proof -
  from character_creation_cases [OF assms(2)] show ?thesis
  proof
    assume "\<exists>a. r = Aborted a \<and> st' = st"
    with assms(1) show ?thesis by auto
  next
    assume "\<exists>g cd f. parent_loaded c \<and> get_game st (ctx_channel c) = Some g \<and>
        ctx_author c \<in> set (player_ids g) \<and> creation_steps c g t0 es = Inr (cd, f) \<and>
        r = Created cd f (all_ready (put_character (ctx_author c) cd g)) \<and>
        st' = save_game (ctx_channel c) ((put_character (ctx_author c) cd g)\<lparr>last_updated := t1\<rparr>) st"
    then obtain g cd where g: "get_game st (ctx_channel c) = Some g"
      and st': "st' = save_game (ctx_channel c) ((put_character (ctx_author c) cd g)\<lparr>last_updated := t1\<rparr>) st"
      by blast
    from assms(1) g have "game_wf g" by (simp add: store_wf_def get_game_def)
    then have "game_wf ((put_character (ctx_author c) cd g)\<lparr>last_updated := t1\<rparr>)"
      using put_character_wf by (simp add: game_wf_def)
    with assms(1) st' show ?thesis by simp
  qed
qed

text \<open>
  C23: The preconditions are hard stops checked in order: without the DnDGame cog,
  without a game in the channel, or when the author is not a player, the
  wizard ends with that error and the store is unchanged.
\<close>

theorem creation_preconditions:
  "(\<not> parent_loaded c \<longrightarrow> character_creation c t0 t1 es st = (Aborted NoParent, st)) \<and>
   (parent_loaded c \<and> get_game st (ctx_channel c) = None \<longrightarrow>
      character_creation c t0 t1 es st = (Aborted NoGame, st)) \<and>
   (parent_loaded c \<and> get_game st (ctx_channel c) = Some g \<and> ctx_author c \<notin> set (player_ids g) \<longrightarrow>
      character_creation c t0 t1 es st = (Aborted NotPlayer, st))"
  by (simp add: character_creation_def)

text \<open>
  C5: A player who already owns a character only gets it replaced after the
  first yes-or-no reply they post in the command's channel is \<open>yes\<close>
  (case-insensitive).
\<close>

theorem creation_replace_needs_yes:
  assumes "character_creation c t0 t1 es st = (Created cd f r, st')"
    and "get_game st (ctx_channel c) = Some g" and "has_character g (ctx_author c)"
  shows "\<exists>m es'. wait_for (check_confirm c) es = (Some m, es') \<and>
           msg_author m = ctx_author c \<and> py_lower (msg_content m) = ''yes''"
proof -
  from character_creation_cases [OF assms(1)] assms(2)
  have "creation_steps c g t0 es = Inr (cd, f)" by auto
  then obtain es1 where "replace_gate c g es = Inr es1" by (rule creation_steps_Inr)
  with assms(3) show ?thesis
    by (auto simp: replace_gate_def check_confirm_def split: prod.splits option.splits if_splits
        dest: wait_for_Some)
qed


lemma step_name_Inr:
  "step_name c cd es = Inr (cd', es') \<Longrightarrow> \<exists>n. n \<noteq> [] \<and> cd' = AList.update ''name'' (VStr n) cd"
  by (auto simp: step_name_def split: prod.splits text_reply.splits if_splits)

lemma step_menu_Inr:
  "step_menu st key cd es = Inr (cd', es') \<Longrightarrow> \<exists>v. v \<noteq> [] \<and> cd' = AList.update key (VStr v) cd"
  by (auto simp: step_menu_def split: prod.splits option.splits if_splits)

lemma step_optional_other:
  "step_optional st key c cd es = Inr (cd', es') \<Longrightarrow> k \<noteq> key \<Longrightarrow> map_of cd' k = map_of cd k"
  by (auto simp: step_optional_def update_conv' split: prod.splits text_reply.splits if_splits)

lemma allocate_other:
  assumes "allocate c ability_scores 18 (\<lambda>_. 10) cd0 es = Inr (rem, vals, cd, es')"
    and "k \<notin> set (map py_lower ability_scores)"
  shows "map_of cd k = map_of cd0 k"
proof -
  have d: "distinct (map py_lower ability_scores)" by (simp add: ability_keys)
  have "(\<forall>a \<in> set ability_scores. (\<lambda>_. 10::int) (py_lower a) = 10)" by simp
  from allocate_Inr [OF assms(1) _ d this] assms(2) show ?thesis by simp
qed

lemma creation_steps_fields:
  assumes "creation_steps c g t0 es = Inr (cd, f)"
  shows "(\<exists>n. map_of cd ''name'' = Some (VStr n) \<and> n \<noteq> []) \<and>
    (\<exists>v. map_of cd ''class'' = Some (VStr v) \<and> v \<noteq> []) \<and>
    (\<exists>v. map_of cd ''race'' = Some (VStr v) \<and> v \<noteq> []) \<and>
    map_of cd ''level'' = Some (VStr ''1'') \<and> map_of cd ''created_at'' = Some (VStr t0)"
proof (rule creation_steps_Inr [OF assms])
  fix es1 cd1 es2 cd2 es3 cd3 es4 cd4 es5 cd5 es6 vals es7
  assume n: "step_name c [(''level'', VStr ''1''), (''created_at'', VStr t0)] es1 = Inr (cd1, es2)"
    and cl: "step_menu SClass ''class'' cd1 es2 = Inr (cd2, es3)"
    and ra: "step_menu SRace ''race'' cd2 es3 = Inr (cd3, es4)"
    and bs: "step_optional SBackstory ''backstory'' c cd3 es4 = Inr (cd4, es5)"
    and al: "step_optional SAlignment ''alignment'' c cd4 es5 = Inr (cd5, es6)"
    and ab: "allocate c ability_scores 18 (\<lambda>_. 10) cd5 es6 = Inr (f, vals, cd, es7)"
  have keep: "map_of cd k = map_of cd3 k"
    if "k \<in> {''name'', ''class'', ''race'', ''level'', ''created_at''}" for k
  proof -
    from that have "k \<notin> set (map py_lower ability_scores)" by (auto simp: ability_keys)
    then have "map_of cd k = map_of cd5 k" by (rule allocate_other [OF ab])
    also have "\<dots> = map_of cd4 k" using that by (auto intro: step_optional_other [OF al])
    also have "\<dots> = map_of cd3 k" using that by (auto intro: step_optional_other [OF bs])
    finally show ?thesis .
  qed
  from step_name_Inr [OF n] step_menu_Inr [OF cl] step_menu_Inr [OF ra]
  have "(\<exists>n. map_of cd3 ''name'' = Some (VStr n) \<and> n \<noteq> []) \<and>
    (\<exists>v. map_of cd3 ''class'' = Some (VStr v) \<and> v \<noteq> []) \<and>
    (\<exists>v. map_of cd3 ''race'' = Some (VStr v) \<and> v \<noteq> []) \<and>
    map_of cd3 ''level'' = Some (VStr ''1'') \<and> map_of cd3 ''created_at'' = Some (VStr t0)"
    by (auto simp: update_conv')
  then show ?thesis by (simp add: keep)
qed

text \<open>
  C24: A completed wizard record has a non-empty name, a non-empty class and race
  taken from the menus, level "1" and the creation time stamp.
\<close>

theorem creation_record_fields:
  assumes "character_creation c t0 t1 es st = (Created cd f r, st')"
  shows "(\<exists>n. map_of cd ''name'' = Some (VStr n) \<and> n \<noteq> []) \<and>
    (\<exists>v. map_of cd ''class'' = Some (VStr v) \<and> v \<noteq> []) \<and>
    (\<exists>v. map_of cd ''race'' = Some (VStr v) \<and> v \<noteq> []) \<and>
    map_of cd ''level'' = Some (VStr ''1'') \<and> map_of cd ''created_at'' = Some (VStr t0)"
proof -
  from assms obtain g where "creation_steps c g t0 es = Inr (cd, f)"
    by (auto simp: character_creation_def split: if_splits option.splits sum.splits prod.splits)
  then show ?thesis by (rule creation_steps_fields)
qed

text \<open>
  During point allocation, a reply from the player that is not \<open>cancel\<close>
  and is not an integer in [0, min(7, remaining)] is discarded and the same
  ability is prompted again.
\<close>

lemma read_points_reprompt:
  assumes "check_response c m" and "py_lower (msg_content m) \<noteq> ''cancel''"
    and "\<forall>p. py_int (py_strip (msg_content m)) = Some p \<longrightarrow> \<not> (0 \<le> p \<and> p \<le> min 7 rem)"
  shows "read_points c rem (Msg m # es) = read_points c rem es"
  using assms by (subst read_points.simps) (auto split: option.splits)

end
