(* ===== verification/Generator.thy ===== *)
theory Generator
  imports Session
begin

text \<open>
  The procedural generator \<open>CharacterCreation.generate_random_character\<close>
  (\<open>src/cogs/character_creation.py\<close>, lines 570--673, with the curated
  lists of lines 71--144).  It draws race, class, name, backstory and
  alignment, shuffles the standard array, orders the abilities by the
  class's primary abilities, then the race's bonus abilities, then the rest,
  gives the shuffled values to the abilities in that order, and adds the
  racial bonuses.  All randomness comes from the list of draws \<open>rs\<close>, so a
  statement for every \<open>rs\<close> is a statement about every possible character.
\<close>

subsection \<open>The curated tables\<close>

definition names :: "string list" where
  "names =
    [''Aldrich'', ''Blackwood'', ''Cedric'', ''Darius'', ''Edmund'', ''Frederick'', ''Gregory'', ''Henrik'',
     ''Isabella'', ''Jasper'', ''Katherine'', ''Lysander'', ''Magnus'', ''Nathaniel'', ''Octavia'', ''Percival'',
     ''Aelindra'', ''Caelynn'', ''Eldrath'', ''Faelyn'', ''Galanodel'', ''Holimion'', ''Ilphukiir'', ''Liadon'',
     ''Meliamne'', ''Nailo'', ''Siannodel'', ''Xiloscient'', ''Yaeldrin'', ''Zylphara'', ''Balderk'', ''Dankil'',
     ''Gorunn'', ''Holderhek'', ''Loderr'', ''Lutgehr'', ''Rumnaheim'', ''Torunn'', ''Alton'', ''Bramble'',
     ''Corrin'', ''Derrick'', ''Eldon'', ''Finnan'', ''Garret'', ''Lindal'', ''Arjhan'', ''Balasar'',
     ''Bharash'', ''Donaar'', ''Ghesh'', ''Heskan'', ''Kriv'', ''Medrash'', ''Akmenos'', ''Barakas'',
     ''Damakos'', ''Ekemon'', ''Iados'', ''Kairon'', ''Leucis'', ''Melech'', ''Alvyn'', ''Boddynock'',
     ''Dimble'', ''Fonkin'', ''Gimble'', ''Glim'', ''Jellybean'', ''Namfoodle'', ''Dench'', ''Feng'',
     ''Gell'', ''Henk'', ''Holg'', ''Imsh'', ''Keth'', ''Krusk'', ''Ront'', ''Shump'',
     ''Azura'', ''Briar'', ''Caspian'', ''Drystan'', ''Elowen'', ''Faelan'', ''Galadriel'', ''Haldir'',
     ''Isolde'', ''Jareth'', ''Katniss'', ''Legolas'', ''Merlin'', ''Nimue'', ''Orion'', ''Phoenix'',
     ''Quill'', ''Rowan'', ''Seraphina'', ''Thorne'', ''Ulysses'', ''Vespera'', ''Willow'', ''Xanthe'',
     ''Yennefer'', ''Zephyr'', ''Arwen'', ''Boromir'', ''Celeborn'', ''Draco'', ''Eowyn'', ''Frodo'',
     ''Gimli'', ''Hermione'', ''Inigo'', ''Jaskier'', ''Kvothe'', ''Lyra'', ''Morpheus'', ''Neo'',
     ''Oberyn'', ''Poe'', ''Quentin'', ''Ripley'', ''Sauron'', ''Trinity'', ''Ursula'', ''Voldemort'',
     ''Wesley'', ''Xander'', ''Yvaine'', ''Zelda'']"

definition backstories :: "string list" where
  "backstories =
    [''Raised by wolves in the wild forest, learning the ways of nature.'',
     ''Orphaned and trained by a secretive guild of assassins.'',
     ''A noble's child who ran away from home to pursue adventure.'',
     ''Survived a shipwreck and washed ashore on a mysterious island.'',
     ''Born during a rare celestial event, blessed with magical powers.'',
     ''Former soldier who deserted after witnessing war atrocities.'',
     ''Apprentice to a powerful wizard who mysteriously disappeared.'',
     ''Village healer who left home to find a cure for a deadly plague.'',
     ''Cursed by an ancient artifact, seeking ways to break free.'',
     ''Last survivor of a destroyed monastery, carrying ancient secrets.'',
     ''Former circus performer with a mysterious magical heritage.'',
     ''Exiled noble seeking to reclaim their rightful throne.'',
     ''Scholar who discovered forbidden knowledge in ancient ruins.'',
     ''Street urchin who discovered their innate magical abilities.'',
     ''Tribal warrior chosen by ancestral spirits for a sacred quest.'',
     ''Former pirate seeking redemption through noble deeds.'',
     ''Merchant's child who lost everything to supernatural forces.'',
     ''Raised in a cult, escaped after discovering dark truths.'',
     ''Wandering storyteller collecting tales of ancient heroes.'',
     ''Survivor of a dragon attack, sworn to protect others.'',
     ''Former gladiator who won their freedom through combat.'',
     ''Child of an interplanar romance seeking their otherworldly parent.'',
     ''Hermit who received visions from their deity.'',
     ''Apprentice blacksmith whose craft was enhanced by divine blessing.'',
     ''Former guard who uncovered corruption in their city.'']"

definition alignments :: "string list" where
  "alignments =
    [''Lawful Good'', ''Neutral Good'', ''Chaotic Good'',
     ''Lawful Neutral'', ''True Neutral'', ''Chaotic Neutral'',
     ''Lawful Evil'', ''Neutral Evil'', ''Chaotic Evil'',
     ''Chaotic Good (with Lawful tendencies)'', ''Lawful Good (with Neutral tendencies)'', ''Neutral Good (with Chaotic tendencies)'',
     ''Chaotic Neutral (with Good tendencies)'', ''True Neutral (with Good tendencies)'', ''Lawful Neutral (with Good tendencies)'',
     ''Chaotic Neutral (with Evil tendencies)'', ''True Neutral (with Evil tendencies)'', ''Lawful Neutral (with Evil tendencies)'',
     ''Neutral Good (with Lawful tendencies)'', ''Neutral Evil (with Lawful tendencies)'', ''Neutral Evil (with Chaotic tendencies)'']"

definition races :: "string list" where
  "races = [''Human'', ''Elf'', ''Dwarf'', ''Halfling'', ''Gnome'', ''Dragonborn'', ''Tiefling'', ''Half-Elf'', ''Half-Orc'']"

definition classes :: "string list" where
  "classes =
    [''Artificer'', ''Barbarian'', ''Bard'', ''Cleric'', ''Druid'', ''Fighter'', ''Monk'',
     ''Paladin'', ''Ranger'', ''Rogue'', ''Sorcerer'', ''Warlock'', ''Wizard'']"

definition gen_abilities :: "string list" where
  "gen_abilities = [''strength'', ''dexterity'', ''constitution'', ''intelligence'', ''wisdom'', ''charisma'']"

text \<open>The two lookup tables of lines 595--622, and \<open>dict.get(key, [])\<close> on them.\<close>

definition class_primary_abilities :: "(string \<times> string list) list" where
  "class_primary_abilities =
    [(''Artificer'', [''intelligence'']),
     (''Barbarian'', [''strength'', ''constitution'']),
     (''Bard'', [''charisma'', ''dexterity'']),
     (''Cleric'', [''wisdom'', ''constitution'']),
     (''Druid'', [''wisdom'', ''constitution'']),
     (''Fighter'', [''strength'', ''constitution'']),
     (''Monk'', [''dexterity'', ''wisdom'']),
     (''Paladin'', [''strength'', ''charisma'']),
     (''Ranger'', [''dexterity'', ''wisdom'']),
     (''Rogue'', [''dexterity'', ''intelligence'']),
     (''Sorcerer'', [''charisma'', ''constitution'']),
     (''Warlock'', [''charisma'', ''constitution'']),
     (''Wizard'', [''intelligence'', ''constitution''])]"

definition race_ability_bonuses :: "(string \<times> string list) list" where
  "race_ability_bonuses =
    [(''Human'', [''all'']),
     (''Elf'', [''dexterity'', ''intelligence'']),
     (''Dwarf'', [''constitution'', ''wisdom'']),
     (''Halfling'', [''dexterity'', ''charisma'']),
     (''Gnome'', [''intelligence'', ''dexterity'']),
     (''Dragonborn'', [''strength'', ''charisma'']),
     (''Tiefling'', [''charisma'', ''intelligence'']),
     (''Half-Elf'', [''charisma'', ''dexterity'', ''intelligence'']),
     (''Half-Orc'', [''strength'', ''constitution''])]"

definition table_get :: "(string \<times> string list) list \<Rightarrow> string \<Rightarrow> string list" where
  "table_get tbl k = (case map_of tbl k of None \<Rightarrow> [] | Some v \<Rightarrow> v)"

text \<open>The standard array, line 625.\<close>

definition base_scores :: "int list" where
  "base_scores = [15, 14, 13, 12, 10, 8]"

subsection \<open>The priority order and the assignment\<close>

text \<open>
  One of the three loops of lines 631--644: append each ability that passes
  the loop's test and is not in the list yet.
\<close>

fun add_priorities :: "(string \<Rightarrow> bool) \<Rightarrow> string list \<Rightarrow> string list \<Rightarrow> string list" where
  "add_priorities p acc [] = acc"
| "add_priorities p acc (a # as) = add_priorities p (if p a \<and> a \<notin> set acc then acc @ [a] else acc) as"

definition ability_priorities :: "string \<Rightarrow> string \<Rightarrow> string list" where
  "ability_priorities cls race =
     add_priorities (\<lambda>_. True)
       (add_priorities (\<lambda>a. a \<noteq> ''all'')
          (add_priorities (\<lambda>_. True) [] (table_get class_primary_abilities cls))
          (table_get race_ability_bonuses race))
       gen_abilities"

text \<open>
  Lines 647--652: the \<open>i\<close>-th ability of the order gets the \<open>i\<close>-th shuffled
  value, or 8 past the end of the array.
\<close>

fun assign_scores :: "nat \<Rightarrow> string list \<Rightarrow> int list \<Rightarrow> (string \<rightharpoonup> int) \<Rightarrow> (string \<rightharpoonup> int)" where
  "assign_scores i [] base m = m"
| "assign_scores i (a # as) base m =
     assign_scores (Suc i) as base (m(a \<mapsto> (if i < length base then base ! i else 8)))"

text \<open>
  Lines 654--667: \<open>+1\<close> to every ability for the \<open>"all"\<close> entry, otherwise
  \<open>+2\<close> to the first listed ability and \<open>+1\<close> to each further one, on top of
  \<open>assigned_scores.get(ability, 8)\<close>.
\<close>

definition plus_one :: "string \<Rightarrow> (string \<rightharpoonup> int) \<Rightarrow> (string \<rightharpoonup> int)" where
  "plus_one a m = m(a \<mapsto> dict_get m a 8 + 1)"

definition apply_racial_bonuses :: "string \<Rightarrow> (string \<rightharpoonup> int) \<Rightarrow> (string \<rightharpoonup> int)" where
  "apply_racial_bonuses race m =
     (let rb = table_get race_ability_bonuses race in
      if ''all'' \<in> set rb then fold plus_one gen_abilities m
      else if rb \<noteq> [] then fold plus_one (tl rb) (m(hd rb \<mapsto> dict_get m (hd rb) 8 + 2))
      else m)"

subsection \<open>The generator\<close>

text \<open>
  Lines 570--673.  The draws happen in the order of the code: race, class,
  then the name, backstory and alignment of the dict literal, then the
  shuffle.  \<open>now\<close> is \<open>datetime.now().isoformat()\<close>.  The six scores are
  written as \<open>str(assigned_scores.get(ability, 10))\<close>, in the canonical
  order.
\<close>

definition generate_random_character :: "string \<Rightarrow> rng \<Rightarrow> char_data \<times> rng" where
  "generate_random_character now rs =
     (let (selected_race, rs) = py_choice races rs;
          (selected_class, rs) = py_choice classes rs;
          (name, rs) = py_choice names rs;
          (backstory, rs) = py_choice backstories rs;
          (alignment, rs) = py_choice alignments rs;
          cd = [(''name'', VStr name), (''class'', VStr selected_class), (''race'', VStr selected_race),
                (''backstory'', VStr backstory), (''alignment'', VStr alignment), (''level'', VStr ''1''),
                (''skills'', VList []), (''inventory'', VList []), (''spells'', VList []),
                (''cantrips'', VList []), (''created_at'', VStr now)];
          (shuffled, rs) = py_shuffle base_scores rs;
          assigned = apply_racial_bonuses selected_race
            (assign_scores 0 (ability_priorities selected_class selected_race) shuffled Map.empty)
      in (fold (\<lambda>a cd. AList.update a (VStr (str_int (dict_get assigned a 10))) cd) gen_abilities cd, rs))"

subsection \<open>The specification's bonus rule\<close>

text \<open>
  Section 4.3 of the specification: Human (the sentinel \<open>"all"\<close>) gets +1
  on every ability; another race gets +2 on its first listed ability and +1
  on each further listed one.
\<close>

definition racial_bonus :: "string \<Rightarrow> string \<Rightarrow> int" where
  "racial_bonus race a =
     (let rb = table_get race_ability_bonuses race in
      if rb = [''all''] then 1
      else (case rb of [] \<Rightarrow> 0 | b # bs \<Rightarrow> if a = b then 2 else if a \<in> set bs then 1 else 0))"

subsection \<open>Lemmas\<close>

lemma set_add_priorities:
  "set (add_priorities p acc xs) = set acc \<union> {a \<in> set xs. p a}"
  by (induction p acc xs rule: add_priorities.induct) auto

lemma distinct_add_priorities:
  "distinct acc \<Longrightarrow> distinct (add_priorities p acc xs)"
  by (induction p acc xs rule: add_priorities.induct) auto

lemma table_get_in: "set (table_get tbl k) \<subseteq> \<Union> (set ` snd ` set tbl)"
  by (force simp: table_get_def split: option.splits dest: sym [THEN map_of_SomeD])

lemma class_table_abilities: "\<Union> (set ` snd ` set class_primary_abilities) \<subseteq> set gen_abilities"
  by (simp add: class_primary_abilities_def gen_abilities_def)

lemma race_table_abilities: "\<Union> (set ` snd ` set race_ability_bonuses) \<subseteq> insert ''all'' (set gen_abilities)"
  by (simp add: race_ability_bonuses_def gen_abilities_def)

lemma set_ability_priorities: "set (ability_priorities cls race) = set gen_abilities"
  using table_get_in [of class_primary_abilities cls] table_get_in [of race_ability_bonuses race]
    class_table_abilities race_table_abilities
  by (simp add: ability_priorities_def set_add_priorities) blast

lemma distinct_ability_priorities: "distinct (ability_priorities cls race)"
  by (simp add: ability_priorities_def distinct_add_priorities)

lemma mset_ability_priorities: "mset (ability_priorities cls race) = mset gen_abilities"
proof -
  have "distinct gen_abilities" by (simp add: gen_abilities_def)
  then show ?thesis
    using set_ability_priorities distinct_ability_priorities
    by (simp add: set_eq_iff_mset_eq_distinct)
qed


lemma assign_scores_zip:
  "distinct as \<Longrightarrow> i + length as \<le> length base \<Longrightarrow>
   assign_scores i as base m = m ++ map_of (zip as (drop i base))"
proof (induction i as base m rule: assign_scores.induct)
  case (1 i base m)
  then show ?case by simp
next
  case (2 i a as base m)
  then have i: "i < length base" by simp
  have d: "distinct as" and l: "Suc i + length as \<le> length base" using "2.prems" by auto
  from "2.IH" [OF d l] have ih: "assign_scores (Suc i) as base (m(a \<mapsto> base ! i)) =
      m(a \<mapsto> base ! i) ++ map_of (zip as (drop (Suc i) base))"
    by (simp only: if_P [OF i])
  have a: "a \<notin> dom (map_of (zip as (drop (Suc i) base)))"
    using "2.prems"(1) by (auto dest: set_zip_leftD simp: dom_map_of_conv_image_fst)
  have drop: "drop i base = base ! i # drop (Suc i) base" using i by (simp add: Cons_nth_drop_Suc)
  have "assign_scores i (a # as) base m = assign_scores (Suc i) as base (m(a \<mapsto> base ! i))"
    using i by simp
  also have "\<dots> = m(a \<mapsto> base ! i) ++ map_of (zip as (drop (Suc i) base))" by (rule ih)
  also have "\<dots> = (m ++ map_of (zip as (drop (Suc i) base)))(a \<mapsto> base ! i)"
    using a by (rule map_add_upd_left)
  also have "\<dots> = m ++ (map_of (zip as (drop (Suc i) base)))(a \<mapsto> base ! i)"
    by (rule map_add_upd [symmetric])
  also have "\<dots> = m ++ map_of (zip (a # as) (drop i base))" using drop by simp
  finally show ?case .
qed

lemma the_map_of_zip:
  assumes "length xs = length ys" and "distinct xs"
  shows "map (\<lambda>x. the (map_of (zip xs ys) x)) xs = ys"
  using assms
proof (induction xs ys rule: list_induct2)
  case Nil
  then show ?case by simp
next
  case (Cons x xs y ys)
  then have "x \<notin> set xs" by simp
  then have "map (\<lambda>z. the (((map_of (zip xs ys))(x \<mapsto> y)) z)) xs = map (\<lambda>z. the (map_of (zip xs ys) z)) xs"
    by (intro map_cong) auto
  with Cons show ?case by simp
qed

lemma fold_plus_one:
  "distinct xs \<Longrightarrow> fold plus_one xs m k = (if k \<in> set xs then Some (dict_get m k 8 + 1) else m k)"
  by (induction xs arbitrary: m) (auto simp: plus_one_def dict_get_def)

lemma map_of_fold_update:
  "map_of (fold (\<lambda>a cd. AList.update a (f a) cd) as cd) k = (if k \<in> set as then Some (f k) else map_of cd k)"
  by (induction as arbitrary: cd) (auto simp: update_conv')

lemma race_table_distinct: "\<forall>(r, bs) \<in> set race_ability_bonuses. distinct bs"
  by (simp add: race_ability_bonuses_def)

lemma distinct_table_get_race: "distinct (table_get race_ability_bonuses race)"
  using race_table_distinct
  by (fastforce simp: table_get_def split: option.splits dest: map_of_SomeD)


lemma race_table_all: "\<forall>(r, bs) \<in> set race_ability_bonuses. ''all'' \<in> set bs \<longrightarrow> bs = [''all'']"
  by (simp add: race_ability_bonuses_def)

lemma table_get_race_all: "''all'' \<in> set (table_get race_ability_bonuses race) \<Longrightarrow>
    table_get race_ability_bonuses race = [''all'']"
  using race_table_all
  by (fastforce simp: table_get_def split: option.splits dest: map_of_SomeD)

lemma racial_bonuses_at:
  assumes "a \<in> set gen_abilities" and "m a = Some v"
  shows "apply_racial_bonuses race m a = Some (v + racial_bonus race a)"
proof -
  let ?rb = "table_get race_ability_bonuses race"
  have dg: "distinct gen_abilities" by (simp add: gen_abilities_def)
  have "''all'' \<notin> set gen_abilities" by (simp add: gen_abilities_def)
  show ?thesis
  proof (cases "''all'' \<in> set ?rb")
    case True
    then have "?rb = [''all'']" by (rule table_get_race_all)
    with True assms dg show ?thesis
      by (simp add: apply_racial_bonuses_def racial_bonus_def fold_plus_one dict_get_def)
  next
    case False
    show ?thesis
    proof (cases ?rb)
      case Nil
      with assms show ?thesis by (simp add: apply_racial_bonuses_def racial_bonus_def)
    next
      case (Cons b bs)
      have "distinct (b # bs)" using distinct_table_get_race [of race] Cons by simp
      then have b: "b \<notin> set bs" and dbs: "distinct bs" by simp_all
      have nall: "b # bs \<noteq> [''all'']" using False Cons by auto
      show ?thesis using False Cons nall b dbs assms
        by (auto simp: apply_racial_bonuses_def racial_bonus_def fold_plus_one dict_get_def)
    qed
  qed
qed

text \<open>
  C20: The code's sequential racial-bonus updates refine the specification's rule:
  on an ability that has a score, +1 for the sentinel "all" (Human), +2
  for the first listed ability and +1 for each further listed one,
  nothing otherwise.
\<close>

theorem apply_racial_bonuses_eq:
  assumes "a \<in> set gen_abilities" and "m a = Some v"
  shows "apply_racial_bonuses race m a = Some (v + racial_bonus race a)"
  using assms by (rule racial_bonuses_at)

lemma priority_values:
  fixes cls race :: string
  assumes "mset sh = mset base_scores"
  defines "f \<equiv> \<lambda>a. the (map_of (zip (ability_priorities cls race) sh) a)"
  shows "(\<forall>a \<in> set gen_abilities. map_of (zip (ability_priorities cls race) sh) a = Some (f a)) \<and>
         mset (map f gen_abilities) = mset base_scores"
proof -
  let ?p = "ability_priorities cls race"
  have "length ?p = length gen_abilities" by (rule mset_eq_length [OF mset_ability_priorities])
  moreover have "length sh = length base_scores" by (rule mset_eq_length [OF assms(1)])
  ultimately have lp: "length ?p = length sh" by (simp add: gen_abilities_def base_scores_def)
  have "\<forall>a \<in> set gen_abilities. map_of (zip ?p sh) a = Some (f a)"
    using lp set_ability_priorities [of cls race] by (auto simp: f_def map_of_zip_is_None)
  moreover have "mset (map f gen_abilities) = mset (map f ?p)"
    using mset_ability_priorities [of cls race] by (metis mset_map)
  moreover have "map f ?p = sh"
    unfolding f_def using lp distinct_ability_priorities by (rule the_map_of_zip)
  ultimately show ?thesis using assms(1) by simp
qed


lemma generate_unfold:
  assumes "generate_random_character now rs = (cd, rs')"
  obtains race cls sh cd0 where
    "race \<in> set races" "cls \<in> set classes" "mset sh = mset base_scores"
    "map_of cd0 ''race'' = Some (VStr race)" "map_of cd0 ''class'' = Some (VStr cls)"
    "cd = fold (\<lambda>a cd. AList.update a (VStr (str_int (dict_get
            (apply_racial_bonuses race (assign_scores 0 (ability_priorities cls race) sh Map.empty)) a 10))) cd)
          gen_abilities cd0"
proof -
  obtain race rs1 where r1: "py_choice races rs = (race, rs1)" by fastforce
  obtain cls rs2 where r2: "py_choice classes rs1 = (cls, rs2)" by fastforce
  obtain nm rs3 where r3: "py_choice names rs2 = (nm, rs3)" by fastforce
  obtain bs rs4 where r4: "py_choice backstories rs3 = (bs, rs4)" by fastforce
  obtain al rs5 where r5: "py_choice alignments rs4 = (al, rs5)" by fastforce
  obtain sh rs6 where r6: "py_shuffle base_scores rs5 = (sh, rs6)" by fastforce
  have "race \<in> set races" using py_choice_in [of races rs] r1 by (simp add: races_def)
  moreover have "cls \<in> set classes" using py_choice_in [of classes rs1] r2 by (simp add: classes_def)
  moreover have "mset sh = mset base_scores" using mset_py_shuffle [of base_scores rs5] r6 by simp
  moreover from assms r1 r2 r3 r4 r5 r6 show ?thesis
    by (intro that [OF calculation]) (auto simp: generate_random_character_def)
qed

lemma generate_string_fields:
  assumes "generate_random_character now rs = (cd, rs')"
  shows "\<forall>k \<in> set [''name'', ''class'', ''race'', ''level'', ''created_at'']. \<exists>s. map_of cd k = Some (VStr s)"
proof -
  have "\<forall>k \<in> set [''name'', ''class'', ''race'', ''level'', ''created_at'']. k \<notin> set gen_abilities"
    by (simp add: gen_abilities_def)
  with assms show ?thesis
    by (auto simp: generate_random_character_def map_of_fold_update Let_def split: prod.splits)
qed

lemma generated_score:
  assumes "mset sh = mset base_scores" and "a \<in> set gen_abilities"
  shows "dict_get (apply_racial_bonuses race (assign_scores 0 (ability_priorities cls race) sh Map.empty)) a 10 =
     the (map_of (zip (ability_priorities cls race) sh) a) + racial_bonus race a"
proof -
  have "length sh = length base_scores" by (rule mset_eq_length [OF assms(1)])
  moreover have "length (ability_priorities cls race) = length gen_abilities"
    by (rule mset_eq_length [OF mset_ability_priorities])
  ultimately have "assign_scores 0 (ability_priorities cls race) sh Map.empty =
      map_of (zip (ability_priorities cls race) sh)"
    using assign_scores_zip [of "ability_priorities cls race" 0 sh Map.empty] distinct_ability_priorities
    by (simp add: gen_abilities_def base_scores_def)
  moreover from priority_values [OF assms(1), of cls race] assms(2)
  have "map_of (zip (ability_priorities cls race) sh) a =
      Some (the (map_of (zip (ability_priorities cls race) sh) a))" by blast
  ultimately show ?thesis
    using racial_bonuses_at [OF assms(2), of "map_of (zip (ability_priorities cls race) sh)"]
    by (simp add: dict_get_def)
qed

lemma generate_scores_core:
  assumes "generate_random_character now rs = (cd, rs')"
  shows "\<exists>race vs. map_of cd ''race'' = Some (VStr race) \<and> race \<in> set races \<and>
     mset vs = mset base_scores \<and>
     map (score_of cd) gen_abilities = map2 (\<lambda>a v. Some (v + racial_bonus race a)) gen_abilities vs"
proof -
  obtain race cls sh cd0 where r: "race \<in> set races" and sh: "mset sh = mset base_scores"
    and cd0: "map_of cd0 ''race'' = Some (VStr race)"
    and cd: "cd = fold (\<lambda>a cd. AList.update a (VStr (str_int (dict_get
            (apply_racial_bonuses race (assign_scores 0 (ability_priorities cls race) sh Map.empty)) a 10))) cd)
          gen_abilities cd0"
    using assms by (rule generate_unfold)
  define f where "f = (\<lambda>a. the (map_of (zip (ability_priorities cls race) sh) a))"
  have "''race'' \<notin> set gen_abilities" by (simp add: gen_abilities_def)
  then have "map_of cd ''race'' = Some (VStr race)"
    using cd0 by (simp add: cd map_of_fold_update)
  moreover have "mset (map f gen_abilities) = mset base_scores"
    using priority_values [OF sh, of cls race] by (simp add: f_def)
  moreover have "map (score_of cd) gen_abilities = map (\<lambda>a. Some (f a + racial_bonus race a)) gen_abilities"
    using generated_score [OF sh] by (simp add: cd map_of_fold_update score_of_def f_def)
  ultimately show ?thesis using r
    by (intro exI [of _ race] exI [of _ "map f gen_abilities"]) (simp add: zip_map2 zip_same_conv_map)
qed


text \<open>
  C3: Every generated character's six scores, read back in canonical order,
  are a permutation of the standard array 15, 14, 13, 12, 10, 8 with the
  race's bonus added on top: no two abilities share a standard-array value,
  and the bonuses are strictly additive.
\<close>

theorem generate_scores:
  assumes "generate_random_character now rs = (cd, rs')"
  shows "\<exists>race vs. map_of cd ''race'' = Some (VStr race) \<and> race \<in> set races \<and>
     mset vs = mset base_scores \<and>
     map (score_of cd) gen_abilities = map2 (\<lambda>a v. Some (v + racial_bonus race a)) gen_abilities vs"
  using assms by (rule generate_scores_core)

lemma add_priorities_filter:
  "distinct xs \<Longrightarrow> add_priorities p acc xs = acc @ filter (\<lambda>a. p a \<and> a \<notin> set acc) xs"
proof (induction xs arbitrary: acc)
  case Nil
  then show ?case by simp
next
  case (Cons a as)
  then have a: "a \<notin> set as" and d: "distinct as" by simp_all
  have eq: "filter (\<lambda>b. p b \<and> b \<notin> set (acc @ [a])) as = filter (\<lambda>b. p b \<and> b \<notin> set acc) as"
    using a by (intro filter_cong) auto
  show ?case using Cons.IH [OF d] eq by simp
qed

lemma class_table_distinct: "distinct (table_get class_primary_abilities cls)"
proof -
  have "\<forall>(c, bs) \<in> set class_primary_abilities. distinct bs" by (simp add: class_primary_abilities_def)
  then show ?thesis by (fastforce simp: table_get_def split: option.splits dest: map_of_SomeD)
qed

text \<open>
  C22: The three loops that build the priority order compute exactly: the class's
  primary abilities, then the race's bonus abilities not yet listed (the
  sentinel "all" skipped), then the remaining abilities in canonical order.
\<close>

theorem ability_priorities_order:
  "ability_priorities cls race =
     (let prim = table_get class_primary_abilities cls;
          rb = table_get race_ability_bonuses race
      in prim @ filter (\<lambda>a. a \<noteq> ''all'' \<and> a \<notin> set prim) rb
             @ filter (\<lambda>a. a \<notin> set prim \<and> a \<notin> set rb) gen_abilities)"
proof -
  let ?prim = "table_get class_primary_abilities cls"
  let ?rb = "table_get race_ability_bonuses race"
  have dg: "distinct gen_abilities" by (simp add: gen_abilities_def)
  have "set (?prim @ filter (\<lambda>a. a \<noteq> ''all'' \<and> a \<notin> set ?prim) ?rb) \<union> {''all''} \<supseteq> set ?rb"
    by auto
  then have "filter (\<lambda>a. a \<notin> set (?prim @ filter (\<lambda>a. a \<noteq> ''all'' \<and> a \<notin> set ?prim) ?rb)) gen_abilities =
      filter (\<lambda>a. a \<notin> set ?prim \<and> a \<notin> set ?rb) gen_abilities"
    by (intro filter_cong) (auto simp: gen_abilities_def)
  then show ?thesis
    using class_table_distinct [of cls] distinct_table_get_race [of race] dg
    by (simp add: ability_priorities_def add_priorities_filter Let_def)
qed

text \<open>
  A generated character's class and race are drawn from the fixed 13-value
  and 9-value enumerations.
\<close>

lemma generate_fields:
  assumes "generate_random_character now rs = (cd, rs')"
  shows "\<exists>c r. map_of cd ''class'' = Some (VStr c) \<and> c \<in> set classes \<and>
    map_of cd ''race'' = Some (VStr r) \<and> r \<in> set races"
proof -
  obtain race cls sh cd0 where "race \<in> set races" "cls \<in> set classes"
    "map_of cd0 ''race'' = Some (VStr race)" "map_of cd0 ''class'' = Some (VStr cls)"
    "cd = fold (\<lambda>a cd. AList.update a (VStr (str_int (dict_get
            (apply_racial_bonuses race (assign_scores 0 (ability_priorities cls race) sh Map.empty)) a 10))) cd)
          gen_abilities cd0"
    using assms by (rule generate_unfold)
  moreover have "''race'' \<notin> set gen_abilities" "''class'' \<notin> set gen_abilities"
    by (simp_all add: gen_abilities_def)
  ultimately show ?thesis by (auto simp: map_of_fold_update)
qed

lemma racial_bonus_range: "0 \<le> racial_bonus race a \<and> racial_bonus race a \<le> 2"
  by (simp add: racial_bonus_def Let_def split: list.splits)

text \<open>
  Every generated ability score lies in [8, 17].
\<close>

lemma generate_score_bounds:
  assumes "generate_random_character now rs = (cd, rs')" and "a \<in> set gen_abilities"
  shows "\<exists>v. score_of cd a = Some v \<and> 8 \<le> v \<and> v \<le> 17"
proof -
  obtain race vs where m: "mset vs = mset base_scores"
    and s: "map (score_of cd) gen_abilities = map2 (\<lambda>a v. Some (v + racial_bonus race a)) gen_abilities vs"
    using generate_scores_core [OF assms(1)] by blast
  have lv: "length vs = length gen_abilities"
    using mset_eq_length [OF m] by (simp add: base_scores_def gen_abilities_def)
  obtain k where k: "k < length gen_abilities" "gen_abilities ! k = a"
    using assms(2) by (auto simp: in_set_conv_nth)
  have "score_of cd a = Some (vs ! k + racial_bonus race a)"
    using arg_cong [OF s, of "\<lambda>xs. xs ! k"] k lv by simp
  moreover have "vs ! k \<in> set base_scores"
    using k lv m by (metis nth_mem mset_eq_setD)
  then have "8 \<le> vs ! k \<and> vs ! k \<le> 15" by (auto simp: base_scores_def)
  ultimately show ?thesis using racial_bonus_range [of race a] by auto
qed

text \<open>
  C16: The standard array is shuffled before it is dealt out in priority
  order, so the priority order has no effect on which values an ability can
  get: for every race and class of the tables and every arrangement of the
  array over the six abilities, some draws make the generator produce that
  race and class with exactly that arrangement (plus the racial bonuses), a
  class's primary ability with 8 included.
\<close>

theorem generate_any_assignment:
  assumes race: "race \<in> set races" and cls: "cls \<in> set classes" and vs: "mset vs = mset base_scores"
  shows "\<exists>rs cd rs'. generate_random_character now rs = (cd, rs') \<and>
     map_of cd ''race'' = Some (VStr race) \<and> map_of cd ''class'' = Some (VStr cls) \<and>
     map (score_of cd) gen_abilities = map2 (\<lambda>a v. Some (v + racial_bonus race a)) gen_abilities vs"
proof -
  let ?p = "ability_priorities cls race"
  define v where "v = (\<lambda>a. the (map_of (zip gen_abilities vs) a))"
  define sh where "sh = map v ?p"
  have lv: "length gen_abilities = length vs"
    using mset_eq_length [OF vs] by (simp add: base_scores_def gen_abilities_def)
  have "mset sh = mset (map v gen_abilities)"
    unfolding sh_def using mset_ability_priorities [of cls race] by (metis mset_map)
  also have vmap: "map v gen_abilities = vs"
    unfolding v_def using lv by (rule the_map_of_zip) (simp add: gen_abilities_def)
  finally have msh: "mset sh = mset base_scores" using vs by simp
  obtain rs6 where rs6: "fst (py_shuffle base_scores rs6) = sh"
    using py_shuffle_onto [OF msh] by blast
  obtain i where i: "i < length races" "races ! i = race" using race by (auto simp: in_set_conv_nth)
  obtain j where j: "j < length classes" "classes ! j = cls" using cls by (auto simp: in_set_conv_nth)
  define rs where "rs = i # j # 0 # 0 # 0 # rs6"
  obtain cd rs' where g: "generate_random_character now rs = (cd, rs')" by fastforce
  have cd: "cd = fold (\<lambda>a cd. AList.update a (VStr (str_int (dict_get
            (apply_racial_bonuses race (assign_scores 0 ?p sh Map.empty)) a 10))) cd)
          gen_abilities
          [(''name'', VStr (fst (py_choice names (0 # 0 # 0 # rs6)))), (''class'', VStr cls), (''race'', VStr race),
           (''backstory'', VStr (fst (py_choice backstories (0 # 0 # rs6)))),
           (''alignment'', VStr (fst (py_choice alignments (0 # rs6)))), (''level'', VStr ''1''),
           (''skills'', VList []), (''inventory'', VList []), (''spells'', VList []),
           (''cantrips'', VList []), (''created_at'', VStr now)]"
    using g i j rs6 by (auto simp: generate_random_character_def rs_def py_choice_nth py_choice_def randbelow_def
        Let_def split: prod.splits)
  have "map (score_of cd) gen_abilities =
      map (\<lambda>a. Some (the (map_of (zip ?p sh) a) + racial_bonus race a)) gen_abilities"
    using generated_score [OF msh] by (simp add: cd map_of_fold_update score_of_def)
  also have "\<dots> = map (\<lambda>a. Some (v a + racial_bonus race a)) gen_abilities"
    using set_ability_priorities [of cls race] by (simp add: sh_def map_of_zip_map)
  also have "\<dots> = map2 (\<lambda>a v. Some (v + racial_bonus race a)) gen_abilities vs"
    unfolding vmap [symmetric] by (simp add: zip_map2 zip_same_conv_map)
  finally have "map (score_of cd) gen_abilities = map2 (\<lambda>a v. Some (v + racial_bonus race a)) gen_abilities vs" .
  moreover have "map_of cd ''race'' = Some (VStr race)" "map_of cd ''class'' = Some (VStr cls)"
    by (simp_all add: cd map_of_fold_update gen_abilities_def)
  ultimately show ?thesis using g by blast
qed

end
