(* ===== verification/RandomFlow.thy ===== *)
theory RandomFlow
  imports Wizard Generator
begin

text \<open>
  The \<open>!random\<close> command, \<open>CharacterCreation.random_character\<close> (lines
  520--568), with \<open>display_and_confirm\<close> (lines 675--733): after the same
  preconditions and replace gate as the wizard, a loop generates a
  character, resolves a name clash with another player's character,
  shows it and waits for \<open>yes\<close> (save and stop), \<open>no\<close> (generate again) or a
  timeout (stop without saving).  The loop is a \<open>function\<close> whose
  termination is that every reroll consumes the \<open>no\<close> message; the
  lemmas show what an accepted run saves, that a timeout saves nothing, and
  that any number of \<open>no\<close> replies followed by \<open>yes\<close> ends accepted.
\<close>

subsection \<open>The duplicate-name resolver\<close>

text \<open>\<open>d.get(key, default)\<close> for a string field.\<close>

definition get_str :: "char_data \<Rightarrow> string \<Rightarrow> string \<Rightarrow> string" where
  "get_str cd k d = (case map_of cd k of Some (VStr s) \<Rightarrow> s | _ \<Rightarrow> d)"

text \<open>The lower-cased names of the other players' characters (lines 686--687).\<close>

definition used_names :: "game \<Rightarrow> string \<Rightarrow> string list" where
  "used_names g u = [py_lower (get_str cd ''name'' ''''). (pid, cd) \<leftarrow> characters g, pid \<noteq> u]"

text \<open>The scan of lines 678--682.\<close>

definition name_in_use :: "game \<Rightarrow> string \<Rightarrow> string \<Rightarrow> bool" where
  "name_in_use g u n \<longleftrightarrow>
     (\<exists>(pid, cd) \<in> set (characters g). pid \<noteq> u \<and> py_lower (get_str cd ''name'' '''') = py_lower n)"

text \<open>Lines 677--691: on a clash, draw a curated name nobody else uses, if any.\<close>

definition resolve_name :: "char_data \<Rightarrow> game \<Rightarrow> string \<Rightarrow> rng \<Rightarrow> char_data \<times> rng" where
  "resolve_name cd g u rs =
     (if name_in_use g u (get_str cd ''name'' '''') then
        (let available = [n \<leftarrow> names. py_lower n \<notin> set (used_names g u)] in
         if available \<noteq> [] then
           (let (n, rs') = py_choice available rs in (AList.update ''name'' (VStr n) cd, rs'))
         else (cd, rs))
      else (cd, rs))"

subsection \<open>Showing and confirming one character\<close>

datatype confirm_outcome = Accepted bool | Rerolled | ConfirmTimedOut

text \<open>
  Lines 675--733.  On \<open>yes\<close> the character is written into the game dict the
  command read at its start, the game is saved and read again for the
  readiness notice; \<open>no\<close> asks for a new character; a timeout ends the loop
  without saving.  The result carries the outcome, the remaining draws and
  script, and the store.
\<close>

definition display_and_confirm ::
  "ctx \<Rightarrow> string \<Rightarrow> char_data \<Rightarrow> game \<Rightarrow> rng \<Rightarrow> event list \<Rightarrow> store \<Rightarrow>
   confirm_outcome \<times> char_data \<times> rng \<times> event list \<times> store" where
  "display_and_confirm c t cd g rs es st =
     (let (cd, rs) = resolve_name cd g (ctx_author c) rs in
      case wait_for (check_dm_confirm c) es of
        (None, es') \<Rightarrow> (ConfirmTimedOut, cd, rs, es', st)
      | (Some m, es') \<Rightarrow>
          (if py_lower (msg_content m) = ''yes'' then
             (let (st', ready) = commit_character (ctx_channel c) (ctx_author c) t cd g st
              in (Accepted ready, cd, rs, es', st'))
           else (Rerolled, cd, rs, es', st)))"

subsection \<open>The reroll loop and the command\<close>

text \<open>Lines 565--568: generate, show, and go round again on \<open>no\<close>.\<close>

function reroll_loop ::
  "ctx \<Rightarrow> string \<Rightarrow> game \<Rightarrow> rng \<Rightarrow> event list \<Rightarrow> store \<Rightarrow> confirm_outcome \<times> char_data \<times> store" where
  "reroll_loop c t g rs es st =
     (let (cd, rs) = generate_random_character t rs;
          (out, cd, rs, es', st') = display_and_confirm c t cd g rs es st
      in (case out of Rerolled \<Rightarrow> reroll_loop c t g rs es' st' | _ \<Rightarrow> (out, cd, st')))"
  by pat_completeness auto
termination
  by (relation "measure (\<lambda>(c, t, g, rs, es, st). length es)")
    (auto simp: display_and_confirm_def split: prod.splits option.splits if_splits
      dest: wait_for_Some)

declare reroll_loop.simps [simp del]

datatype random_result = RAborted abort | RAccepted char_data bool | RTimedOut char_data

text \<open>
  \<open>!random\<close>, lines 520--568: the wizard's preconditions and its
  replace-existing gate (the code repeats lines 182--199 as lines 545--562),
  then the loop.
\<close>

definition random_character ::
  "ctx \<Rightarrow> string \<Rightarrow> rng \<Rightarrow> event list \<Rightarrow> store \<Rightarrow> random_result \<times> store" where
  "random_character c t rs es st =
     (if \<not> parent_loaded c then (RAborted NoParent, st)
      else
        (case get_game st (ctx_channel c) of
           None \<Rightarrow> (RAborted NoGame, st)
         | Some g \<Rightarrow>
             (if ctx_author c \<notin> set (player_ids g) then (RAborted NotPlayer, st)
              else
                (case replace_gate c g es of
                   Inl a \<Rightarrow> (RAborted a, st)
                 | Inr es' \<Rightarrow>
                     (case reroll_loop c t g rs es' st of
                        (Accepted ready, cd, st') \<Rightarrow> (RAccepted cd ready, st')
                      | (_, cd, st') \<Rightarrow> (RTimedOut cd, st'))))))"

text \<open>A direct message of the invoking user, the reply the loop waits for.\<close>

definition dm_reply :: "ctx \<Rightarrow> string \<Rightarrow> event" where
  "dm_reply c s = Msg \<lparr>msg_author = ctx_author c, msg_channel = DMChannel (ctx_author c), msg_content = s\<rparr>"

subsection \<open>Lemmas: the resolver\<close>

lemma name_in_use_iff: "name_in_use g u n \<longleftrightarrow> py_lower n \<in> set (used_names g u)"
  by (force simp: name_in_use_def used_names_def)

lemma resolve_name_other:
  "resolve_name cd g u rs = (cd', rs') \<Longrightarrow> k \<noteq> ''name'' \<Longrightarrow> map_of cd' k = map_of cd k"
  by (auto simp: resolve_name_def Let_def update_conv' split: if_splits prod.splits)

lemma resolve_name_fresh:
  assumes "resolve_name cd g u rs = (cd', rs')"
    and "\<exists>n \<in> set names. py_lower n \<notin> set (used_names g u)"
  shows "\<not> name_in_use g u (get_str cd' ''name'' '''')"
proof (cases "name_in_use g u (get_str cd ''name'' '''')")
  case False
  with assms(1) show ?thesis by (simp add: resolve_name_def)
next
  case True
  let ?av = "[n \<leftarrow> names. py_lower n \<notin> set (used_names g u)]"
  have ne: "?av \<noteq> []" using assms(2) by (auto simp: filter_empty_conv)
  obtain n rs1 where ch: "py_choice ?av rs = (n, rs1)" by fastforce
  have "n \<in> set ?av" using py_choice_in [OF ne, of rs] ch by simp
  moreover have "cd' = AList.update ''name'' (VStr n) cd"
    using assms(1) True ne ch by (simp add: resolve_name_def Let_def)
  ultimately show ?thesis by (simp add: name_in_use_iff get_str_def update_conv')
qed

text \<open>The resolver leaves the character and the draws alone when the name
  does not clash with another player's character, or when every curated name is
  already taken by another player.\<close>

lemma resolve_name_keeps:
  "\<not> name_in_use g u (get_str cd ''name'' '''') \<or>
   (\<forall>n \<in> set names. py_lower n \<in> set (used_names g u)) \<Longrightarrow>
   resolve_name cd g u rs = (cd, rs)"
  by (auto simp: resolve_name_def Let_def filter_empty_conv)

subsection \<open>The loop and the command\<close>

lemma reroll_loop_cases:
  "reroll_loop c t g rs es st = (out, cd, st') \<Longrightarrow>
     (\<exists>rs0 cd0 rs1 rs2. generate_random_character t rs0 = (cd0, rs1) \<and>
        resolve_name cd0 g (ctx_author c) rs1 = (cd, rs2)) \<and>
     ((out = ConfirmTimedOut \<and> st' = st) \<or>
      (\<exists>b. out = Accepted b \<and> b = all_ready (put_character (ctx_author c) cd g) \<and>
         st' = save_game (ctx_channel c) ((put_character (ctx_author c) cd g)\<lparr>last_updated := t\<rparr>) st))"
proof (induction c t g rs es st arbitrary: out cd st' rule: reroll_loop.induct)
  case (1 c t g rs es st)
  obtain cd0 rs1 where gen: "generate_random_character t rs = (cd0, rs1)" by fastforce
  obtain cd1 rs2 where res: "resolve_name cd0 g (ctx_author c) rs1 = (cd1, rs2)" by fastforce
  obtain r es' where w: "wait_for (check_dm_confirm c) es = (r, es')" by fastforce
  show ?case
  proof (cases r)
    case None
    with "1.prems" gen res w show ?thesis
      by (subst (asm) reroll_loop.simps) (auto simp: display_and_confirm_def)
  next
    case (Some m)
    show ?thesis
    proof (cases "py_lower (msg_content m) = ''yes''")
      case True
      with Some "1.prems" gen res w show ?thesis
        by (subst (asm) reroll_loop.simps)
          (auto simp: display_and_confirm_def commit_character_def all_ready_def put_character_def)
    next
      case False
      with Some "1.prems" gen res w have "reroll_loop c t g rs2 es' st = (out, cd, st')"
        by (subst (asm) reroll_loop.simps) (simp add: display_and_confirm_def)
      with "1.IH" [OF gen [symmetric] refl, of "(Rerolled, cd1, rs2, es', st)" Rerolled
          "(cd1, rs2, es', st)" cd1 "(rs2, es', st)" rs2 "(es', st)" es' st]
        gen res w Some False
      show ?thesis by (simp add: display_and_confirm_def)
    qed
  qed
qed


lemma random_character_loop:
  "random_character c t rs es st = (r, st') \<Longrightarrow>
     (\<exists>a. r = RAborted a \<and> st' = st) \<or>
     (\<exists>g es' out cd. get_game st (ctx_channel c) = Some g \<and> replace_gate c g es = Inr es' \<and>
        reroll_loop c t g rs es' st = (out, cd, st') \<and>
        r = (case out of Accepted b \<Rightarrow> RAccepted cd b | _ \<Rightarrow> RTimedOut cd))"
  by (auto simp: random_character_def split: if_splits option.splits sum.splits prod.splits
      confirm_outcome.splits)

text \<open>C6: \<open>!random\<close> changes the store only by an accepted character: the
  invoker's entry of the game read at the start is set to the accepted record,
  stamped, and saved to the invoking channel; every other outcome (a hard stop,
  a declined replacement, a timeout) leaves the store as it was.\<close>

theorem random_persists_only_on_yes:
  assumes "random_character c t rs es st = (r, st')"
  shows "st' = st \<or>
    (\<exists>cd b g. r = RAccepted cd b \<and> get_game st (ctx_channel c) = Some g \<and>
       st' = save_game (ctx_channel c) ((put_character (ctx_author c) cd g)\<lparr>last_updated := t\<rparr>) st)"
  using random_character_loop [OF assms]
proof
  assume "\<exists>g es' out cd. get_game st (ctx_channel c) = Some g \<and> replace_gate c g es = Inr es' \<and>
        reroll_loop c t g rs es' st = (out, cd, st') \<and>
        r = (case out of Accepted b \<Rightarrow> RAccepted cd b | _ \<Rightarrow> RTimedOut cd)"
  then obtain g es' out cd where g: "get_game st (ctx_channel c) = Some g"
    and l: "reroll_loop c t g rs es' st = (out, cd, st')"
    and r: "r = (case out of Accepted b \<Rightarrow> RAccepted cd b | _ \<Rightarrow> RTimedOut cd)"
    by blast
  from reroll_loop_cases [OF l] g r show ?thesis by auto
qed auto

lemma accepted_from_generator:
  assumes "random_character c t rs es st = (RAccepted cd b, st')"
  obtains g rs0 cd0 rs1 rs2 where "get_game st (ctx_channel c) = Some g"
    "generate_random_character t rs0 = (cd0, rs1)" "resolve_name cd0 g (ctx_author c) rs1 = (cd, rs2)"
proof -
  have "\<exists>g es' out. get_game st (ctx_channel c) = Some g \<and> reroll_loop c t g rs es' st = (out, cd, st')"
    using random_character_loop [OF assms]
    by (auto split: confirm_outcome.split_asm) (metis confirm_outcome.exhaust)
  then obtain g es' out where g: "get_game st (ctx_channel c) = Some g"
    and l: "reroll_loop c t g rs es' st = (out, cd, st')"
    by blast
  from reroll_loop_cases [OF l] g show ?thesis by (blast intro: that)
qed

text \<open>C10: The character \<open>!random\<close> saves has the generator's scores: a
  permutation of the standard array plus the racial bonus of its race; the
  duplicate-name resolver changes nothing but the name.\<close>

theorem random_accepted_scores:
  assumes "random_character c t rs es st = (RAccepted cd b, st')"
  shows "\<exists>race vs. map_of cd ''race'' = Some (VStr race) \<and> race \<in> set races \<and>
     mset vs = mset base_scores \<and>
     map (score_of cd) gen_abilities = map2 (\<lambda>a v. Some (v + racial_bonus race a)) gen_abilities vs"
proof -
  obtain g rs0 cd0 rs1 rs2 where gen: "generate_random_character t rs0 = (cd0, rs1)"
    and res: "resolve_name cd0 g (ctx_author c) rs1 = (cd, rs2)"
    using assms by (rule accepted_from_generator)
  have "\<forall>a \<in> set gen_abilities. map_of cd a = map_of cd0 a"
    using resolve_name_other [OF res] by (simp add: gen_abilities_def)
  then have "map (score_of cd) gen_abilities = map (score_of cd0) gen_abilities"
    by (simp add: score_of_def)
  moreover have "map_of cd ''race'' = map_of cd0 ''race''" using resolve_name_other [OF res] by simp
  ultimately show ?thesis using generate_scores_core [OF gen] by (simp only:)
qed

text \<open>C26: When some curated name is free, the accepted character's name
  clashes (case-insensitively) with no other player's character of the game.\<close>

theorem random_name_unique:
  assumes "random_character c t rs es st = (RAccepted cd b, st')"
    and "get_game st (ctx_channel c) = Some g"
    and "\<exists>n \<in> set names. py_lower n \<notin> set (used_names g (ctx_author c))"
  shows "\<not> name_in_use g (ctx_author c) (get_str cd ''name'' '''')"
proof -
  obtain g' rs0 cd0 rs1 rs2 where g': "get_game st (ctx_channel c) = Some g'"
    and res: "resolve_name cd0 g' (ctx_author c) rs1 = (cd, rs2)"
    using assms(1) by (rule accepted_from_generator)
  from g' assms(2) have "g' = g" by simp
  with resolve_name_fresh [OF res] assms(3) show ?thesis by simp
qed

text \<open>C34: A player with no character who lets the accept-or-reroll prompt
  time out gets nothing saved: the timeout ends \<open>!random\<close> with the store
  unchanged.\<close>

theorem random_timeout_no_write:
  assumes "parent_loaded c" and "get_game st (ctx_channel c) = Some g"
    and "ctx_author c \<in> set (player_ids g)" and "\<not> has_character g (ctx_author c)"
  shows "\<exists>cd. random_character c t rs [] st = (RTimedOut cd, st)"
proof -
  obtain cd0 rs1 where gen: "generate_random_character t rs = (cd0, rs1)" by fastforce
  obtain cd1 rs2 where res: "resolve_name cd0 g (ctx_author c) rs1 = (cd1, rs2)" by fastforce
  have "reroll_loop c t g rs [] st = (ConfirmTimedOut, cd1, st)"
    using gen res by (subst reroll_loop.simps) (simp add: display_and_confirm_def)
  with assms show ?thesis by (simp add: random_character_def replace_gate_def)
qed

lemma py_lower_yes_no [simp]: "py_lower ''yes'' = ''yes''" "py_lower ''no'' = ''no''"
  by (simp_all add: py_lower_def py_lower_char_def)

text \<open>C27: Each round of the reroll loop that asks for another character
  consumes at least one event of the script and leaves the store alone; this
  is the measure under which \<open>reroll_loop\<close> terminates.\<close>

theorem reroll_consumes:
  "display_and_confirm c t cd g rs es st = (Rerolled, cd', rs', es', st') \<Longrightarrow> length es' < length es \<and> st' = st"
  by (auto simp: display_and_confirm_def split: prod.splits option.splits if_splits dest: wait_for_Some)

lemma reroll_loop_accepts:
  "\<exists>cd. reroll_loop c t g rs (replicate k (dm_reply c ''no'') @ [dm_reply c ''yes'']) st =
     (Accepted (all_ready (put_character (ctx_author c) cd g)), cd,
      save_game (ctx_channel c) ((put_character (ctx_author c) cd g)\<lparr>last_updated := t\<rparr>) st)"
proof (induction k arbitrary: rs)
  case 0
  show ?case
    by (subst reroll_loop.simps)
      (auto simp: display_and_confirm_def dm_reply_def check_dm_confirm_def commit_character_def
        all_ready_def put_character_def split: prod.splits)
next
  case (Suc k)
  obtain cd0 rs1 where gen: "generate_random_character t rs = (cd0, rs1)" by fastforce
  obtain cd1 rs2 where res: "resolve_name cd0 g (ctx_author c) rs1 = (cd1, rs2)" by fastforce
  have "reroll_loop c t g rs (replicate (Suc k) (dm_reply c ''no'') @ [dm_reply c ''yes'']) st =
      reroll_loop c t g rs2 (replicate k (dm_reply c ''no'') @ [dm_reply c ''yes'']) st"
    using gen res
    by (subst reroll_loop.simps) (simp add: display_and_confirm_def dm_reply_def check_dm_confirm_def)
  with Suc.IH [of rs2] show ?case by simp
qed

text \<open>C13: A player who has no character yet and answers \<open>no\<close> any number
  of times and then \<open>yes\<close> by direct message ends \<open>!random\<close> accepted, with
  the last character saved to the game.\<close>

theorem random_accepts_eventually:
  assumes "parent_loaded c" and "get_game st (ctx_channel c) = Some g"
    and "ctx_author c \<in> set (player_ids g)" and "\<not> has_character g (ctx_author c)"
  shows "\<exists>cd b. random_character c t rs (replicate k (dm_reply c ''no'') @ [dm_reply c ''yes'']) st =
    (RAccepted cd b, save_game (ctx_channel c) ((put_character (ctx_author c) cd g)\<lparr>last_updated := t\<rparr>) st)"
  using reroll_loop_accepts [of c t g rs k st] assms
  by (auto simp: random_character_def replace_gate_def)

end
