(* ===== verification/Npc.thy ===== *)
theory Npc
  imports RandomFlow
begin

text \<open>
  The NPC manager cog, \<open>src/cogs/npc_manager.py\<close>: \<open>create_npc\<close> (lines
  21--76) generates a character with the character-creation cog's generator,
  optionally renames it, flags it as an NPC and appends it to the game's NPC
  list; \<open>list_npcs\<close> (78--115) and \<open>npc_detail\<close> (117--182) read the list;
  \<open>remove_npc\<close> (184--225) pops the first NPC whose name matches
  case-insensitively.  The two mutating commands are reserved to the game
  master or the creator of the game.  The context extends the command
  context with whether the \<open>CharacterCreation\<close> cog was found at load time
  (\<open>self.character_creation_cog\<close>, lines 13--19).
\<close>

record npc_ctx = ctx +
  cc_loaded :: bool

text \<open>
  The early returns of the four commands, and the \<open>AttributeError\<close> that
  \<open>npc_detail\<close> raises when it calls a method of a missing
  \<open>CharacterCreation\<close> cog.
\<close>

datatype npc_error = NpcNoSystem | NpcNoGame | NpcNotAuthorized | NoNpcs | NpcNotFound string
  | NpcCrash

text \<open>Lines 38 and 201: the invoker must be the game master or the game's creator.\<close>

definition may_manage_npcs :: "game \<Rightarrow> string \<Rightarrow> bool" where
  "may_manage_npcs g u \<longleftrightarrow> \<not> (u \<noteq> game_master_id g \<and> u \<noteq> created_by g)"

text \<open>\<open>if npc_name:\<close> (line 50): a name that is given and non-empty.\<close>

definition name_override :: "string option \<Rightarrow> char_data \<Rightarrow> char_data" where
  "name_override nm cd =
     (case nm of Some n \<Rightarrow> if n \<noteq> [] then AList.update ''name'' (VStr n) cd else cd | None \<Rightarrow> cd)"

text \<open>
  Lines 21--76.  One timestamp \<open>t\<close> stands for the three calls of
  \<open>datetime.now()\<close> (in the generator, for \<open>created_at\<close> and for
  \<open>last_updated\<close>).  The result carries the new NPC, the store and the
  remaining draws.
\<close>

definition create_npc ::
  "npc_ctx \<Rightarrow> string option \<Rightarrow> string \<Rightarrow> rng \<Rightarrow> store \<Rightarrow> (npc_error + char_data) \<times> store \<times> rng" where
  "create_npc c nm t rs st =
     (if \<not> parent_loaded c \<or> \<not> cc_loaded c then (Inl NpcNoSystem, st, rs)
      else
        (case get_game st (ctx_channel c) of
           None \<Rightarrow> (Inl NpcNoGame, st, rs)
         | Some g \<Rightarrow>
             (if \<not> may_manage_npcs g (ctx_author c) then (Inl NpcNotAuthorized, st, rs)
              else
                (let (cd, rs') = generate_random_character t rs;
                     cd = name_override nm cd;
                     cd = AList.update ''created_at'' (VStr t) (AList.update ''is_npc'' (VBool True) cd);
                     g' = g\<lparr>npcs := npcs g @ [cd], last_updated := t\<rparr>
                 in (Inr cd, save_game (ctx_channel c) g' st, rs')))))"

text \<open>\<open>character.get("name", "").lower() == npc_name.lower()\<close> (lines 140 and 212).\<close>

definition npc_matches :: "string \<Rightarrow> char_data \<Rightarrow> bool" where
  "npc_matches n cd \<longleftrightarrow> py_lower (get_str cd ''name'' '''') = py_lower n"

text \<open>The index loop of \<open>remove_npc\<close> (lines 210--214).\<close>

fun find_npc :: "string \<Rightarrow> char_data list \<Rightarrow> nat option" where
  "find_npc n [] = None"
| "find_npc n (cd # cds) = (if npc_matches n cd then Some 0 else map_option Suc (find_npc n cds))"

text \<open>\<open>list.pop(i)\<close> for an index in range.\<close>

definition list_pop :: "nat \<Rightarrow> 'a list \<Rightarrow> 'a \<times> 'a list" where
  "list_pop i xs = (xs ! i, take i xs @ drop (Suc i) xs)"

text \<open>One line of the listing (lines 104--113): position, name, race, class, level.\<close>

definition npc_summary :: "nat \<Rightarrow> char_data \<Rightarrow> nat \<times> string \<times> string \<times> string \<times> string" where
  "npc_summary i cd = (Suc i, get_str cd ''name'' ''Unknown'', get_str cd ''race'' ''Unknown'',
     get_str cd ''class'' ''Unknown'', get_str cd ''level'' ''0'')"

definition list_npcs :: "npc_ctx \<Rightarrow> store \<Rightarrow> npc_error + (nat \<times> string \<times> string \<times> string \<times> string) list" where
  "list_npcs c st =
     (if \<not> parent_loaded c then Inl NpcNoSystem
      else
        (case get_game st (ctx_channel c) of
           None \<Rightarrow> Inl NpcNoGame
         | Some g \<Rightarrow> (if npcs g = [] then Inl NoNpcs else Inr (map2 npc_summary [0..<length (npcs g)] (npcs g)))))"

text \<open>The ability line of the detail card (lines 158--165), with its defaults.\<close>

definition npc_ability_line :: "char_data \<Rightarrow> string list" where
  "npc_ability_line cd =
     map (\<lambda>k. get_str cd k ''10'') [''strength'', ''dexterity'', ''constitution'', ''intelligence'', ''wisdom'', ''charisma'']"

text \<open>
  Lines 117--182: the first NPC whose name matches (the loop of lines
  138--142); an empty dict is falsy and reads as not found (line 144); the
  card then calls the \<open>CharacterCreation\<close> cog (line 155), which the guard of
  line 123 never checked.
\<close>

definition npc_detail :: "npc_ctx \<Rightarrow> string \<Rightarrow> store \<Rightarrow> npc_error + char_data \<times> string list" where
  "npc_detail c n st =
     (if \<not> parent_loaded c then Inl NpcNoSystem
      else
        (case get_game st (ctx_channel c) of
           None \<Rightarrow> Inl NpcNoGame
         | Some g \<Rightarrow>
             (if npcs g = [] then Inl NoNpcs
              else
                (case find (npc_matches n) (npcs g) of
                   None \<Rightarrow> Inl (NpcNotFound n)
                 | Some cd \<Rightarrow>
                     (if cd = [] then Inl (NpcNotFound n)
                      else if \<not> cc_loaded c then Inl NpcCrash
                      else Inr (cd, npc_ability_line cd))))))"

text \<open>Lines 184--225.\<close>

definition remove_npc :: "npc_ctx \<Rightarrow> string \<Rightarrow> string \<Rightarrow> store \<Rightarrow> (npc_error + char_data) \<times> store" where
  "remove_npc c n t st =
     (if \<not> parent_loaded c then (Inl NpcNoSystem, st)
      else
        (case get_game st (ctx_channel c) of
           None \<Rightarrow> (Inl NpcNoGame, st)
         | Some g \<Rightarrow>
             (if \<not> may_manage_npcs g (ctx_author c) then (Inl NpcNotAuthorized, st)
              else if npcs g = [] then (Inl NoNpcs, st)
              else
                (case find_npc n (npcs g) of
                   None \<Rightarrow> (Inl (NpcNotFound n), st)
                 | Some i \<Rightarrow>
                     (let (cd, rest) = list_pop i (npcs g)
                      in (Inr cd, save_game (ctx_channel c) (g\<lparr>npcs := rest, last_updated := t\<rparr>) st))))))"

text \<open>
  Every NPC record carries the flag \<open>is_npc = True\<close> (line 54); the store
  invariant adds it to the one of the session.
\<close>

definition npcs_flagged :: "game \<Rightarrow> bool" where
  "npcs_flagged g \<longleftrightarrow> (\<forall>cd \<in> set (npcs g). map_of cd ''is_npc'' = Some (VBool True))"

definition store_npcs_flagged :: "store \<Rightarrow> bool" where
  "store_npcs_flagged st \<longleftrightarrow> (\<forall>ch g. st ch = Some g \<longrightarrow> npcs_flagged g)"

subsection \<open>Lemmas: lookup and the command cases\<close>

lemma find_npc_Some:
  "find_npc n xs = Some i \<Longrightarrow>
     i < length xs \<and> npc_matches n (xs ! i) \<and> (\<forall>j < i. \<not> npc_matches n (xs ! j))"
proof (induction xs arbitrary: i)
  case (Cons x xs)
  then show ?case
    by (cases i) (auto split: if_splits simp: less_Suc_eq_0_disj)
qed simp

lemma find_npc_None: "find_npc n xs = None \<longleftrightarrow> (\<forall>cd \<in> set xs. \<not> npc_matches n cd)"
  by (induction xs) auto

lemma find_npc_find:
  "map_option (\<lambda>i. xs ! i) (find_npc n xs) = find (npc_matches n) xs"
  by (induction xs) (auto simp: option.map_comp comp_def)

lemma prod3_collapse: "x = (fst x, fst (snd x), snd (snd x))"
  by simp

lemma create_npc_cases:
  assumes "create_npc c nm t rs st = (r, st', rs')"
  shows "(\<exists>e. r = Inl e \<and> st' = st \<and> rs' = rs) \<or>
    (\<exists>g cd0 cd. get_game st (ctx_channel c) = Some g \<and> may_manage_npcs g (ctx_author c) \<and>
       generate_random_character t rs = (cd0, rs') \<and>
       cd = AList.update ''created_at'' (VStr t) (AList.update ''is_npc'' (VBool True) (name_override nm cd0)) \<and>
       r = Inr cd \<and> st' = save_game (ctx_channel c) (g\<lparr>npcs := npcs g @ [cd], last_updated := t\<rparr>) st)"
  using assms by (auto simp: create_npc_def Let_def split: if_splits option.splits prod.splits)

lemma remove_npc_cases:
  assumes "remove_npc c n t st = (r, st')"
  shows "(\<exists>e. r = Inl e \<and> st' = st) \<or>
    (\<exists>g i. get_game st (ctx_channel c) = Some g \<and> may_manage_npcs g (ctx_author c) \<and>
       find_npc n (npcs g) = Some i \<and> r = Inr (npcs g ! i) \<and>
       st' = save_game (ctx_channel c) (g\<lparr>npcs := take i (npcs g) @ drop (Suc i) (npcs g), last_updated := t\<rparr>) st)"
  using assms by (auto simp: remove_npc_def list_pop_def split: if_splits option.splits)

lemma update_other_key: "k \<noteq> k' \<Longrightarrow> map_of (AList.update k v cd) k' = map_of cd k'"
  by (simp add: update_conv')

subsection \<open>The commands\<close>

text \<open>C21: A successful \<open>create_npc\<close> was invoked by the game master or
  the creator, appends the new record at the end of the game's NPC list, stamps
  the game and saves it to the invoking channel; the record carries
  \<open>is_npc = True\<close>, its creation time, and the given name when one was
  given.\<close>

theorem create_npc_appends:
  assumes "create_npc c nm t rs st = (Inr cd, st', rs')"
  shows "\<exists>g. get_game st (ctx_channel c) = Some g \<and> may_manage_npcs g (ctx_author c) \<and>
     st' = save_game (ctx_channel c) (g\<lparr>npcs := npcs g @ [cd], last_updated := t\<rparr>) st \<and>
     map_of cd ''is_npc'' = Some (VBool True) \<and> map_of cd ''created_at'' = Some (VStr t) \<and>
     (\<forall>n. nm = Some n \<and> n \<noteq> [] \<longrightarrow> map_of cd ''name'' = Some (VStr n))"
  using create_npc_cases [OF assms]
  by (auto simp: update_other_key name_override_def update_conv')

text \<open>C7: A user who is neither the game master nor the creator of the game
  can neither create nor remove an NPC: both commands stop with the
  authorization error (or the missing-cog error, checked first) and change
  nothing.\<close>

theorem npc_mutation_authorized:
  assumes "get_game st (ctx_channel c) = Some g" and "\<not> may_manage_npcs g (ctx_author c)"
  shows "create_npc c nm t rs st =
      (Inl (if parent_loaded c \<and> cc_loaded c then NpcNotAuthorized else NpcNoSystem), st, rs) \<and>
    remove_npc c n t' st = (Inl (if parent_loaded c then NpcNotAuthorized else NpcNoSystem), st)"
  using assms by (simp add: create_npc_def remove_npc_def)

text \<open>Every early return of \<open>create_npc\<close> and \<open>remove_npc\<close> leaves
  the store unchanged (and \<open>create_npc\<close> consumes no draws).\<close>

lemma npc_errors_unchanged:
  "(fst (create_npc c nm t rs st) = Inl e \<longrightarrow> fst (snd (create_npc c nm t rs st)) = st) \<and>
   (fst (remove_npc c n t st) = Inl e' \<longrightarrow> snd (remove_npc c n t st) = st)"
  using create_npc_cases [OF prod3_collapse [of "create_npc c nm t rs st"]]
  by (auto simp: create_npc_def remove_npc_def Let_def split: if_splits option.splits prod.splits)

text \<open>C8: A successful \<open>remove_npc\<close> removes exactly the first NPC whose
  name matches case-insensitively, keeps the others in order, and saves the
  game.\<close>

theorem remove_npc_first_match:
  assumes "remove_npc c n t st = (Inr cd, st')"
  shows "\<exists>g i. get_game st (ctx_channel c) = Some g \<and> may_manage_npcs g (ctx_author c) \<and>
    i < length (npcs g) \<and> cd = npcs g ! i \<and> npc_matches n cd \<and> (\<forall>j < i. \<not> npc_matches n (npcs g ! j)) \<and>
    st' = save_game (ctx_channel c) (g\<lparr>npcs := take i (npcs g) @ drop (Suc i) (npcs g), last_updated := t\<rparr>) st"
  using remove_npc_cases [OF assms] by (blast dest: find_npc_Some)

text \<open>When no NPC's name matches, \<open>remove_npc\<close> reports the name as not
  found and changes nothing.\<close>

lemma remove_npc_not_found:
  assumes "parent_loaded c" and "get_game st (ctx_channel c) = Some g" and "may_manage_npcs g (ctx_author c)"
    and "npcs g \<noteq> []" and "\<forall>cd \<in> set (npcs g). \<not> npc_matches n cd"
  shows "remove_npc c n t st = (Inl (NpcNotFound n), st)"
proof -
  have "find_npc n (npcs g) = None" using assms(5) by (simp add: find_npc_None)
  with assms show ?thesis by (simp add: remove_npc_def)
qed

text \<open>C30: The search loop of \<open>npc_detail\<close> (first matching record) and the
  index loop of \<open>remove_npc\<close> agree: the NPC a detail card shows is the one
  the game master's \<open>remove_npc\<close> with the same name removes.\<close>

theorem npc_detail_remove_agree:
  assumes "npc_detail c n st = Inr (cd, l)" and "parent_loaded c'" and "ctx_channel c' = ctx_channel c"
    and "get_game st (ctx_channel c) = Some g" and "may_manage_npcs g (ctx_author c')"
  shows "fst (remove_npc c' n t st) = Inr cd"
proof -
  from assms(1,4) have ne: "npcs g \<noteq> []" and f: "find (npc_matches n) (npcs g) = Some cd"
    by (auto simp: npc_detail_def split: if_splits option.splits)
  from f find_npc_find [of "npcs g" n] obtain i where "find_npc n (npcs g) = Some i" "npcs g ! i = cd"
    by (cases "find_npc n (npcs g)") auto
  with assms(2-5) ne show ?thesis by (simp add: remove_npc_def list_pop_def)
qed

text \<open>C35: \<open>npc_detail\<close> checks only the \<open>DnDGame\<close> cog: with the
  \<open>CharacterCreation\<close> cog missing, asking for an existing NPC raises (the
  card calls a method of \<open>None\<close>).\<close>

theorem npc_detail_crash:
  assumes "parent_loaded c" and "\<not> cc_loaded c" and "get_game st (ctx_channel c) = Some g"
    and "find (npc_matches n) (npcs g) = Some cd" and "cd \<noteq> []"
  shows "npc_detail c n st = Inl NpcCrash"
proof -
  have "npcs g \<noteq> []" using assms(4) by auto
  with assms show ?thesis by (simp add: npc_detail_def)
qed

text \<open>
  C32: \<open>create_npc\<close> runs no duplicate-name resolution: without a name
  argument, the record it appends (and the draws it leaves) are the same
  whatever the game holds, its name is the generator's name for the draws,
  even when a player's character or another NPC already has it.
\<close>

theorem create_npc_ignores_names:
  assumes "create_npc c None t rs st1 = (Inr cd1, st1', rs1)" and "create_npc c None t rs st2 = (Inr cd2, st2', rs2)"
  shows "cd1 = cd2 \<and> rs1 = rs2 \<and> get_str cd1 ''name'' '''' = get_str (fst (generate_random_character t rs)) ''name'' ''''"
  using assms
  by (auto simp: create_npc_def name_override_def get_str_def update_conv' Let_def split: if_splits option.splits prod.splits)

lemma npcs_flagged_append:
  "npcs_flagged g \<Longrightarrow> map_of cd ''is_npc'' = Some (VBool True) \<Longrightarrow>
     npcs_flagged (g\<lparr>npcs := npcs g @ [cd], last_updated := t\<rparr>)"
  by (simp add: npcs_flagged_def)

lemma store_npcs_flagged_save [simp]:
  "store_npcs_flagged st \<Longrightarrow> npcs_flagged g \<Longrightarrow> store_npcs_flagged (save_game ch g st)"
  by (simp add: store_npcs_flagged_def save_game_def)

lemma store_flagged_get: "store_npcs_flagged st \<Longrightarrow> get_game st ch = Some g \<Longrightarrow> npcs_flagged g"
  by (simp add: store_npcs_flagged_def get_game_def)

lemma store_wf_get: "store_wf st \<Longrightarrow> get_game st ch = Some g \<Longrightarrow> game_wf g"
  by (simp add: store_wf_def get_game_def)

lemma game_wf_npcs [simp]: "game_wf (g\<lparr>npcs := x, last_updated := t\<rparr>) = game_wf g"
  by (simp add: game_wf_def)

lemma npcs_flagged_remove:
  "npcs_flagged g \<Longrightarrow> npcs_flagged (g\<lparr>npcs := take i (npcs g) @ drop (Suc i) (npcs g), last_updated := t\<rparr>)"
  by (auto simp: npcs_flagged_def dest: in_set_takeD in_set_dropD)

lemma create_npc_preserves:
  assumes "store_wf st" and "store_npcs_flagged st"
  shows "store_wf (fst (snd (create_npc c nm t rs st))) \<and> store_npcs_flagged (fst (snd (create_npc c nm t rs st)))"
  using create_npc_cases [OF prod3_collapse [of "create_npc c nm t rs st"]] assms
  by (auto simp: update_conv' intro!: store_npcs_flagged_save npcs_flagged_append
      dest: store_flagged_get [OF assms(2)] store_wf_get [OF assms(1)])

lemma remove_npc_preserves:
  assumes "store_wf st" and "store_npcs_flagged st"
  shows "store_wf (snd (remove_npc c n t st)) \<and> store_npcs_flagged (snd (remove_npc c n t st))"
  using remove_npc_cases [OF prod.collapse [symmetric, of "remove_npc c n t st"]] assms
  by (auto intro!: store_npcs_flagged_save npcs_flagged_remove
      dest: store_flagged_get [OF assms(2)] store_wf_get [OF assms(1)])

text \<open>The NPC commands preserve the store invariants: one character per
  player in every game, and the NPC flag on every NPC record.\<close>

lemma npc_commands_preserve_invariants:
  assumes "store_wf st" and "store_npcs_flagged st"
  shows "store_wf (fst (snd (create_npc c nm t rs st))) \<and> store_npcs_flagged (fst (snd (create_npc c nm t rs st))) \<and>
    store_wf (snd (remove_npc c n t st)) \<and> store_npcs_flagged (snd (remove_npc c n t st))"
  using create_npc_preserves [OF assms] remove_npc_preserves [OF assms] by blast

lemma npc_record_other:
  "k \<noteq> ''name'' \<Longrightarrow> k \<noteq> ''is_npc'' \<Longrightarrow> k \<noteq> ''created_at'' \<Longrightarrow>
     map_of (AList.update ''created_at'' v (AList.update ''is_npc'' w (name_override nm cd))) k = map_of cd k"
  by (simp add: update_conv' name_override_def split: option.splits)

text \<open>An NPC has the generator's scores: a permutation of the standard
  array plus its race's bonuses; the name override and the flags change no
  score.\<close>

lemma create_npc_scores:
  assumes "create_npc c nm t rs st = (Inr cd, st', rs')"
  shows "\<exists>race vs. map_of cd ''race'' = Some (VStr race) \<and> race \<in> set races \<and>
     mset vs = mset base_scores \<and>
     map (score_of cd) gen_abilities = map2 (\<lambda>a v. Some (v + racial_bonus race a)) gen_abilities vs"
proof -
  obtain cd0 where gen: "generate_random_character t rs = (cd0, rs')"
    and cd: "cd = AList.update ''created_at'' (VStr t) (AList.update ''is_npc'' (VBool True) (name_override nm cd0))"
    using create_npc_cases [OF assms] by auto
  have "\<forall>a \<in> set gen_abilities. map_of cd a = map_of cd0 a"
    unfolding cd by (simp add: gen_abilities_def npc_record_other)
  then have "map (score_of cd) gen_abilities = map (score_of cd0) gen_abilities"
    by (simp add: score_of_def)
  moreover have "map_of cd ''race'' = map_of cd0 ''race''" unfolding cd by (simp add: npc_record_other)
  ultimately show ?thesis using generate_scores_core [OF gen] by (simp only:)
qed

end
