(* ===== verification/Views.thy ===== *)
theory Views
  imports RandomFlow
begin

text \<open>
  The read-only commands of the character-creation cog and the image key
  every character card uses: \<open>normalize_race\<close> (lines 146--151),
  \<open>view_character\<close> (416--461) and \<open>list_characters\<close> (463--510).  Both
  commands look the game up in the invoking channel and, when there is none
  and the channel is a thread, in the thread's parent channel.  The image
  table \<open>CHARACTER_IMAGES\<close> lives in \<open>character_images.py\<close>, outside the
  sources: the lookup \<open>self.character_images.get(key, self.default_image)\<close>
  is a parameter \<open>img\<close> of the model.
\<close>

subsection \<open>Race names and image keys\<close>

text \<open>\<open>str.split(sep)\<close>: the pieces between the separators, empty ones included.\<close>

fun py_split :: "char \<Rightarrow> string \<Rightarrow> string list" where
  "py_split c [] = [[]]"
| "py_split c (x # xs) =
     (if x = c then [] # py_split c xs
      else (case py_split c xs of p # ps \<Rightarrow> (x # p) # ps | [] \<Rightarrow> [[x]]))"

text \<open>\<open>sep.join(parts)\<close>.\<close>

fun py_join :: "string \<Rightarrow> string list \<Rightarrow> string" where
  "py_join sep [] = []"
| "py_join sep [p] = p"
| "py_join sep (p # q # ps) = p @ sep @ py_join sep (q # ps)"

text \<open>Lines 146--151: \<open>"Half-Elf"\<close> becomes \<open>"Half-elf"\<close>; pieces after the second dash are dropped.\<close>

definition normalize_race :: "string \<Rightarrow> string" where
  "normalize_race race =
     (if CHR ''-'' \<in> set race then
        (let parts = py_split (CHR ''-'') race in py_join ''-'' [parts ! 0, py_lower (parts ! 1)])
      else race)"

text \<open>\<open>f"{race}_{class}"\<close> (lines 386, 454, 700).\<close>

definition image_key :: "string \<Rightarrow> string \<Rightarrow> string" where
  "image_key race cls = race @ ''_'' @ cls"

text \<open>\<open>str(v)\<close> of a stored value, as an f-string formats it.\<close>

fun pyval_str :: "pyval \<Rightarrow> string" where
  "pyval_str (VStr s) = s"
| "pyval_str (VBool b) = (if b then ''True'' else ''False'')"
| "pyval_str (VList xs) = ''['' @ py_join '', '' (map (\<lambda>s. CHR 0x27 # s @ [CHR 0x27]) xs) @ '']''"

text \<open>\<open>d[k]\<close>: a missing key raises \<open>KeyError\<close>.\<close>

definition dict_index :: "char_data \<Rightarrow> string \<Rightarrow> string option" where
  "dict_index cd k = map_option pyval_str (map_of cd k)"

text \<open>The image of a card: \<open>view_character\<close> keys on the stored race as it is (line 454).\<close>

definition view_image :: "(string \<Rightarrow> string) \<Rightarrow> char_data \<Rightarrow> string option" where
  "view_image img cd =
     (case (dict_index cd ''race'', dict_index cd ''class'') of
        (Some r, Some k) \<Rightarrow> Some (img (image_key r k))
      | _ \<Rightarrow> None)"

text \<open>The other cards (the wizard's, line 386; the random flow's, 699--701; the NPC cards) normalize it.\<close>

definition card_image :: "(string \<Rightarrow> string) \<Rightarrow> char_data \<Rightarrow> string option" where
  "card_image img cd =
     (case (dict_index cd ''race'', dict_index cd ''class'') of
        (Some r, Some k) \<Rightarrow> Some (img (image_key (normalize_race r) k))
      | _ \<Rightarrow> None)"

subsection \<open>Looking the game up\<close>

text \<open>The context of a read-only command: the parent channel when the invoking channel is a thread.\<close>

record view_ctx = ctx +
  thread_parent :: "string option"

text \<open>Lines 431--435 and 478--482.\<close>

definition lookup_game :: "view_ctx \<Rightarrow> store \<Rightarrow> game option" where
  "lookup_game c st =
     (case get_game st (ctx_channel c) of
        Some g \<Rightarrow> Some g
      | None \<Rightarrow> (case thread_parent c of Some p \<Rightarrow> get_game st p | None \<Rightarrow> None))"

datatype view_error = ViewNoSystem | ViewNoGame | NoCharacterFor string | NoCharacters | ViewKeyError

text \<open>
  Lines 416--456: the character of \<open>member\<close> (the invoker by default) with
  its card's image.
\<close>

definition view_character ::
  "(string \<Rightarrow> string) \<Rightarrow> view_ctx \<Rightarrow> string option \<Rightarrow> store \<Rightarrow> view_error + char_data \<times> string" where
  "view_character img c member st =
     (if \<not> parent_loaded c then Inl ViewNoSystem
      else
        (let uid = (case member of Some m \<Rightarrow> m | None \<Rightarrow> ctx_author c) in
         case lookup_game c st of
           None \<Rightarrow> Inl ViewNoGame
         | Some g \<Rightarrow>
             (case map_of (characters g) uid of
                None \<Rightarrow> Inl (NoCharacterFor uid)
              | Some cd \<Rightarrow>
                  (case view_image img cd of
                     None \<Rightarrow> Inl ViewKeyError
                   | Some url \<Rightarrow> Inr (cd, url)))))"

text \<open>One field of the listing (lines 501--510): owner, name, race, class, level.\<close>

definition character_line :: "string \<times> char_data \<Rightarrow> string \<times> string \<times> string \<times> string \<times> string" where
  "character_line p = (case p of (uid, cd) \<Rightarrow>
     (uid, get_str cd ''name'' ''Unknown'', get_str cd ''race'' ''Unknown'', get_str cd ''class'' ''Unknown'',
      get_str cd ''level'' ''0''))"

text \<open>Lines 466--510.\<close>

definition list_characters ::
  "view_ctx \<Rightarrow> store \<Rightarrow> view_error + (string \<times> string \<times> string \<times> string \<times> string) list" where
  "list_characters c st =
     (if \<not> parent_loaded c then Inl ViewNoSystem
      else
        (case lookup_game c st of
           None \<Rightarrow> Inl ViewNoGame
         | Some g \<Rightarrow> (if characters g = [] then Inl NoCharacters else Inr (map character_line (characters g)))))"

subsection \<open>Lemmas\<close>

lemma py_split_nonempty: "py_split c s \<noteq> []"
  by (induction c s rule: py_split.induct) (auto split: list.splits)

lemma py_join_Cons: "ps \<noteq> [] \<Longrightarrow> py_join sep (p # ps) = p @ sep @ py_join sep ps"
  by (cases ps) auto

lemma py_join_Cons_Cons [simp]: "py_join sep ((x # p) # ps) = x # py_join sep (p # ps)"
  by (cases ps) auto

text \<open>Splitting on a separator and joining with it gives the string back
  (\<open>sep.join(s.split(sep)) == s\<close>).\<close>

lemma py_split_join: "py_join [c] (py_split c s) = s"
proof (induction c s rule: py_split.induct)
  case (2 c x xs)
  then show ?case
    using py_split_nonempty [of c xs]
    by (auto simp: py_join_Cons split: list.splits)
qed simp

lemma py_split_pieces: "p \<in> set (py_split c s) \<Longrightarrow> c \<notin> set p"
  by (induction c s arbitrary: p rule: py_split.induct) (auto split: list.splits if_splits)

lemma py_split_free: "c \<notin> set p \<Longrightarrow> py_split c p = [p]"
  by (induction p) auto

lemma py_split_two: "c \<notin> set p \<Longrightarrow> c \<notin> set q \<Longrightarrow> py_split c (p @ c # q) = [p, q]"
  by (induction p) (auto simp: py_split_free)

lemma py_split_length: "c \<in> set s \<Longrightarrow> 2 \<le> length (py_split c s)"
proof (induction c s rule: py_split.induct)
  case (2 c x xs)
  then show ?case
    using py_split_nonempty [of c xs] by (auto split: list.splits simp: Suc_le_eq)
qed simp

lemma py_lower_char_range:
  "(65::nat) \<le> of_char x \<and> of_char x \<le> (90::nat) \<Longrightarrow> of_char (py_lower_char x) = (of_char x + 32 :: nat)"
  by (simp add: py_lower_char_def of_char_of)

lemma py_lower_char_other:
  "\<not> ((65::nat) \<le> of_char x \<and> of_char x \<le> (90::nat)) \<Longrightarrow> py_lower_char x = x"
  unfolding py_lower_char_def Let_def by (rule if_not_P)

lemma py_lower_char_dash: "py_lower_char x = CHR ''-'' \<longleftrightarrow> x = CHR ''-''"
proof
  assume h: "py_lower_char x = CHR ''-''"
  show "x = CHR ''-''"
  proof (cases "(65::nat) \<le> of_char x \<and> of_char x \<le> (90::nat)")
    case True
    from py_lower_char_range [OF True] h True show ?thesis by simp
  next
    case False
    then show ?thesis using h by (simp add: py_lower_char_other)
  qed
next
  assume "x = CHR ''-''"
  then show "py_lower_char x = CHR ''-''" by (simp add: py_lower_char_def)
qed

lemma py_lower_char_idem [simp]: "py_lower_char (py_lower_char x) = py_lower_char x"
proof (cases "(65::nat) \<le> of_char x \<and> of_char x \<le> (90::nat)")
  case True
  have "\<not> ((65::nat) \<le> of_char (py_lower_char x) \<and> of_char (py_lower_char x) \<le> (90::nat))"
    using py_lower_char_range [OF True] True by simp
  then show ?thesis by (rule py_lower_char_other)
next
  case False
  then show ?thesis by (simp add: py_lower_char_other)
qed

lemma py_lower_idem: "py_lower (py_lower s) = py_lower s"
  by (simp add: py_lower_def)

lemma py_lower_no_dash: assumes "CHR ''-'' \<notin> set s" shows "CHR ''-'' \<notin> set (py_lower s)"
proof
  assume "CHR ''-'' \<in> set (py_lower s)"
  then obtain x where "x \<in> set s" "py_lower_char x = CHR ''-''" by (auto simp: py_lower_def)
  then show False using \<open>CHR ''-'' \<notin> set s\<close> by (simp add: py_lower_char_dash)
qed

lemma normalize_race_two:
  "CHR ''-'' \<notin> set a \<Longrightarrow> CHR ''-'' \<notin> set q \<Longrightarrow> normalize_race (a @ CHR ''-'' # q) = a @ CHR ''-'' # py_lower q"
  by (simp add: normalize_race_def py_split_two Let_def)

lemma normalize_race_dash:
  assumes "CHR ''-'' \<in> set r"
  obtains a q where "CHR ''-'' \<notin> set a" "CHR ''-'' \<notin> set q" "normalize_race r = a @ CHR ''-'' # py_lower q"
proof -
  let ?ps = "py_split (CHR ''-'') r"
  have "2 \<le> length ?ps" using py_split_length [OF assms] .
  then have "?ps ! 0 \<in> set ?ps" "?ps ! 1 \<in> set ?ps" by (auto intro!: nth_mem)
  then have "CHR ''-'' \<notin> set (?ps ! 0)" "CHR ''-'' \<notin> set (?ps ! 1)" by (auto dest: py_split_pieces)
  moreover have "normalize_race r = ?ps ! 0 @ CHR ''-'' # py_lower (?ps ! 1)"
    using assms by (simp add: normalize_race_def Let_def)
  ultimately show ?thesis by (rule that)
qed

text \<open>\<open>normalize_race\<close> is idempotent: a normalized race name (one dash
  at most, lower case after it) is left as it is.\<close>

lemma normalize_race_idem: "normalize_race (normalize_race r) = normalize_race r"
proof (cases "CHR ''-'' \<in> set r")
  case True
  then obtain a q where a: "CHR ''-'' \<notin> set a" and q: "CHR ''-'' \<notin> set q"
    and n: "normalize_race r = a @ CHR ''-'' # py_lower q"
    by (rule normalize_race_dash)
  show ?thesis
    unfolding n normalize_race_two [OF a py_lower_no_dash [OF q]] by (simp add: py_lower_idem)
next
  case False
  then show ?thesis by (simp add: normalize_race_def)
qed

text \<open>\<open>view_character\<close> shows the character stored for the member
  asked about (the invoker by default) in the game it found, with the image
  of its stored race and class.\<close>

lemma view_character_owner:
  assumes "view_character img c member st = Inr (cd, url)"
  shows "\<exists>g. lookup_game c st = Some g \<and>
    map_of (characters g) (case member of Some m \<Rightarrow> m | None \<Rightarrow> ctx_author c) = Some cd \<and>
    view_image img cd = Some url"
  using assms by (auto simp: view_character_def Let_def split: if_splits option.splits)

text \<open>For a race that normalization leaves alone (every race without a
  dash), \<open>view_character\<close> shows the same image as the other character
  cards.\<close>

lemma view_image_consistent:
  assumes "dict_index cd ''race'' = Some r" and "normalize_race r = r"
  shows "view_image img cd = card_image img cd"
  using assms by (simp add: view_image_def card_image_def split: option.splits)


lemma lookup_game_wf: "store_wf st \<Longrightarrow> lookup_game c st = Some g \<Longrightarrow> game_wf g"
  by (auto simp: lookup_game_def store_wf_def get_game_def split: option.splits)

lemma fst_character_line [simp]: "fst (character_line p) = fst p"
  by (cases p) (simp add: character_line_def)

text \<open>\<open>list_characters\<close> lists every character of the game found, in
  the dict's order, each player once.\<close>

lemma list_characters_each_once:
  assumes "store_wf st" and "list_characters c st = Inr l"
  shows "\<exists>g. lookup_game c st = Some g \<and> l \<noteq> [] \<and> map fst l = map fst (characters g) \<and> distinct (map fst l)"
proof -
  from assms(2) obtain g where g: "lookup_game c st = Some g" and ne: "characters g \<noteq> []"
    and l: "l = map character_line (characters g)"
    by (auto simp: list_characters_def split: if_splits option.splits)
  have "map fst l = map fst (characters g)" unfolding l by (simp add: comp_def)
  with g ne lookup_game_wf [OF assms(1) g] show ?thesis by (auto simp: game_wf_def)
qed

end
