(* ===== verification/Commands.thy ===== *)
theory Commands
  imports Npc Views
begin

text \<open>
  The commands of the two cogs as one interface.  Each command is an
  atomic step on the session store: a handler reads the game, talks with its
  user (the event script) and writes the game back.  The step function
  \<open>run_command\<close> is what the cogs agree on; \<open>reachable\<close> is the store's
  state machine.  The wizard is also split at its suspension points
  (\<open>creation_prepare\<close> reads the game and holds the dialogue,
  \<open>creation_finish\<close> writes), so that a run of another command between the
  two phases can be stated: the handler keeps the game dict it read at
  the start across all its waits, and writes that copy back.
\<close>

datatype command =
    CmdCreation ctx string string "event list"
  | CmdRandom ctx string rng "event list"
  | CmdCreateNpc npc_ctx "string option" string rng
  | CmdRemoveNpc npc_ctx string string
  | CmdViewCharacter "string \<Rightarrow> string" view_ctx "string option"
  | CmdListCharacters view_ctx
  | CmdListNpcs npc_ctx
  | CmdNpcDetail npc_ctx string

text \<open>The store after a command; the four read-only commands return no store.\<close>

fun run_command :: "command \<Rightarrow> store \<Rightarrow> store" where
  "run_command (CmdCreation c t0 t1 es) st = snd (character_creation c t0 t1 es st)"
| "run_command (CmdRandom c t rs es) st = snd (random_character c t rs es st)"
| "run_command (CmdCreateNpc c nm t rs) st = fst (snd (create_npc c nm t rs st))"
| "run_command (CmdRemoveNpc c n t) st = snd (remove_npc c n t st)"
| "run_command (CmdViewCharacter img c m) st = st"
| "run_command (CmdListCharacters c) st = st"
| "run_command (CmdListNpcs c) st = st"
| "run_command (CmdNpcDetail c n) st = st"

text \<open>The stores a sequence of commands reaches from a start store.\<close>

inductive reachable :: "store \<Rightarrow> store \<Rightarrow> bool" for st0 :: store where
  reach_init: "reachable st0 st0"
| reach_step: "reachable st0 st \<Longrightarrow> reachable st0 (run_command cmd st)"

text \<open>The session invariant: one character per player, and the flag on every NPC.\<close>

definition session_inv :: "store \<Rightarrow> bool" where
  "session_inv st \<longleftrightarrow> store_wf st \<and> store_npcs_flagged st"

subsection \<open>The wizard split at its waits\<close>

text \<open>
  Lines 158--372 of \<open>character_creation\<close>: the checks and the whole
  dialogue, on the game dict read at line 164.
\<close>

definition creation_prepare ::
  "ctx \<Rightarrow> string \<Rightarrow> event list \<Rightarrow> store \<Rightarrow> abort + game \<times> char_data \<times> int" where
  "creation_prepare c t0 es st =
     (if \<not> parent_loaded c then Inl NoParent
      else
        (case get_game st (ctx_channel c) of
           None \<Rightarrow> Inl NoGame
         | Some g \<Rightarrow>
             (if ctx_author c \<notin> set (player_ids g) then Inl NotPlayer
              else sbind (creation_steps c g t0 es) (\<lambda>(cd, rem). Inr (g, cd, rem)))))"

text \<open>Lines 374--394, run on the store as it is when the user answers \<open>yes\<close>.\<close>

definition creation_finish ::
  "ctx \<Rightarrow> string \<Rightarrow> game \<times> char_data \<times> int \<Rightarrow> store \<Rightarrow> store \<times> bool" where
  "creation_finish c t1 p st =
     (case p of (g, cd, rem) \<Rightarrow> commit_character (ctx_channel c) (ctx_author c) t1 cd g st)"

subsection \<open>Lemmas: every command keeps the session invariant\<close>

lemma session_inv_commit:
  assumes "session_inv st" and "get_game st ch = Some g"
  shows "session_inv (save_game ch ((put_character u cd g)\<lparr>last_updated := t\<rparr>) st)"
proof -
  have "game_wf g" "npcs_flagged g"
    using assms by (auto simp: session_inv_def dest: store_wf_get store_flagged_get)
  then have "game_wf ((put_character u cd g)\<lparr>last_updated := t\<rparr>)"
    "npcs_flagged ((put_character u cd g)\<lparr>last_updated := t\<rparr>)"
    by (simp_all add: game_wf_def put_character_def distinct_update npcs_flagged_def)
  with assms(1) show ?thesis by (simp add: session_inv_def)
qed

lemma creation_preserves_inv: "session_inv st \<Longrightarrow> session_inv (snd (character_creation c t0 t1 es st))"
  using character_creation_cases [OF prod.collapse [symmetric, of "character_creation c t0 t1 es st"]]
  by (auto intro: session_inv_commit)

lemma random_preserves_inv: "session_inv st \<Longrightarrow> session_inv (snd (random_character c t rs es st))"
proof -
  assume inv: "session_inv st"
  from random_character_loop [OF prod.collapse [symmetric, of "random_character c t rs es st"]]
  show ?thesis
  proof
    assume "\<exists>a. fst (random_character c t rs es st) = RAborted a \<and> snd (random_character c t rs es st) = st"
    with inv show ?thesis by auto
  next
    assume "\<exists>g es' out cd. get_game st (ctx_channel c) = Some g \<and> replace_gate c g es = Inr es' \<and>
        reroll_loop c t g rs es' st = (out, cd, snd (random_character c t rs es st)) \<and>
        fst (random_character c t rs es st) = (case out of Accepted b \<Rightarrow> RAccepted cd b | _ \<Rightarrow> RTimedOut cd)"
    then obtain g es' out cd where g: "get_game st (ctx_channel c) = Some g"
      and l: "reroll_loop c t g rs es' st = (out, cd, snd (random_character c t rs es st))" by blast
    from reroll_loop_cases [OF l] inv g show ?thesis by (auto intro: session_inv_commit)
  qed
qed

text \<open>C9: Every store reachable by any sequence of commands of the two cogs
  (wizard, random creation, NPC creation and removal, the read-only
  commands) from a store with the session invariant has it: at most one
  character per player in every game, and every NPC flagged as one.\<close>

theorem reachable_session_inv: "reachable st0 st \<Longrightarrow> session_inv st0 \<Longrightarrow> session_inv st"
proof (induction rule: reachable.induct)
  case (reach_step st cmd)
  then have "session_inv st" by simp
  then show ?case
    by (cases cmd) (simp_all add: creation_preserves_inv random_preserves_inv,
        simp_all add: session_inv_def create_npc_preserves remove_npc_preserves)
qed simp

text \<open>The wizard is its dialogue phase followed by its write phase on the
  same store: \<open>character_creation\<close> equals \<open>creation_prepare\<close> then
  \<open>creation_finish\<close>.\<close>

lemma creation_split:
  "character_creation c t0 t1 es st =
     (case creation_prepare c t0 es st of
        Inl a \<Rightarrow> (Aborted a, st)
      | Inr p \<Rightarrow> (let (st', ready) = creation_finish c t1 p st in (Created (fst (snd p)) (snd (snd p)) ready, st')))"
  by (auto simp: character_creation_def creation_prepare_def creation_finish_def
      split: if_splits option.splits sum.splits prod.splits)

text \<open>The write phase ignores whatever was saved to the channel since the
  dialogue began: it writes the start-time copy of the game plus the new
  character, so a game saved meanwhile by another command (another player's
  character, a new NPC) is overwritten.\<close>

lemma creation_finish_overwrites:
  "creation_finish c t1 (g, cd, rem) (save_game (ctx_channel c) g' st) = creation_finish c t1 (g, cd, rem) st"
  by (simp add: creation_finish_def commit_character_def save_game_def)

end
