(* ===== verification/Boot.thy ===== *)
theory Boot
  imports Commands
begin

text \<open>
  The bot process, \<open>src/Emo.py\<close>: a Flask health endpoint on a thread
  (lines 9--21), the command error handler (39--49), a presence task
  started from \<open>on_ready\<close> (52--59), and \<open>on_ready\<close> itself (61--85), which
  loads the extensions one by one, each in its own \<open>try\<close>.  Loading an
  extension registers its cog, and registering a cog runs its
  \<open>cog_load\<close>: \<open>CharacterCreation.cog_load\<close> (character_creation.py lines
  153--156) and \<open>NPCManager.cog_load\<close> (npc_manager.py lines 13--19) look
  up the cogs registered so far.  What they find are the flags
  \<open>parent_loaded\<close> and \<open>cc_loaded\<close> of the command contexts of the other
  theories, so the boot order decides which commands work.  The gateway can
  deliver \<open>on_ready\<close> more than once (on every reconnect); discord.py's
  \<open>Loop.start\<close> then raises \<open>RuntimeError\<close> for the running presence task
  and \<open>load_extension\<close> raises \<open>ExtensionAlreadyLoaded\<close> for a loaded
  extension (library behaviour, modelled from its documentation).
\<close>

subsection \<open>The health endpoint and the test command\<close>

definition home :: string where
  "home = ''Bot is online and healthy!''"

text \<open>
  \<open>int(os.environ.get('PORT', 10000))\<close> (line 17): \<open>None\<close> is the
  \<open>ValueError\<close> that ends the server thread before it serves.
\<close>

definition flask_port :: "(string \<rightharpoonup> string) \<Rightarrow> int option" where
  "flask_port env = (case env ''PORT'' of None \<Rightarrow> Some 10000 | Some s \<Rightarrow> py_int s)"

definition test_reply :: string where
  "test_reply = ''Test command works!''"

subsection \<open>The command error handler\<close>

datatype command_error =
    CommandNotFound
  | MissingRequiredArgument string
  | MemberNotFound
  | OtherCommandError string

text \<open>Lines 40--49: the reply sent to the channel, if any.\<close>

definition on_command_error :: "command_error \<Rightarrow> string option" where
  "on_command_error e =
     (case e of
        CommandNotFound \<Rightarrow> None
      | MissingRequiredArgument p \<Rightarrow> Some (''Missing required argument: '' @ p)
      | MemberNotFound \<Rightarrow> Some ''Could not find that member.''
      | OtherCommandError s \<Rightarrow> Some (''An error occurred: '' @ s))"

subsection \<open>Booting\<close>

text \<open>
  The process state \<open>on_ready\<close> changes: whether the presence task runs,
  the extensions loaded and the cogs registered (in order), the flags the
  three \<open>cog_load\<close>s set, and the printed log.
\<close>

record bot_state =
  status_running :: bool
  presence :: "string option"
  extensions :: "string list"
  cogs :: "string list"
  cc_parent :: bool
  npc_parent :: bool
  npc_cc :: bool
  boot_log :: "string list"

definition bot_init :: bot_state where
  "bot_init = \<lparr>status_running = False, presence = None, extensions = [], cogs = [], cc_parent = False,
     npc_parent = False, npc_cc = False, boot_log = []\<rparr>"

text \<open>Lines 69--76.\<close>

definition cogs_to_load :: "string list" where
  "cogs_to_load = [''cogs.private_groups'', ''cogs.gemini_chat'', ''cogs.dnd_game'',
     ''cogs.character_creation'', ''cogs.emo_narration'', ''cogs.npc_manager'']"

text \<open>
  The cog an extension's \<open>setup\<close> registers: \<open>CharacterCreation\<close>
  (character_creation.py lines 735--736) and \<open>NPCManager\<close> (npc_manager.py
  227--228); \<open>DnDGame\<close> for \<open>cogs.dnd_game\<close>, which is not in the sources;
  the other three extensions (not in the sources) register cogs no
  component looks up, which the model names after the extension.
\<close>

definition cog_of :: "string \<Rightarrow> string" where
  "cog_of ext =
     (if ext = ''cogs.dnd_game'' then ''DnDGame''
      else if ext = ''cogs.character_creation'' then ''CharacterCreation''
      else if ext = ''cogs.npc_manager'' then ''NPCManager''
      else ext)"

text \<open>
  Registering a cog runs its \<open>cog_load\<close>, which looks up the cogs
  registered before it.
\<close>

definition register_cog :: "string \<Rightarrow> bot_state \<Rightarrow> bot_state" where
  "register_cog cog b =
     (let b' = b\<lparr>cogs := cogs b @ [cog]\<rparr> in
      if cog = ''CharacterCreation'' then b'\<lparr>cc_parent := ''DnDGame'' \<in> set (cogs b)\<rparr>
      else if cog = ''NPCManager'' then
        b'\<lparr>npc_parent := ''DnDGame'' \<in> set (cogs b), npc_cc := ''CharacterCreation'' \<in> set (cogs b)\<rparr>
      else b')"

text \<open>
  \<open>bot.load_extension(ext)\<close>: \<open>ok ext\<close> is \<open>Some e\<close> when importing or
  setting the extension up raises \<open>e\<close>; an extension already loaded raises
  \<open>ExtensionAlreadyLoaded\<close>.
\<close>

definition load_extension :: "(string \<Rightarrow> string option) \<Rightarrow> string \<Rightarrow> bot_state \<Rightarrow> string + bot_state" where
  "load_extension ok ext b =
     (if ext \<in> set (extensions b) then Inl (''Extension '' @ ext @ '' is already loaded.'')
      else
        (case ok ext of
           Some e \<Rightarrow> Inl e
         | None \<Rightarrow> Inr (register_cog (cog_of ext) (b\<lparr>extensions := extensions b @ [ext]\<rparr>))))"

text \<open>Lines 78--83: every extension is tried; a failure is printed and the loop goes on.\<close>

definition load_one :: "(string \<Rightarrow> string option) \<Rightarrow> string \<Rightarrow> bot_state \<Rightarrow> bot_state" where
  "load_one ok ext b =
     (case load_extension ok ext b of
        Inl e \<Rightarrow> b\<lparr>boot_log := boot_log b @ [''Failed to load '' @ ext @ '': '' @ e]\<rparr>
      | Inr b' \<Rightarrow> b'\<lparr>boot_log := boot_log b' @ [''Successfully loaded '' @ ext]\<rparr>)"

definition load_cogs :: "(string \<Rightarrow> string option) \<Rightarrow> bot_state \<Rightarrow> bot_state" where
  "load_cogs ok b = fold (load_one ok) cogs_to_load b"

text \<open>
  Lines 61--85.  \<open>status_update.start()\<close> raises \<open>RuntimeError\<close> when the
  task already runs; the exception leaves \<open>on_ready\<close> before the
  extensions, and \<open>on_error\<close> (lines 34--37) prints it.
\<close>

text \<open>Lines 34--37: \<open>on_error\<close> prints the event and the exception it raised.\<close>

definition on_error :: "string \<Rightarrow> string \<Rightarrow> string \<Rightarrow> string" where
  "on_error event etype evalue = ''Error in '' @ event @ '': '' @ etype @ '': '' @ evalue"

definition on_ready :: "string \<Rightarrow> (string \<Rightarrow> string option) \<Rightarrow> bot_state \<Rightarrow> bot_state" where
  "on_ready user ok b =
     (let b = b\<lparr>boot_log := boot_log b @ [user @ '' is online!'']\<rparr> in
      if status_running b then
        b\<lparr>boot_log := boot_log b @
           [on_error ''on_ready'' ''RuntimeError'' ''Task is already launched and is not completed.'']\<rparr>
      else
        (let b = load_cogs ok (b\<lparr>status_running := True\<rparr>)
         in b\<lparr>boot_log := boot_log b @ [''Loaded cogs: '' @ pyval_str (VList (cogs b))]\<rparr>))"

text \<open>
  Lines 52--59: one run of the presence task, every five minutes once
  started; \<open>fail\<close> is the exception \<open>change_presence\<close> raises, if any.
\<close>

definition status_update :: "string option \<Rightarrow> bot_state \<Rightarrow> bot_state" where
  "status_update fail b =
     (case fail of
        None \<Rightarrow> b\<lparr>presence := Some ''!list for help'', boot_log := boot_log b @ [''Updated bot status'']\<rparr>
      | Some e \<Rightarrow> b\<lparr>boot_log := boot_log b @ [''Error updating status: '' @ e]\<rparr>)"

text \<open>The states of the process: start, then any number of \<open>on_ready\<close> events and runs of the presence task.\<close>

inductive boot_reach :: "bot_state \<Rightarrow> bool" where
  boot_start: "boot_reach bot_init"
| boot_ready: "boot_reach b \<Longrightarrow> boot_reach (on_ready user ok b)"
| boot_tick: "boot_reach b \<Longrightarrow> status_running b \<Longrightarrow> boot_reach (status_update fail b)"

text \<open>A run of the process: the \<open>on_ready\<close> events in order, each with the outcome of every extension load.\<close>

definition boot_run :: "(string \<times> (string \<Rightarrow> string option)) list \<Rightarrow> bot_state" where
  "boot_run evs = fold (\<lambda>(user, ok) b. on_ready user ok b) evs bot_init"

text \<open>
  The invariant of the process: each extension loaded once, only the listed
  ones, and none before the presence task was started.
\<close>

definition boot_inv :: "bot_state \<Rightarrow> bool" where
  "boot_inv b \<longleftrightarrow> distinct (extensions b) \<and> set (extensions b) \<subseteq> set cogs_to_load \<and>
     (extensions b \<noteq> [] \<longrightarrow> status_running b)"

text \<open>The command contexts the booted process gives the cogs' handlers.\<close>

definition boot_ctx :: "bot_state \<Rightarrow> string \<Rightarrow> string \<Rightarrow> ctx" where
  "boot_ctx b ch u = \<lparr>parent_loaded = cc_parent b, ctx_channel = ch, ctx_author = u\<rparr>"

definition boot_npc_ctx :: "bot_state \<Rightarrow> string \<Rightarrow> string \<Rightarrow> npc_ctx" where
  "boot_npc_ctx b ch u =
     \<lparr>parent_loaded = npc_parent b, ctx_channel = ch, ctx_author = u, cc_loaded = npc_cc b\<rparr>"

definition boot_view_ctx :: "bot_state \<Rightarrow> string \<Rightarrow> string \<Rightarrow> string option \<Rightarrow> view_ctx" where
  "boot_view_ctx b ch u tp =
     \<lparr>parent_loaded = cc_parent b, ctx_channel = ch, ctx_author = u, thread_parent = tp\<rparr>"

subsection \<open>Lemmas\<close>

lemma load_one_ext:
  "extensions (load_one ok ext b) =
     (if ext \<notin> set (extensions b) \<and> ok ext = None then extensions b @ [ext] else extensions b)"
  by (simp add: load_one_def load_extension_def register_cog_def Let_def split: option.splits)

lemma load_one_running [simp]: "status_running (load_one ok ext b) = status_running b"
  by (simp add: load_one_def load_extension_def register_cog_def Let_def split: option.splits sum.splits)

lemma fold_load_one_ext:
  "distinct xs \<Longrightarrow> set xs \<inter> set (extensions b) = {} \<Longrightarrow>
     extensions (fold (load_one ok) xs b) = extensions b @ filter (\<lambda>e. ok e = None) xs"
  by (induction xs arbitrary: b) (auto simp: load_one_ext)

lemma load_one_fields:
  "cogs (load_one ok ext b) =
     (if ext \<notin> set (extensions b) \<and> ok ext = None then cogs b @ [cog_of ext] else cogs b)"
  "cc_parent (load_one ok ext b) =
     (if ext \<notin> set (extensions b) \<and> ok ext = None \<and> cog_of ext = ''CharacterCreation''
      then ''DnDGame'' \<in> set (cogs b) else cc_parent b)"
  "npc_parent (load_one ok ext b) =
     (if ext \<notin> set (extensions b) \<and> ok ext = None \<and> cog_of ext = ''NPCManager''
      then ''DnDGame'' \<in> set (cogs b) else npc_parent b)"
  "npc_cc (load_one ok ext b) =
     (if ext \<notin> set (extensions b) \<and> ok ext = None \<and> cog_of ext = ''NPCManager''
      then ''CharacterCreation'' \<in> set (cogs b) else npc_cc b)"
  by (auto simp: load_one_def load_extension_def register_cog_def Let_def split: option.splits)

lemma mem_set_if_snoc: "x \<in> set (if c then xs @ [y] else xs) \<longleftrightarrow> x \<in> set xs \<or> (c \<and> x = y)"
  by auto

lemma first_boot_flags:
  "cc_parent (on_ready u ok bot_init) = (ok ''cogs.dnd_game'' = None \<and> ok ''cogs.character_creation'' = None) \<and>
   npc_parent (on_ready u ok bot_init) = (ok ''cogs.dnd_game'' = None \<and> ok ''cogs.npc_manager'' = None) \<and>
   npc_cc (on_ready u ok bot_init) = (ok ''cogs.character_creation'' = None \<and> ok ''cogs.npc_manager'' = None)"
  by (simp add: on_ready_def load_cogs_def cogs_to_load_def load_one_fields load_one_ext bot_init_def cog_of_def
      mem_set_if_snoc if_bool_eq_conj Let_def split del: if_split) blast

lemma load_one_distinct: "distinct (extensions b) \<Longrightarrow> distinct (extensions (load_one ok ext b))"
  by (simp add: load_one_ext)

lemma fold_load_one_inv:
  "distinct (extensions b) \<Longrightarrow>
     distinct (extensions (fold (load_one ok) xs b)) \<and>
     set (extensions (fold (load_one ok) xs b)) \<subseteq> set (extensions b) \<union> set xs"
proof (induction xs arbitrary: b)
  case (Cons a xs)
  have "distinct (extensions (load_one ok a b))" using Cons.prems by (rule load_one_distinct)
  from Cons.IH [OF this] show ?case by (auto simp: load_one_ext split: if_splits)
qed simp

lemma fold_status [simp]: "status_running (fold (load_one ok) xs b) = status_running b"
  by (induction xs arbitrary: b) simp_all

lemma on_ready_running:
  assumes "status_running b"
  shows "extensions (on_ready u ok b) = extensions b \<and> cogs (on_ready u ok b) = cogs b \<and>
    cc_parent (on_ready u ok b) = cc_parent b \<and> npc_parent (on_ready u ok b) = npc_parent b \<and>
    npc_cc (on_ready u ok b) = npc_cc b \<and> status_running (on_ready u ok b)"
  using assms by (simp add: on_ready_def)

lemma on_ready_fresh:
  assumes "\<not> status_running b"
  obtains b' where "extensions b' = extensions b"
    "extensions (on_ready u ok b) = extensions (fold (load_one ok) cogs_to_load b')"
    "status_running (on_ready u ok b)"
proof
  let ?b' = "b\<lparr>boot_log := boot_log b @ [u @ '' is online!''], status_running := True\<rparr>"
  show "extensions ?b' = extensions b" by simp
  show "extensions (on_ready u ok b) = extensions (fold (load_one ok) cogs_to_load ?b')"
    using assms by (simp add: on_ready_def load_cogs_def Let_def)
  show "status_running (on_ready u ok b)" using assms by (simp add: on_ready_def load_cogs_def Let_def)
qed

lemma status_update_keeps [simp]:
  "status_running (status_update fail b) = status_running b" "extensions (status_update fail b) = extensions b"
  "cogs (status_update fail b) = cogs b" "cc_parent (status_update fail b) = cc_parent b"
  "npc_parent (status_update fail b) = npc_parent b" "npc_cc (status_update fail b) = npc_cc b"
  by (simp_all add: status_update_def split: option.splits)

text \<open>In every state of the process, after any sequence of \<open>on_ready\<close>
  events and presence updates, each listed extension is loaded at most once, nothing else is
  loaded, and nothing is loaded before the presence task runs.\<close>

lemma boot_reach_inv: "boot_reach b \<Longrightarrow> boot_inv b"
proof (induction rule: boot_reach.induct)
  case boot_start
  show ?case by (simp add: boot_inv_def bot_init_def)
next
  case (boot_ready b user ok)
  show ?case
  proof (cases "status_running b")
    case True
    with boot_ready.IH show ?thesis by (simp add: boot_inv_def on_ready_running)
  next
    case False
    then obtain b' where e: "extensions b' = extensions b"
      and o: "extensions (on_ready user ok b) = extensions (fold (load_one ok) cogs_to_load b')"
      and r: "status_running (on_ready user ok b)"
      by (rule on_ready_fresh)
    from boot_ready.IH e have "distinct (extensions b')" "set (extensions b') \<subseteq> set cogs_to_load"
      by (simp_all add: boot_inv_def)
    with fold_load_one_inv [of b' ok cogs_to_load] o r show ?thesis by (auto simp: boot_inv_def)
  qed
next
  case (boot_tick b fail)
  then show ?case by (simp add: boot_inv_def)
qed

lemma init_not_running: "\<not> status_running bot_init"
  by (simp add: bot_init_def)

lemma first_boot_loads:
  "extensions (on_ready u ok bot_init) = filter (\<lambda>e. ok e = None) cogs_to_load"
proof -
  obtain b' where e: "extensions b' = extensions bot_init"
    and o: "extensions (on_ready u ok bot_init) = extensions (fold (load_one ok) cogs_to_load b')"
    by (rule on_ready_fresh [OF init_not_running])
  have "distinct cogs_to_load" by (simp add: cogs_to_load_def)
  with e o show ?thesis by (simp add: fold_load_one_ext bot_init_def)
qed

lemma fold_on_ready_running:
  "status_running b \<Longrightarrow>
     extensions (fold (\<lambda>(user, ok) b. on_ready user ok b) evs b) = extensions b \<and>
     cc_parent (fold (\<lambda>(user, ok) b. on_ready user ok b) evs b) = cc_parent b \<and>
     npc_parent (fold (\<lambda>(user, ok) b. on_ready user ok b) evs b) = npc_parent b \<and>
     npc_cc (fold (\<lambda>(user, ok) b. on_ready user ok b) evs b) = npc_cc b"
  by (induction evs arbitrary: b) (auto simp: on_ready_running)

text \<open>A run's extensions and flags are those the first \<open>on_ready\<close> left.\<close>

lemma boot_run_first:
  assumes "boot_run ((u, ok) # evs) = b"
  shows "extensions b = extensions (on_ready u ok bot_init) \<and> cc_parent b = cc_parent (on_ready u ok bot_init) \<and>
     npc_parent b = npc_parent (on_ready u ok bot_init) \<and> npc_cc b = npc_cc (on_ready u ok bot_init)"
proof -
  obtain b' where "extensions b' = extensions bot_init"
    "extensions (on_ready u ok bot_init) = extensions (fold (load_one ok) cogs_to_load b')"
    and r: "status_running (on_ready u ok bot_init)"
    by (rule on_ready_fresh [OF init_not_running])
  from fold_on_ready_running [OF r, of evs] assms show ?thesis by (simp add: boot_run_def)
qed

text \<open>C12: Only the first \<open>on_ready\<close> loads anything: it tries every
  extension in the listed order and loads exactly those whose import
  succeeds, and after any later reconnects the loaded extensions and the
  cogs' flags are still those of the first event, so an extension that failed
  once stays unloaded for the life of the process.\<close>

theorem boot_run_first_decides:
  "boot_run ((u, ok) # evs) = b \<Longrightarrow>
     extensions b = filter (\<lambda>e. ok e = None) cogs_to_load \<and>
     cc_parent b = (ok ''cogs.dnd_game'' = None \<and> ok ''cogs.character_creation'' = None) \<and>
     npc_parent b = (ok ''cogs.dnd_game'' = None \<and> ok ''cogs.npc_manager'' = None) \<and>
     npc_cc b = (ok ''cogs.character_creation'' = None \<and> ok ''cogs.npc_manager'' = None)"
proof -
  assume "boot_run ((u, ok) # evs) = b"
  from boot_run_first [OF this] first_boot_loads [of u ok] first_boot_flags [of u ok] show ?thesis by simp
qed

text \<open>C15: When \<open>cogs.dnd_game\<close> fails at the first \<open>on_ready\<close>, every
  character and NPC command of the process answers that the system is
  unavailable, and none changes the store.\<close>

theorem boot_failure_disables:
  assumes "ok ''cogs.dnd_game'' \<noteq> None" and "boot_run ((u, ok) # evs) = b"
  shows "character_creation (boot_ctx b ch a) t0 t1 es st = (Aborted NoParent, st) \<and>
    random_character (boot_ctx b ch a) t rs es st = (RAborted NoParent, st) \<and>
    create_npc (boot_npc_ctx b ch a) nm t rs st = (Inl NpcNoSystem, st, rs) \<and>
    remove_npc (boot_npc_ctx b ch a) n t st = (Inl NpcNoSystem, st) \<and>
    view_character img (boot_view_ctx b ch a tp) m st = Inl ViewNoSystem \<and>
    list_characters (boot_view_ctx b ch a tp) st = Inl ViewNoSystem"
proof -
  from boot_run_first [OF assms(2)] first_boot_flags [of u ok] assms(1) have "\<not> cc_parent b" "\<not> npc_parent b" by simp_all
  then show ?thesis
    by (simp add: boot_ctx_def boot_npc_ctx_def boot_view_ctx_def character_creation_def random_character_def
        create_npc_def remove_npc_def view_character_def list_characters_def)
qed

text \<open>The error handler answers every command error but an unknown
  command with exactly one message.\<close>

lemma on_command_error_reply: "on_command_error e = None \<longleftrightarrow> e = CommandNotFound"
  by (cases e) (simp_all add: on_command_error_def)

lemma flask_port_str: "flask_port (env(''PORT'' \<mapsto> str_int p)) = Some p"
  by (simp add: flask_port_def)

end
