(* ===== verification/Typing.thy ===== *)
theory Typing
  imports Commands
begin

text \<open>
  The types of the values a character record holds, and the record schema
  every stored character and NPC conforms to: its name, class, race, level
  and creation time are strings, and its six ability scores are strings
  that \<open>int()\<close> reads.  Conformance of a value to a type is lifted to
  records, games and the store, as Jinja lifts it from values to objects
  and heaps.  The schema is the record invariant of section 2 of the
  specification ("every ability score is present", name, class and race
  set); every command keeps the store conforming, and on a conforming store
  the card of \<open>view_character\<close>, which indexes \<open>character['race']\<close> and
  \<open>character['class']\<close>, never raises \<open>KeyError\<close>.
\<close>

datatype pytype = TStr | TIntStr | TList | TBool

fun conf :: "pyval \<Rightarrow> pytype \<Rightarrow> bool" where
  "conf (VStr s) TStr = True"
| "conf (VStr s) TIntStr = (py_int s \<noteq> None)"
| "conf (VList xs) TList = True"
| "conf (VBool b) TBool = True"
| "conf v T = False"

definition char_schema :: "(string \<times> pytype) list" where
  "char_schema =
     [(''name'', TStr), (''class'', TStr), (''race'', TStr), (''level'', TStr), (''created_at'', TStr)] @
     map (\<lambda>a. (a, TIntStr)) gen_abilities"

definition record_conf :: "char_data \<Rightarrow> bool" where
  "record_conf cd \<longleftrightarrow> (\<forall>(k, T) \<in> set char_schema. \<exists>v. map_of cd k = Some v \<and> conf v T)"

definition game_conf :: "game \<Rightarrow> bool" where
  "game_conf g \<longleftrightarrow> (\<forall>(u, cd) \<in> set (characters g). record_conf cd) \<and> (\<forall>cd \<in> set (npcs g). record_conf cd)"

definition store_conf :: "store \<Rightarrow> bool" where
  "store_conf st \<longleftrightarrow> (\<forall>ch g. st ch = Some g \<longrightarrow> game_conf g)"

subsection \<open>Lemmas\<close>

lemma conf_TStr [simp]: "conf v TStr \<longleftrightarrow> (\<exists>s. v = VStr s)"
  by (cases v) simp_all

lemma conf_TIntStr [simp]: "conf v TIntStr \<longleftrightarrow> (\<exists>s. v = VStr s \<and> py_int s \<noteq> None)"
  by (cases v) simp_all

lemma score_of_conf: "score_of cd a \<noteq> None \<longleftrightarrow> (\<exists>v. map_of cd a = Some v \<and> conf v TIntStr)"
  by (auto simp: score_of_def split: option.splits pyval.splits)

lemma record_conf_iff:
  "record_conf cd \<longleftrightarrow>
     (\<forall>k \<in> set [''name'', ''class'', ''race'', ''level'', ''created_at'']. \<exists>s. map_of cd k = Some (VStr s)) \<and>
     (\<forall>a \<in> set gen_abilities. score_of cd a \<noteq> None)"
proof -
  have "(\<forall>a \<in> set gen_abilities. \<exists>v. map_of cd a = Some v \<and> conf v TIntStr) \<longleftrightarrow>
      (\<forall>a \<in> set gen_abilities. score_of cd a \<noteq> None)"
    by (simp only: score_of_conf)
  then show ?thesis by (auto simp: record_conf_def char_schema_def simp del: conf_TIntStr)
qed

lemma record_conf_same:
  "record_conf cd \<Longrightarrow> (\<forall>k \<in> fst ` set char_schema. k \<noteq> ''name'' \<longrightarrow> map_of cd' k = map_of cd k) \<Longrightarrow>
     (\<exists>s. map_of cd' ''name'' = Some (VStr s)) \<Longrightarrow> record_conf cd'"
  by (auto simp: record_conf_def char_schema_def gen_abilities_def)

lemma map2_Some_None: "None \<notin> set (map2 (\<lambda>a v. Some (f a v)) xs ys)"
  by (auto simp: set_zip)

lemma generate_conf:
  assumes "generate_random_character now rs = (cd, rs')"
  shows "record_conf cd"
proof -
  from generate_scores_core [OF assms] obtain race vs where
    "map (score_of cd) gen_abilities = map2 (\<lambda>a v. Some (v + racial_bonus race a)) gen_abilities vs"
    by blast
  then have "None \<notin> set (map (score_of cd) gen_abilities)" by (metis map2_Some_None)
  then have "\<forall>a \<in> set gen_abilities. score_of cd a \<noteq> None" by (metis image_eqI set_map)
  with generate_string_fields [OF assms] show ?thesis by (simp add: record_conf_iff)
qed

lemma game_conf_commit:
  "game_conf g \<Longrightarrow> record_conf cd \<Longrightarrow> game_conf ((put_character u cd g)\<lparr>last_updated := t\<rparr>)"
proof -
  have "set (AList.update u cd xs) \<subseteq> insert (u, cd) (set xs)" for xs :: "(string \<times> char_data) list"
    by (induction xs) auto
  then show "game_conf g \<Longrightarrow> record_conf cd \<Longrightarrow> game_conf ((put_character u cd g)\<lparr>last_updated := t\<rparr>)"
    by (fastforce simp: game_conf_def put_character_def)
qed

lemma store_conf_get: "store_conf st \<Longrightarrow> get_game st ch = Some g \<Longrightarrow> game_conf g"
  by (simp add: store_conf_def get_game_def)

lemma store_conf_save: "store_conf st \<Longrightarrow> game_conf g \<Longrightarrow> store_conf (save_game ch g st)"
  by (simp add: store_conf_def save_game_def)

lemma store_conf_commit:
  "store_conf st \<Longrightarrow> get_game st ch = Some g \<Longrightarrow> record_conf cd \<Longrightarrow>
     store_conf (save_game ch ((put_character u cd g)\<lparr>last_updated := t\<rparr>) st)"
  by (blast intro: store_conf_save game_conf_commit dest: store_conf_get)

lemma creation_steps_conf:
  assumes "creation_steps c g t0 es = Inr (cd, f)"
  shows "record_conf cd"
proof -
  obtain es1 cd5 es6 vals es7 where "allocate c ability_scores 18 (\<lambda>_. 10) cd5 es6 = Inr (f, vals, cd, es7)"
    by (rule creation_steps_Inr [OF assms]) blast
  from allocate_scores [OF this] obtain vs where
    "map (score_of cd) (map py_lower ability_scores) = map Some vs" by blast
  then have "\<forall>a \<in> set gen_abilities. score_of cd a \<noteq> None"
    by (auto simp: ability_keys gen_abilities_def dest: arg_cong [where f = set])
  with creation_steps_fields [OF assms] show ?thesis by (auto simp: record_conf_iff)
qed

lemma creation_conf: "store_conf st \<Longrightarrow> store_conf (snd (character_creation c t0 t1 es st))"
  using character_creation_cases [OF prod.collapse [symmetric, of "character_creation c t0 t1 es st"]]
  by (auto intro!: store_conf_commit dest: creation_steps_conf)

lemma resolve_name_conf:
  assumes "record_conf cd" and "resolve_name cd g u rs = (cd', rs')"
  shows "record_conf cd'"
proof (rule record_conf_same [OF assms(1)])
  show "\<forall>k \<in> fst ` set char_schema. k \<noteq> ''name'' \<longrightarrow> map_of cd' k = map_of cd k"
    using resolve_name_other [OF assms(2)] by blast
  from assms(1) obtain s where "map_of cd ''name'' = Some (VStr s)" by (auto simp: record_conf_iff)
  with assms(2) show "\<exists>s. map_of cd' ''name'' = Some (VStr s)"
    by (auto simp: resolve_name_def Let_def update_conv' split: if_splits prod.splits)
qed

lemma random_conf: "store_conf st \<Longrightarrow> store_conf (snd (random_character c t rs es st))"
proof -
  assume sc: "store_conf st"
  from random_character_loop [OF prod.collapse [symmetric, of "random_character c t rs es st"]]
  show ?thesis
  proof
    assume "\<exists>a. fst (random_character c t rs es st) = RAborted a \<and> snd (random_character c t rs es st) = st"
    with sc show ?thesis by auto
  next
    assume "\<exists>g es' out cd. get_game st (ctx_channel c) = Some g \<and> replace_gate c g es = Inr es' \<and>
        reroll_loop c t g rs es' st = (out, cd, snd (random_character c t rs es st)) \<and>
        fst (random_character c t rs es st) = (case out of Accepted b \<Rightarrow> RAccepted cd b | _ \<Rightarrow> RTimedOut cd)"
    then obtain g es' out cd where g: "get_game st (ctx_channel c) = Some g"
      and l: "reroll_loop c t g rs es' st = (out, cd, snd (random_character c t rs es st))" by blast
    from reroll_loop_cases [OF l] obtain rs0 cd0 rs1 rs2 where
      gen: "generate_random_character t rs0 = (cd0, rs1)"
      and res: "resolve_name cd0 g (ctx_author c) rs1 = (cd, rs2)" by blast
    have "record_conf cd" by (rule resolve_name_conf [OF generate_conf [OF gen] res])
    with reroll_loop_cases [OF l] sc g show ?thesis by (auto intro: store_conf_commit)
  qed
qed

lemma game_conf_append:
  "game_conf g \<Longrightarrow> record_conf cd \<Longrightarrow> game_conf (g\<lparr>npcs := npcs g @ [cd], last_updated := t\<rparr>)"
  by (simp add: game_conf_def)

lemma game_conf_remove:
  "game_conf g \<Longrightarrow> game_conf (g\<lparr>npcs := take i (npcs g) @ drop (Suc i) (npcs g), last_updated := t\<rparr>)"
  by (auto simp: game_conf_def dest: in_set_takeD in_set_dropD)

lemma npc_record_conf:
  "record_conf cd0 \<Longrightarrow>
     record_conf (AList.update ''created_at'' (VStr t) (AList.update ''is_npc'' (VBool True) (name_override nm cd0)))"
  by (auto simp: record_conf_iff update_conv' name_override_def score_of_def gen_abilities_def
      split: option.splits)

lemma create_npc_conf:
  assumes sc: "store_conf st"
  shows "store_conf (fst (snd (create_npc c nm t rs st)))"
  using create_npc_cases [OF prod3_collapse [of "create_npc c nm t rs st"]] sc
  by (auto intro!: store_conf_save game_conf_append npc_record_conf intro: store_conf_get [OF sc] generate_conf)

lemma remove_npc_conf:
  assumes sc: "store_conf st"
  shows "store_conf (snd (remove_npc c n t st))"
  using remove_npc_cases [OF prod.collapse [symmetric, of "remove_npc c n t st"]] sc
  by (auto intro!: store_conf_save game_conf_remove intro: store_conf_get [OF sc])

lemma run_command_conf: "store_conf st \<Longrightarrow> store_conf (run_command cmd st)"
  by (cases cmd) (simp_all add: creation_conf random_conf create_npc_conf remove_npc_conf)

text \<open>C11: Every store reachable by the cogs' commands from a conforming one
  conforms: every character and NPC record has its name, class, race, level
  and creation time as strings and its six ability scores as integer
  strings.\<close>

theorem reachable_store_conf: "reachable st0 st \<Longrightarrow> store_conf st0 \<Longrightarrow> store_conf st"
  by (induction rule: reachable.induct) (simp_all add: run_command_conf)

lemma view_image_conf: "record_conf cd \<Longrightarrow> view_image img cd \<noteq> None"
  by (auto simp: record_conf_iff view_image_def dict_index_def)

text \<open>C14: On every such store, \<open>view_character\<close> never fails with the
  \<open>KeyError\<close> of \<open>character['race']\<close> or \<open>character['class']\<close>.\<close>

theorem view_never_key_error:
  "reachable st0 st \<Longrightarrow> store_conf st0 \<Longrightarrow> view_character img c m st \<noteq> Inl ViewKeyError"
proof -
  assume "reachable st0 st" "store_conf st0"
  then have sc: "store_conf st"
    by (induction rule: reachable.induct) (simp_all add: run_command_conf)
  have "record_conf cd" if "lookup_game c st = Some g" "map_of (characters g) u = Some cd" for g u cd
  proof -
    from that(1) sc have "game_conf g"
      by (auto simp: lookup_game_def store_conf_def get_game_def split: option.splits)
    with that(2) show ?thesis by (auto simp: game_conf_def dest: map_of_SomeD)
  qed
  then show ?thesis
    by (auto simp: view_character_def Let_def dest: view_image_conf split: option.splits)
qed

end
