(* ===== verification/Cards.thy ===== *)
theory Cards
  imports Views
begin

text \<open>
  What the two read-only commands send.  \<open>_add_character_fields\<close> (lines
  396--413) fills a character card; \<open>view_character\<close> (415--464) and
  \<open>list_characters\<close> (466--518) send their card to the invoking channel and
  then forward it to the game's out-of-character channel, when
  \<open>ooc_channel_id\<close> is set and \<open>bot.get_channel(int(ooc_channel_id))\<close> is a
  text channel or a thread.  A handler's effect is the list of messages it
  sends, in order, with the exception that ends it, if any: \<open>int()\<close> of a
  string that is not an integer raises \<open>ValueError\<close>, and \<open>d[k]\<close> of a
  missing key \<open>KeyError\<close>.  The bot's caches are parameters: \<open>dname\<close> gives
  a member's display name, \<open>users\<close> models \<open>bot.get_user\<close> and \<open>chans\<close>
  \<open>bot.get_channel\<close>.  Strings are the UTF-8 bytes of the source's text.
\<close>

subsection \<open>The card of a character\<close>

text \<open>\<open>character_data.get(key, default)\<close> as an embed field or an f-string shows it.\<close>

definition field_str :: "char_data \<Rightarrow> string \<Rightarrow> string \<Rightarrow> string" where
  "field_str cd k d = (case map_of cd k of Some v \<Rightarrow> pyval_str v | None \<Rightarrow> d)"

definition newline :: string where
  "newline = [CHR 0x0A]"

text \<open>Lines 403--410: the six scores on two lines.\<close>

definition ability_line :: "char_data \<Rightarrow> string" where
  "ability_line cd =
     ''**STR:** '' @ field_str cd ''strength'' ''10'' @ '' | '' @
     ''**DEX:** '' @ field_str cd ''dexterity'' ''10'' @ '' | '' @
     ''**CON:** '' @ field_str cd ''constitution'' ''10'' @ newline @
     ''**INT:** '' @ field_str cd ''intelligence'' ''10'' @ '' | '' @
     ''**WIS:** '' @ field_str cd ''wisdom'' ''10'' @ '' | '' @
     ''**CHA:** '' @ field_str cd ''charisma'' ''10''"

text \<open>Lines 396--413: the fields (name, value, inline) and the footer.\<close>

definition add_character_fields :: "char_data \<Rightarrow> string option \<Rightarrow> (string \<times> string \<times> bool) list \<times> string option" where
  "add_character_fields cd author =
     ([(''Class'', field_str cd ''class'' ''Unknown'', True),
       (''Level'', field_str cd ''level'' ''0'', True),
       (''Race'', field_str cd ''race'' ''Unknown'', True),
       (''Backstory'', field_str cd ''backstory'' ''None'', False),
       (''Alignment'', field_str cd ''alignment'' ''Neutral'', True),
       (''Ability Scores'', ability_line cd, False)],
      (case author of Some a \<Rightarrow> if a = [] then None else Some (''Created by '' @ a) | None \<Rightarrow> None))"

record embed =
  embed_title :: string
  embed_description :: string
  embed_fields :: "(string \<times> string \<times> bool) list"
  embed_footer :: "string option"
  embed_thumbnail :: "string option"

text \<open>Lines 446--456: the card \<open>view_character\<close> builds.\<close>

definition character_card :: "(string \<Rightarrow> string) \<Rightarrow> string \<Rightarrow> char_data \<Rightarrow> string \<Rightarrow> embed" where
  "character_card dname uid cd url =
     (let (fs, ft) = add_character_fields cd (Some (dname uid)) in
      \<lparr>embed_title = ''Character: '' @ field_str cd ''name'' ''Unknown'',
       embed_description = ''Player: '' @ dname uid,
       embed_fields = fs, embed_footer = ft, embed_thumbnail = Some url\<rparr>)"

subsection \<open>Messages, exceptions and the forward to the game's thread\<close>

datatype content = Text string | Card embed

datatype target = Invoking | Ooc int

text \<open>
  The exceptions the handlers raise: \<open>int()\<close> of a non-integer string,
  \<open>d[k]\<close> of a missing key, \<open>", ".join(v)\<close> of a value that is not
  iterable, and a method call on \<open>None\<close>.
\<close>

datatype py_exc = ValueError | KeyError | TypeError | AttributeError

text \<open>What \<open>bot.get_channel\<close> finds: a text channel, a thread, or another kind of channel.\<close>

datatype guild_channel = GText | GThread | GOther

text \<open>
  Lines 460--463 (and 514--517): the channel to forward to, none, or the
  \<open>ValueError\<close> of \<open>int(ooc_channel_id)\<close>.
\<close>

definition ooc_target :: "(int \<Rightarrow> guild_channel option) \<Rightarrow> game \<Rightarrow> py_exc + int option" where
  "ooc_target chans g =
     (case ooc_channel_id g of
        None \<Rightarrow> Inr None
      | Some s \<Rightarrow>
          (if s = [] then Inr None
           else
             (case py_int s of
                None \<Rightarrow> Inl ValueError
              | Some n \<Rightarrow>
                  (case chans n of
                     Some GText \<Rightarrow> Inr (Some n)
                   | Some GThread \<Rightarrow> Inr (Some n)
                   | _ \<Rightarrow> Inr None))))"

text \<open>Lines 458--464 (and 512--518): send the card here, then forward it.\<close>

definition send_and_forward ::
  "(int \<Rightarrow> guild_channel option) \<Rightarrow> game \<Rightarrow> embed \<Rightarrow> (target \<times> content) list \<times> py_exc option" where
  "send_and_forward chans g e =
     (case ooc_target chans g of
        Inl x \<Rightarrow> ([(Invoking, Card e)], Some x)
      | Inr None \<Rightarrow> ([(Invoking, Card e)], None)
      | Inr (Some n) \<Rightarrow> ([(Invoking, Card e), (Ooc n, Card e)], None))"

definition no_system_text :: string where
  "no_system_text = ''Error: DnD game system is not currently available.''"

definition no_game_text :: string where
  "no_game_text = ''### There is no active D&D game associated with this channel or thread.''"

subsection \<open>The two commands\<close>

text \<open>Lines 415--464.\<close>

definition view_character_run ::
  "(string \<Rightarrow> string) \<Rightarrow> (string \<Rightarrow> string) \<Rightarrow> (int \<Rightarrow> guild_channel option) \<Rightarrow> view_ctx \<Rightarrow>
   string option \<Rightarrow> store \<Rightarrow> (target \<times> content) list \<times> py_exc option" where
  "view_character_run img dname chans c member st =
     (if \<not> parent_loaded c then ([(Invoking, Text no_system_text)], None)
      else
        (let uid = (case member of Some m \<Rightarrow> m | None \<Rightarrow> ctx_author c) in
         case lookup_game c st of
           None \<Rightarrow> ([(Invoking, Text no_game_text)], None)
         | Some g \<Rightarrow>
             (case map_of (characters g) uid of
                None \<Rightarrow>
                  ([(Invoking, Text (''### '' @ dname uid @ '' doesn'' @ [CHR 0x27] @
                     ''t have a character in this game.''))], None)
              | Some cd \<Rightarrow>
                  (case view_image img cd of
                     None \<Rightarrow> ([], Some KeyError)
                   | Some url \<Rightarrow> send_and_forward chans g (character_card dname uid cd url)))))"

text \<open>Lines 501--510: one field of the listing, under the display name of the player.\<close>

definition list_field :: "string \<Rightarrow> char_data \<Rightarrow> string \<times> string \<times> bool" where
  "list_field player cd =
     (field_str cd ''name'' ''Unknown'',
      ''Player: '' @ player @ newline @ ''Race: '' @ field_str cd ''race'' ''Unknown'' @ newline @
      ''Class: '' @ field_str cd ''class'' ''Unknown'' @ newline @ ''Level: '' @ field_str cd ''level'' ''0'',
      True)"

text \<open>Lines 497--510: the loop, with \<open>bot.get_user(int(user_id))\<close>.\<close>

fun list_fields :: "(int \<Rightarrow> string option) \<Rightarrow> (string \<times> char_data) list \<Rightarrow> py_exc + (string \<times> string \<times> bool) list" where
  "list_fields users [] = Inr []"
| "list_fields users ((uid, cd) # cs) =
     (case py_int uid of
        None \<Rightarrow> Inl ValueError
      | Some n \<Rightarrow>
          sbind (list_fields users cs)
            (\<lambda>fs. Inr (list_field (case users n of Some nm \<Rightarrow> nm | None \<Rightarrow> ''Unknown Player'') cd # fs)))"

text \<open>The theatre-masks emoji U+1F3AD as UTF-8, as the NPC cards have it.\<close>

definition masks :: string where
  "masks = [CHR 0xF0, CHR 0x9F, CHR 0x8E, CHR 0xAD]"

text \<open>
  The title of the listing, line 492.  The source file holds, where the
  emoji was meant, the ten bytes EF A3 BF C3 BC C3 A9 E2 89 A0 on both
  sides (the emoji's bytes once decoded as Mac Roman and saved again as
  UTF-8), and Python sends them as they are.
\<close>

definition list_title_mark :: string where
  "list_title_mark = [CHR 0xEF, CHR 0xA3, CHR 0xBF, CHR 0xC3, CHR 0xBC, CHR 0xC3, CHR 0xA9, CHR 0xE2, CHR 0x89, CHR 0xA0]"

definition list_title :: string where
  "list_title = list_title_mark @ '' D&D Characters '' @ list_title_mark"

text \<open>Lines 466--518.\<close>

definition list_characters_run ::
  "(int \<Rightarrow> string option) \<Rightarrow> (int \<Rightarrow> guild_channel option) \<Rightarrow> view_ctx \<Rightarrow> store \<Rightarrow>
   (target \<times> content) list \<times> py_exc option" where
  "list_characters_run users chans c st =
     (if \<not> parent_loaded c then ([(Invoking, Text no_system_text)], None)
      else
        (case lookup_game c st of
           None \<Rightarrow> ([(Invoking, Text no_game_text)], None)
         | Some g \<Rightarrow>
             (if characters g = [] then ([(Invoking, Text ''### No characters have been created in this game yet.'')], None)
              else
                (case list_fields users (characters g) of
                   Inl x \<Rightarrow> ([], Some x)
                 | Inr fs \<Rightarrow>
                     send_and_forward chans g
                       \<lparr>embed_title = list_title, embed_description = ''Characters in this game:'',
                        embed_fields = fs, embed_footer = None, embed_thumbnail = None\<rparr>))))"

text \<open>
  A reference for the loop of lines 497--510: it fails when some key is not
  an integer string, and otherwise is the fields of all characters, in
  order.
\<close>

definition list_fields_ref :: "(int \<Rightarrow> string option) \<Rightarrow> (string \<times> char_data) list \<Rightarrow> py_exc + (string \<times> string \<times> bool) list" where
  "list_fields_ref users cs =
     (if list_ex (\<lambda>(u, cd). py_int u = None) cs then Inl ValueError
      else Inr (map (\<lambda>(u, cd). list_field (case users (the (py_int u)) of Some nm \<Rightarrow> nm | None \<Rightarrow> ''Unknown Player'') cd) cs))"

subsection \<open>Lemmas\<close>

lemma view_character_found:
  assumes "view_character img c m st = Inr (cd, url)"
  obtains g where "parent_loaded c" "lookup_game c st = Some g"
    "map_of (characters g) (case m of Some u \<Rightarrow> u | None \<Rightarrow> ctx_author c) = Some cd" "view_image img cd = Some url"
  using assms by (auto simp: view_character_def Let_def split: if_splits option.splits)

lemma view_character_run_card:
  assumes "view_character img c m st = Inr (cd, url)" and "lookup_game c st = Some g"
  shows "view_character_run img dname chans c m st =
    send_and_forward chans g (character_card dname (case m of Some u \<Rightarrow> u | None \<Rightarrow> ctx_author c) cd url)"
  using assms by (elim view_character_found) (simp add: view_character_run_def)

lemma py_int_Nil [simp]: "py_int [] = None"
  by (simp add: py_int_def py_strip_def)

lemma ooc_target_Some:
  "ooc_target chans g = Inr (Some n) \<longleftrightarrow>
     (\<exists>s. ooc_channel_id g = Some s \<and> py_int s = Some n \<and> chans n \<in> {Some GText, Some GThread})"
  by (auto simp: ooc_target_def split: option.splits guild_channel.splits if_splits)

lemma ooc_target_Inl:
  "(\<exists>x. ooc_target chans g = Inl x) \<longleftrightarrow> (\<exists>s. ooc_channel_id g = Some s \<and> s \<noteq> [] \<and> py_int s = None)"
  by (auto simp: ooc_target_def split: option.splits guild_channel.splits if_splits)

lemma send_and_forward_cases:
  assumes "send_and_forward chans g e = (sends, x)"
  shows "hd sends = (Invoking, Card e) \<and>
    (\<forall>n. (Ooc n, Card e) \<in> set sends \<longleftrightarrow> ooc_target chans g = Inr (Some n)) \<and>
    set sends \<subseteq> insert (Invoking, Card e) (range (\<lambda>n. (Ooc n, Card e))) \<and>
    (x \<noteq> None \<longleftrightarrow> (\<exists>y. ooc_target chans g = Inl y))"
  using assms by (auto simp: send_and_forward_def split: sum.splits option.splits)

lemma list_fields_Inl:
  "\<exists>(u, cd) \<in> set cs. py_int u = None \<Longrightarrow> list_fields users cs = Inl ValueError"
proof (induction users cs rule: list_fields.induct)
  case (2 users uid cd cs)
  show ?case
  proof (cases "py_int uid")
    case (Some n)
    with "2.prems" have "\<exists>(u, cd) \<in> set cs. py_int u = None" by auto
    with Some "2.IH" show ?thesis by (simp add: sbind_def)
  qed simp
qed simp

text \<open>C18: \<open>view_character\<close>, on a character it finds, first sends to the
  invoking channel the card of the stored record (its fields, its footer
  and the image \<open>view_character\<close> chose); it forwards the same card to a
  channel \<open>n\<close> exactly when the \<open>ooc_channel_id\<close> of the game reads as \<open>n\<close> and
  \<open>n\<close> is a text channel or a thread, sends nothing else, and ends with an
  exception exactly when \<open>ooc_channel_id\<close> is a non-empty string that is
  not an integer, after the card was sent.\<close>

theorem view_character_sends:
  assumes "view_character img c m st = Inr (cd, url)" and "lookup_game c st = Some g"
    and "view_character_run img dname chans c m st = (sends, x)"
  shows "\<exists>e. embed_thumbnail e = Some url \<and>
      embed_fields e = fst (add_character_fields cd (Some (dname (case m of Some u \<Rightarrow> u | None \<Rightarrow> ctx_author c)))) \<and>
      hd sends = (Invoking, Card e) \<and>
      (\<forall>n. (Ooc n, Card e) \<in> set sends \<longleftrightarrow>
         (\<exists>s. ooc_channel_id g = Some s \<and> py_int s = Some n \<and> chans n \<in> {Some GText, Some GThread})) \<and>
      set sends \<subseteq> insert (Invoking, Card e) (range (\<lambda>n. (Ooc n, Card e))) \<and>
      (x \<noteq> None \<longleftrightarrow> (\<exists>s. ooc_channel_id g = Some s \<and> s \<noteq> [] \<and> py_int s = None))"
proof -
  let ?e = "character_card dname (case m of Some u \<Rightarrow> u | None \<Rightarrow> ctx_author c) cd url"
  from assms have "send_and_forward chans g ?e = (sends, x)" by (simp add: view_character_run_card)
  from send_and_forward_cases [OF this] show ?thesis
    by (intro exI [of _ ?e]) (simp add: ooc_target_Some ooc_target_Inl character_card_def
        add_character_fields_def split: prod.splits)
qed

text \<open>C29: \<open>list_characters\<close> raises \<open>ValueError\<close> before it sends anything
  when a stored player id is not an integer string: \<open>int(user_id)\<close> runs
  for every character before the card is sent.\<close>

theorem list_characters_value_error:
  assumes "parent_loaded c" and "lookup_game c st = Some g" and "\<exists>(u, cd) \<in> set (characters g). py_int u = None"
  shows "list_characters_run users chans c st = ([], Some ValueError)"
  using assms list_fields_Inl [OF assms(3)] by (auto simp: list_characters_run_def)

text \<open>C28: The loop that builds the listing equals its reference: it
  raises \<open>ValueError\<close> exactly when some stored player id is not an
  integer string, and otherwise gives one field per character, in the order
  of the dict, under the display name \<open>bot.get_user\<close> finds or
  \<open>Unknown Player\<close>.\<close>

theorem list_fields_equiv: "list_fields users cs = list_fields_ref users cs"
proof (induction users cs rule: list_fields.induct)
  case (1 users)
  show ?case by (simp add: list_fields_ref_def)
next
  case (2 users uid cd cs)
  show ?case
  proof (cases "py_int uid")
    case None
    then show ?thesis by (simp add: list_fields_ref_def)
  next
    case (Some n)
    with "2.IH" show ?thesis by (simp add: list_fields_ref_def)
  qed
qed

end
