(* ===== verification/NpcCards.thy ===== *)
theory NpcCards
  imports Cards Npc
begin

text \<open>
  The cards of the NPC commands, \<open>src/cogs/npc_manager.py\<close>: the card
  \<open>create_npc\<close> sends after saving (lines 61--76) and the card of
  \<open>npc_detail\<close> (lines 146--182).  Both call \<open>_add_character_fields\<close>
  of the \<open>CharacterCreation\<close> cog and key the image on the normalized race
  (\<open>card_image\<close> of \<open>Views\<close>), whose \<open>npc['race']\<close> and
  \<open>npc['class']\<close> raise \<open>KeyError\<close> on a record without them.  The detail
  card then adds its own ability line, a second field named
  \<open>Ability Scores\<close>, and the inventory and skills when the record has
  them.  A handler returns the messages it sends and the exception that
  ends it, as in \<open>Cards\<close>.
\<close>

subsection \<open>The card of a new NPC\<close>

text \<open>Lines 62--74: title, description, the fields of \<open>_add_character_fields\<close> without a footer, the image.\<close>

definition npc_created_card :: "(string \<Rightarrow> string) \<Rightarrow> char_data \<Rightarrow> py_exc + embed" where
  "npc_created_card img cd =
     (case card_image img cd of
        None \<Rightarrow> Inl KeyError
      | Some url \<Rightarrow>
          Inr \<lparr>embed_title = masks @ '' NPC Created: '' @ field_str cd ''name'' ''Unknown'',
               embed_description = ''A new NPC has joined the adventure!'',
               embed_fields = fst (add_character_fields cd None), embed_footer = None,
               embed_thumbnail = Some url\<rparr>)"

text \<open>The replies of the early returns of \<open>create_npc\<close> (lines 27--40); it returns no other error.\<close>

fun create_npc_text :: "npc_error \<Rightarrow> string" where
  "create_npc_text NpcNoSystem = ''Error: Required game systems are not currently available.''"
| "create_npc_text NpcNoGame = ''There is no active D&D game in this channel. Use `!dnd` to create one first.''"
| "create_npc_text NpcNotAuthorized = ''Only the Game Master or game creator can create NPCs.''"
| "create_npc_text _ = []"

text \<open>Lines 21--76: the messages \<open>create_npc\<close> sends and the store it leaves.\<close>

definition create_npc_run ::
  "(string \<Rightarrow> string) \<Rightarrow> npc_ctx \<Rightarrow> string option \<Rightarrow> string \<Rightarrow> rng \<Rightarrow> store \<Rightarrow>
   ((target \<times> content) list \<times> py_exc option) \<times> store" where
  "create_npc_run img c nm t rs st =
     (case create_npc c nm t rs st of
        (Inl err, st', rs') \<Rightarrow> (([(Invoking, Text (create_npc_text err))], None), st')
      | (Inr cd, st', rs') \<Rightarrow>
          (case npc_created_card img cd of
             Inl x \<Rightarrow> (([], Some x), st')
           | Inr e \<Rightarrow> (([(Invoking, Card e)], None), st')))"

subsection \<open>The detail card\<close>

text \<open>Lines 158--165: the ability line of \<open>npc_detail\<close>, without the bold labels.\<close>

definition npc_scores_line :: "char_data \<Rightarrow> string" where
  "npc_scores_line cd =
     ''STR: '' @ field_str cd ''strength'' ''10'' @ '' | '' @
     ''DEX: '' @ field_str cd ''dexterity'' ''10'' @ '' | '' @
     ''CON: '' @ field_str cd ''constitution'' ''10'' @ newline @
     ''INT: '' @ field_str cd ''intelligence'' ''10'' @ '' | '' @
     ''WIS: '' @ field_str cd ''wisdom'' ''10'' @ '' | '' @
     ''CHA: '' @ field_str cd ''charisma'' ''10''"

text \<open>
  Lines 168--174: \<open>if k in npc and npc[k]\<close>, a field with
  \<open>", ".join(npc[k])\<close>: a list joins its items, a string its characters,
  and \<open>True\<close> raises \<open>TypeError\<close>.
\<close>

definition join_field :: "string \<Rightarrow> char_data \<Rightarrow> string \<Rightarrow> py_exc + (string \<times> string \<times> bool) list" where
  "join_field label cd k =
     (case map_of cd k of
        None \<Rightarrow> Inr []
      | Some (VList xs) \<Rightarrow> (if xs = [] then Inr [] else Inr [(label, py_join '', '' xs, False)])
      | Some (VStr s) \<Rightarrow> (if s = [] then Inr [] else Inr [(label, py_join '', '' (map (\<lambda>x. [x]) s), False)])
      | Some (VBool b) \<Rightarrow> (if b then Inl TypeError else Inr []))"

text \<open>Lines 146--180.\<close>

definition npc_detail_card :: "(string \<Rightarrow> string) \<Rightarrow> char_data \<Rightarrow> py_exc + embed" where
  "npc_detail_card img cd =
     sbind (join_field ''Inventory'' cd ''inventory'') (\<lambda>inv.
     sbind (join_field ''Skills'' cd ''skills'') (\<lambda>sk.
       (case card_image img cd of
          None \<Rightarrow> Inl KeyError
        | Some url \<Rightarrow>
            Inr \<lparr>embed_title = masks @ '' NPC: '' @ field_str cd ''name'' ''Unknown'',
                 embed_description = field_str cd ''backstory'' ''No backstory available.'',
                 embed_fields = fst (add_character_fields cd None) @
                   [(''Ability Scores'', npc_scores_line cd, False)] @ inv @ sk,
                 embed_footer = None, embed_thumbnail = Some url\<rparr>)))"

text \<open>The replies of the early returns of \<open>npc_detail\<close> (lines 123--146).\<close>

fun npc_detail_text :: "npc_error \<Rightarrow> string" where
  "npc_detail_text NpcNoSystem = no_system_text"
| "npc_detail_text NpcNoGame = ''There is no active D&D game in this channel.''"
| "npc_detail_text NoNpcs = ''There are no NPCs in this game yet.''"
| "npc_detail_text (NpcNotFound n) = ''No NPC named '' @ [CHR 0x27] @ n @ [CHR 0x27] @ '' was found.''"
| "npc_detail_text _ = []"

text \<open>Lines 117--182: the reply, or the \<open>AttributeError\<close> of line 155, or the card.\<close>

definition npc_detail_run ::
  "(string \<Rightarrow> string) \<Rightarrow> npc_ctx \<Rightarrow> string \<Rightarrow> store \<Rightarrow> (target \<times> content) list \<times> py_exc option" where
  "npc_detail_run img c n st =
     (case npc_detail c n st of
        Inl NpcCrash \<Rightarrow> ([], Some AttributeError)
      | Inl err \<Rightarrow> ([(Invoking, Text (npc_detail_text err))], None)
      | Inr (cd, _) \<Rightarrow>
          (case npc_detail_card img cd of
             Inl x \<Rightarrow> ([], Some x)
           | Inr e \<Rightarrow> ([(Invoking, Card e)], None)))"

subsection \<open>Lemmas\<close>

lemma join_field_labels: "join_field label cd k = Inr fs \<Longrightarrow> \<forall>f \<in> set fs. fst f = label"
  by (auto simp: join_field_def split: option.splits pyval.splits if_splits)

lemma npc_detail_card_fields:
  assumes "npc_detail_card img cd = Inr e"
  obtains inv sk url where "join_field ''Inventory'' cd ''inventory'' = Inr inv"
    "join_field ''Skills'' cd ''skills'' = Inr sk" "card_image img cd = Some url"
    "embed_fields e = fst (add_character_fields cd None) @ [(''Ability Scores'', npc_scores_line cd, False)] @ inv @ sk"
    "embed_description e = field_str cd ''backstory'' ''No backstory available.''"
  using assms by (auto simp: npc_detail_card_def sbind_eq_Inr split: option.splits)

lemma create_npc_race_class:
  assumes "create_npc c nm t rs st = (Inr cd, st', rs')"
  shows "\<exists>r k. dict_index cd ''race'' = Some r \<and> dict_index cd ''class'' = Some k"
proof -
  from create_npc_cases [OF assms] obtain cd0 where
    gen: "generate_random_character t rs = (cd0, rs')" and
    cd: "cd = AList.update ''created_at'' (VStr t) (AList.update ''is_npc'' (VBool True) (name_override nm cd0))"
    by auto
  from generate_string_fields [OF gen] obtain r k where
    "map_of cd0 ''race'' = Some (VStr r)" "map_of cd0 ''class'' = Some (VStr k)" by auto
  with cd show ?thesis
    by (auto simp: dict_index_def update_other_key name_override_def update_conv' split: option.splits)
qed

text \<open>C33: The detail card of an NPC carries two fields named
  \<open>Ability Scores\<close>: the one \<open>_add_character_fields\<close> adds, with bold
  labels, and the one \<open>npc_detail\<close> adds after it, without; and it shows the
  backstory twice, as the description and as a field.  When the card is
  built, it is the only message the command sends.\<close>

theorem npc_detail_score_fields:
  assumes "npc_detail c n st = Inr (cd, l)" and "npc_detail_card img cd = Inr e"
  shows "npc_detail_run img c n st = ([(Invoking, Card e)], None) \<and>
    filter (\<lambda>f. fst f = ''Ability Scores'') (embed_fields e) =
      [(''Ability Scores'', ability_line cd, False), (''Ability Scores'', npc_scores_line cd, False)] \<and>
    embed_description e = field_str cd ''backstory'' ''No backstory available.'' \<and>
    (''Backstory'', field_str cd ''backstory'' ''None'', False) \<in> set (embed_fields e)"
proof -
  from assms(2) obtain inv sk url where
    i: "join_field ''Inventory'' cd ''inventory'' = Inr inv" and
    s: "join_field ''Skills'' cd ''skills'' = Inr sk" and
    f: "embed_fields e = fst (add_character_fields cd None) @ [(''Ability Scores'', npc_scores_line cd, False)] @ inv @ sk" and
    d: "embed_description e = field_str cd ''backstory'' ''No backstory available.''"
    by (rule npc_detail_card_fields)
  have "filter (\<lambda>f. fst f = ''Ability Scores'') (inv @ sk) = []"
    using join_field_labels [OF i] join_field_labels [OF s] by (auto simp: filter_empty_conv)
  with f d assms show ?thesis by (simp add: npc_detail_run_def add_character_fields_def)
qed

text \<open>C19: After a successful \<open>create_npc\<close>, the command sends exactly one
  message, the card of the NPC it appended last to the saved game: the
  fields of \<open>_add_character_fields\<close> for that record, no footer, and the
  image of its normalized race; the generated record always has a race and
  a class, so the card never raises.\<close>

theorem create_npc_sends_card:
  assumes "create_npc c nm t rs st = (Inr cd, st', rs')"
  shows "\<exists>g' e. get_game st' (ctx_channel c) = Some g' \<and> last (npcs g') = cd \<and>
    create_npc_run img c nm t rs st = (([(Invoking, Card e)], None), st') \<and>
    embed_fields e = fst (add_character_fields cd None) \<and> embed_footer e = None \<and>
    embed_thumbnail e = card_image img cd \<and> embed_thumbnail e \<noteq> None"
proof -
  from create_npc_race_class [OF assms] obtain r k where
    "dict_index cd ''race'' = Some r" "dict_index cd ''class'' = Some k" by blast
  then have ci: "card_image img cd = Some (img (image_key (normalize_race r) k))"
    by (simp add: card_image_def)
  from create_npc_cases [OF assms] obtain g where
    "st' = save_game (ctx_channel c) (g\<lparr>npcs := npcs g @ [cd], last_updated := t\<rparr>) st" by auto
  with ci assms show ?thesis
    by (auto simp: create_npc_run_def npc_created_card_def)
qed

end
