(* ===== verification/Spec2Isabelle.thy ===== *)
theory Spec2Isabelle
  imports Boot Typing NpcCards
begin

text \<open>
  \<^bold>\<open>A verification library for the character-creation cogs of Emo-2.0.\<close>

  \<^bold>\<open>The program.\<close>  A Discord bot process (\<open>src/Emo.py\<close>) loads six
  extensions at \<open>on_ready\<close>.  Two of them are in the sources:
  \<open>CharacterCreation\<close> (\<open>src/cogs/character_creation.py\<close>) and
  \<open>NPCManager\<close> (\<open>src/cogs/npc_manager.py\<close>).  Each looks up the
  \<open>DnDGame\<close> cog (and \<open>NPCManager\<close> also \<open>CharacterCreation\<close>) once, when
  it is registered.  Neither keeps state of its own: a command reads the
  per-channel game dict from \<open>DnDGame\<close> (\<open>get_game\<close>), changes it and writes
  it back (\<open>save_game\<close>).  The wizard \<open>!creation\<close> and the random flow
  \<open>!random\<close> talk with the player in private messages and dropdown views,
  suspending on \<open>bot.wait_for\<close>; each wait returns a message or times out.

  \<^bold>\<open>Theories, in import order.\<close>
  \<^item> \<open>Prelude\<close>: the Python built-ins the code calls (\<open>str.strip\<close>,
    \<open>str.lower\<close>, \<open>int(str)\<close>, \<open>str(int)\<close>, \<open>random.choice\<close> and
    \<open>random.shuffle\<close> over \<open>_randbelow\<close>, \<open>dict.get\<close>) on ASCII strings,
    and the bind \<open>sbind\<close> of the sum type that chains a handler's steps with
    its early returns.
  \<^item> \<open>Session\<close>: the character dict (an association list: Python's dicts
    keep insertion order), the game record, the store \<open>channel \<rightharpoonup> game\<close>
    with \<open>get_game\<close>/\<open>save_game\<close> (from the specification: \<open>DnDGame\<close> is
    not in the sources), the invariant \<open>game_wf\<close> and the readiness test.
  \<^item> \<open>Transport\<close>: the user's side as a script of events (message, dropdown
    pick, timer expiry); \<open>wait_for\<close> and \<open>view_wait\<close> (\<open>SelectionView\<close>,
    lines 9--61); the cog's check predicates.
  \<^item> \<open>Wizard\<close>: \<open>character_creation\<close> (lines 158--394), one definition
    per prompt (\<open>replace_gate\<close>, \<open>step_name\<close>, \<open>step_menu\<close>,
    \<open>step_optional\<close>, \<open>read_points\<close>, \<open>allocate\<close>, \<open>step_confirm\<close>,
    \<open>commit_character\<close>) composed by \<open>creation_steps\<close>.
  \<^item> \<open>Generator\<close>: \<open>generate_random_character\<close> (lines 570--673) with its
    tables (lines 71--144): the draws, the shuffle, the priority loops, the
    assignment and the racial bonuses; the bonus rule of the specification
    as \<open>racial_bonus\<close>.
  \<^item> \<open>RandomFlow\<close>: \<open>random_character\<close>, its reroll loop and
    \<open>display_and_confirm\<close> with the duplicate-name resolver (lines
    520--568, 675--733).
  \<^item> \<open>Npc\<close>: the four commands of \<open>NPCManager\<close> with their guards.
  \<^item> \<open>Views\<close>: \<open>view_character\<close>, \<open>list_characters\<close> with the thread
    fallback, \<open>normalize_race\<close> and the image keys.
  \<^item> \<open>Cards\<close>: \<open>_add_character_fields\<close> and what \<open>view_character\<close>
    and \<open>list_characters\<close> send (lines 396--518): the cards, in order, the
    forward to the out-of-character channel of the game, and the exceptions of
    \<open>int()\<close> and \<open>d[k]\<close>.  The title of the listing keeps the ten
    bytes line 492 holds where an emoji was meant.
  \<^item> \<open>NpcCards\<close>: what \<open>create_npc\<close> and \<open>npc_detail\<close> send (npc_manager.py
    lines 21--76, 117--182): their replies, their cards built with
    \<open>_add_character_fields\<close>, and the \<open>KeyError\<close>, \<open>TypeError\<close> and
    \<open>AttributeError\<close> they can raise.
  \<^item> \<open>Commands\<close>: every command as a step \<open>run_command\<close> on the store, the
    inductive \<open>reachable\<close>, and the wizard split at its waits
    (\<open>creation_prepare\<close>, \<open>creation_finish\<close>): the write phase
    writes the copy of the game read before the dialogue, whatever was
    saved meanwhile, given the copy semantics of \<open>get_game\<close> the
    specification describes.
  \<^item> \<open>Boot\<close>: \<open>on_ready\<close> (Emo.py lines 61--85) loading the extensions,
    each cog's \<open>cog_load\<close> setting the flags the commands test, the error
    handler, the health endpoint; the process as the inductive
    \<open>boot_reach\<close> and as runs \<open>boot_run\<close> of \<open>on_ready\<close> events; \<open>on_error\<close>
    and one run of the presence task \<open>status_update\<close>.
  \<^item> \<open>Typing\<close>: a value typing of the stored records, in the style of a
    conformance relation, preserved by every command.
  \<^item> This theory: concrete sessions and scripts, and one witness per
    claim with hypotheses, evaluated by \<open>simp\<close> and \<open>code_simp\<close>.

  \<^bold>\<open>What is proved.\<close>  The wizard: its scores and spent points (C1),
  the allocator once the points are spent (C25), aborts and preconditions
  (C2, C23), its write and record (C4, C24), the replace gate (C5) and the
  readiness notice on a replacement (C17).  The generator: scores, the bonus
  rule, the priority loops, and that every arrangement of the array is
  reachable for every race and class (C3, C20, C22, C16).  The random flow:
  persistence, scores, names, termination, liveness and the timeout (C6,
  C10, C13, C26, C27, C34).  The NPC commands and their cards, with the
  absence of name resolution (C7, C8, C19, C21, C30, C32, C33, C35).  The
  views and cards, with the image keys (C18, C28, C29, C31).  The store over
  any sequence of commands: its invariants (C9, C11, C14).  Start-up (C12,
  C15).

  \<^bold>\<open>Bounds and fuel.\<close>  No fuel is used: every loop of the cogs is a wait
  loop, and each round that does not return consumes at least one event of
  the finite script (C27), which is the termination measure of the
  \<open>function\<close>s \<open>read_points\<close> and \<open>reroll_loop\<close>.  Randomness is a list of
  draws; quantifying over it covers every outcome.  The extension loop of
  \<open>on_ready\<close> is a \<open>fold\<close> over the six listed names.

  \<^bold>\<open>Not modelled.\<close>  How Discord renders a card (colours, layout) and
  delivers a message: a card is the record of its title, description,
  fields, footer and image.  The embed of \<open>list_npcs\<close>, whose field values
  are modelled.  In \<open>src/Emo.py\<close>: the Flask and gateway threads,
  \<open>load_dotenv\<close> and reading the token, and \<open>bot.run\<close>, process I/O that
  holds no state the cogs read.  The extensions not in the sources (named
  by their module), the image table \<open>character_images.py\<close> (a
  parameter), and Unicode case mapping and white space beyond ASCII.  The
  session store (\<open>DnDGame\<close>) and \<open>wait_for\<close> are library or external
  code, modelled from the specification.
\<close>

subsection \<open>Concrete sessions and scripts\<close>

definition ex_ctx :: "string \<Rightarrow> ctx" where
  "ex_ctx u = \<lparr>parent_loaded = True, ctx_channel = ''ch'', ctx_author = u\<rparr>"

definition ex_game :: game where
  "ex_game = \<lparr>player_ids = [''A'', ''B''], game_master_id = ''G'', created_by = ''G'',
     characters = [], npcs = [], last_updated = ''t'', ooc_channel_id = None\<rparr>"

definition ex_store :: store where
  "ex_store = [''ch'' \<mapsto> ex_game]"

definition dm :: "string \<Rightarrow> string \<Rightarrow> event" where
  "dm u s = Msg \<lparr>msg_author = u, msg_channel = DMChannel u, msg_content = s\<rparr>"

definition pub :: "string \<Rightarrow> string \<Rightarrow> event" where
  "pub u s = Msg \<lparr>msg_author = u, msg_channel = TextChannel ''ch'', msg_content = s\<rparr>"

text \<open>
  A complete wizard conversation: a name, class and race picks, an empty
  backstory, an alignment, then 7 points, a non-number and an out-of-range
  number (both re-prompted), 7 and 4 points, and \<open>yes\<close>.
\<close>

definition ex_script :: "string \<Rightarrow> string \<Rightarrow> event list" where
  "ex_script u n =
     [dm u n, Pick ''Fighter'', Pick ''Dwarf'', dm u '''', dm u ''Lawful Good'',
      dm u ''7'', dm u ''x'', dm u ''9'', dm u ''7'', dm u ''4'', dm u ''yes'']"

definition ex_cd :: "string \<Rightarrow> string \<Rightarrow> char_data" where
  "ex_cd n t = [(''level'', VStr ''1''), (''created_at'', VStr t), (''name'', VStr n),
     (''class'', VStr ''Fighter''), (''race'', VStr ''Dwarf''), (''alignment'', VStr ''Lawful Good''),
     (''strength'', VStr ''17''), (''dexterity'', VStr ''17''), (''constitution'', VStr ''14''),
     (''intelligence'', VStr ''10''), (''wisdom'', VStr ''10''), (''charisma'', VStr ''10'')]"

definition ex_game_A :: game where
  "ex_game_A = (put_character ''A'' (ex_cd ''Thorin'' ''t0'') ex_game)\<lparr>last_updated := ''t1''\<rparr>"

definition ex_ctx_noparent :: ctx where
  "ex_ctx_noparent = \<lparr>parent_loaded = False, ctx_channel = ''ch'', ctx_author = ''A''\<rparr>"

definition ex_ctx_elsewhere :: ctx where
  "ex_ctx_elsewhere = \<lparr>parent_loaded = True, ctx_channel = ''other'', ctx_author = ''A''\<rparr>"

definition ex_draws :: rng where
  "ex_draws = [1, 1, 0, 0, 0, 0, 4, 3, 2, 1]"

definition ex_msg :: "string \<Rightarrow> message" where
  "ex_msg s = \<lparr>msg_author = ''A'', msg_channel = DMChannel ''A'', msg_content = s\<rparr>"

definition ex_npc_ctx :: "string \<Rightarrow> bool \<Rightarrow> npc_ctx" where
  "ex_npc_ctx u cc = \<lparr>parent_loaded = True, ctx_channel = ''ch'', ctx_author = u, cc_loaded = cc\<rparr>"

text \<open>The game master adds an NPC Gandalf, then a second one named gandalf.\<close>

definition ex_npc_store1 :: store where
  "ex_npc_store1 = fst (snd (create_npc (ex_npc_ctx ''G'' True) (Some ''Gandalf'') ''t'' ex_draws ex_store))"

definition ex_npc_store2 :: store where
  "ex_npc_store2 = fst (snd (create_npc (ex_npc_ctx ''G'' True) (Some ''gandalf'') ''t1'' [] ex_npc_store1))"

text \<open>The store after A's wizard for a character named Aldrich.\<close>

definition ex_store_Ald :: store where
  "ex_store_Ald = snd (character_creation (ex_ctx ''A'') ''t0'' ''t1'' (ex_script ''A'' ''Aldrich'') ex_store)"

definition ex_thread_ctx :: view_ctx where
  "ex_thread_ctx = \<lparr>parent_loaded = True, ctx_channel = ''thread'', ctx_author = ''A'', thread_parent = Some ''ch''\<rparr>"

text \<open>An image table with one entry, keyed as \<open>normalize_race\<close> writes the race.\<close>

definition ex_img :: "string \<Rightarrow> string" where
  "ex_img k = (if k = ''Half-elf_Bard'' then ''half_elf_bard.png'' else ''default.png'')"


definition ex_store_AB :: store where
  "ex_store_AB = snd (character_creation (ex_ctx ''B'') ''t2'' ''t3'' (ex_script ''B'' ''Gimli'')
     (snd (character_creation (ex_ctx ''A'') ''t0'' ''t1'' (ex_script ''A'' ''Thorin'') ex_store)))"

text \<open>A start-up whose first \<open>on_ready\<close> fails to import \<open>cogs.dnd_game\<close>, then a reconnect.\<close>

definition ex_ok_fail :: "string \<Rightarrow> string option" where
  "ex_ok_fail e = (if e = ''cogs.dnd_game'' then Some ''ModuleNotFoundError'' else None)"

definition ex_boot :: bot_state where
  "ex_boot = boot_run [(''Emo#0001'', ex_ok_fail), (''Emo#0001'', \<lambda>_. None)]"

text \<open>A game with an out-of-character thread 555.\<close>

definition ex_ooc_game :: game where
  "ex_ooc_game = ex_game_A\<lparr>ooc_channel_id := Some ''555''\<rparr>"

definition ex_store_ooc :: store where
  "ex_store_ooc = [''ch'' \<mapsto> ex_ooc_game]"

definition ex_chans :: "int \<Rightarrow> guild_channel option" where
  "ex_chans n = (if n = 555 then Some GThread else None)"

definition ex_dname :: "string \<Rightarrow> string" where
  "ex_dname u = ''Player '' @ u"

definition ex_users :: "int \<Rightarrow> string option" where
  "ex_users n = None"

definition ex_view_run :: "(target \<times> content) list \<times> py_exc option" where
  "ex_view_run = view_character_run ex_img ex_dname ex_chans ex_thread_ctx None ex_store_ooc"

text \<open>The detail card of the NPC Gandalf of \<open>ex_npc_store1\<close>.\<close>

definition ex_gandalf :: char_data where
  "ex_gandalf = fst (projr (npc_detail (ex_npc_ctx ''G'' True) ''Gandalf'' ex_npc_store1))"

definition ex_gandalf_card :: embed where
  "ex_gandalf_card = projr (npc_detail_card ex_img ex_gandalf)"

definition ex_npc_create :: "(npc_error + char_data) \<times> store \<times> rng" where
  "ex_npc_create = create_npc (ex_npc_ctx ''G'' True) (Some ''Gandalf'') ''t'' ex_draws ex_store"

subsection \<open>Witnesses\<close>

lemma ex_run_A:
  "fst (character_creation (ex_ctx ''A'') ''t0'' ''t1'' (ex_script ''A'' ''Thorin'') ex_store) =
     Created (ex_cd ''Thorin'' ''t0'') 0 False"
  by code_simp

lemma ex_run_A_pair:
  "character_creation (ex_ctx ''A'') ''t0'' ''t1'' (ex_script ''A'' ''Thorin'') ex_store =
     (Created (ex_cd ''Thorin'' ''t0'') 0 False,
      snd (character_creation (ex_ctx ''A'') ''t0'' ''t1'' (ex_script ''A'' ''Thorin'') ex_store))"
  using ex_run_A by (rule pair_of_fst)

theorem creation_scores_witness:
  "fst (character_creation (ex_ctx ''A'') ''t0'' ''t1'' (ex_script ''A'' ''Thorin'') ex_store) =
     Created (ex_cd ''Thorin'' ''t0'') 0 False \<and>
   (\<exists>vs. map (score_of (ex_cd ''Thorin'' ''t0'')) (map py_lower ability_scores) = map Some vs \<and>
      (\<forall>v \<in> set vs. 10 \<le> v \<and> v \<le> 17) \<and> sum_list vs - 60 = 18 - 0)"
  using creation_scores [OF ex_run_A_pair] ex_run_A by simp

lemma ex_run_cancel:
  "fst (character_creation (ex_ctx ''A'') ''t0'' ''t1'' [dm ''A'' ''CANCEL''] ex_store) = Aborted (Cancelled SName)"
  by code_simp

theorem creation_abort_unchanged_witness:
  "fst (character_creation (ex_ctx ''A'') ''t0'' ''t1'' [dm ''A'' ''CANCEL''] ex_store) = Aborted (Cancelled SName) \<and>
   snd (character_creation (ex_ctx ''A'') ''t0'' ''t1'' [dm ''A'' ''CANCEL''] ex_store) = ex_store"
  using creation_abort_unchanged [OF pair_of_fst [OF ex_run_cancel]] ex_run_cancel by simp

lemma ex_store_A:
  "get_game (snd (character_creation (ex_ctx ''A'') ''t0'' ''t1'' (ex_script ''A'' ''Thorin'') ex_store)) ''ch'' =
     Some ex_game_A"
  by code_simp

theorem creation_writes_own_record_witness:
  "get_game ex_store ''ch'' = Some ex_game \<and>
   get_game (snd (character_creation (ex_ctx ''A'') ''t0'' ''t1'' (ex_script ''A'' ''Thorin'') ex_store)) ''ch'' =
     Some ((put_character ''A'' (ex_cd ''Thorin'' ''t0'') ex_game)\<lparr>last_updated := ''t1''\<rparr>) \<and>
   get_game (snd (character_creation (ex_ctx ''A'') ''t0'' ''t1'' (ex_script ''A'' ''Thorin'') ex_store)) ''other'' = None"
proof -
  have g: "get_game ex_store ''ch'' = Some ex_game" by (simp add: get_game_def ex_store_def)
  from creation_writes_own_record [OF ex_run_A_pair] g
  have "get_game (snd (character_creation (ex_ctx ''A'') ''t0'' ''t1'' (ex_script ''A'' ''Thorin'') ex_store)) ''ch'' =
          Some ((put_character ''A'' (ex_cd ''Thorin'' ''t0'') ex_game)\<lparr>last_updated := ''t1''\<rparr>) \<and>
        get_game (snd (character_creation (ex_ctx ''A'') ''t0'' ''t1'' (ex_script ''A'' ''Thorin'') ex_store)) ''other'' =
          get_game ex_store ''other''"
    by (auto simp: ex_ctx_def)
  with g show ?thesis by (simp add: get_game_def ex_store_def)
qed

lemma ex_run_replace:
  "fst (character_creation (ex_ctx ''A'') ''t2'' ''t3'' (pub ''A'' ''Yes'' # ex_script ''A'' ''Balin'')
     (snd (character_creation (ex_ctx ''A'') ''t0'' ''t1'' (ex_script ''A'' ''Thorin'') ex_store))) =
   Created (ex_cd ''Balin'' ''t2'') 0 False"
  by code_simp

theorem creation_replace_needs_yes_witness:
  "has_character ex_game_A ''A'' \<and>
   (\<exists>m es'. wait_for (check_confirm (ex_ctx ''A'')) (pub ''A'' ''Yes'' # ex_script ''A'' ''Balin'') = (Some m, es') \<and>
      msg_author m = ''A'' \<and> py_lower (msg_content m) = ''yes'')"
proof -
  have h: "has_character ex_game_A ''A''" by code_simp
  have g: "get_game (snd (character_creation (ex_ctx ''A'') ''t0'' ''t1'' (ex_script ''A'' ''Thorin'') ex_store))
      (ctx_channel (ex_ctx ''A'')) = Some ex_game_A"
    using ex_store_A by (simp add: ex_ctx_def)
  have h': "has_character ex_game_A (ctx_author (ex_ctx ''A''))" using h by (simp add: ex_ctx_def)
  from creation_replace_needs_yes [OF pair_of_fst [OF ex_run_replace] g h']
  show ?thesis using h by (simp add: ex_ctx_def)
qed

theorem creation_preconditions_witness:
  "character_creation ex_ctx_noparent ''t0'' ''t1'' (ex_script ''A'' ''Thorin'') ex_store = (Aborted NoParent, ex_store) \<and>
   character_creation ex_ctx_elsewhere ''t0'' ''t1'' (ex_script ''A'' ''Thorin'') ex_store = (Aborted NoGame, ex_store) \<and>
   character_creation (ex_ctx ''Z'') ''t0'' ''t1'' (ex_script ''Z'' ''Zed'') ex_store = (Aborted NotPlayer, ex_store)"
proof -
  have 1: "\<not> parent_loaded ex_ctx_noparent" by (simp add: ex_ctx_noparent_def)
  have 2: "parent_loaded ex_ctx_elsewhere \<and> get_game ex_store (ctx_channel ex_ctx_elsewhere) = None"
    by (simp add: ex_ctx_elsewhere_def get_game_def ex_store_def)
  have 3: "parent_loaded (ex_ctx ''Z'') \<and> get_game ex_store (ctx_channel (ex_ctx ''Z'')) = Some ex_game \<and>
      ''Z'' \<notin> set (player_ids ex_game)"
    by (simp add: ex_ctx_def get_game_def ex_store_def ex_game_def)
  show ?thesis
    using creation_preconditions [of ex_ctx_noparent] creation_preconditions [of ex_ctx_elsewhere]
      creation_preconditions [of "ex_ctx ''Z''" _ _ _ ex_store ex_game] 1 2 3
    by (simp add: ex_ctx_def)
qed

theorem creation_record_fields_witness:
  "fst (character_creation (ex_ctx ''A'') ''t0'' ''t1'' (ex_script ''A'' ''Thorin'') ex_store) =
     Created (ex_cd ''Thorin'' ''t0'') 0 False \<and>
   (\<exists>n. map_of (ex_cd ''Thorin'' ''t0'') ''name'' = Some (VStr n) \<and> n \<noteq> []) \<and>
   map_of (ex_cd ''Thorin'' ''t0'') ''level'' = Some (VStr ''1'')"
  using creation_record_fields [OF ex_run_A_pair] ex_run_A by simp

theorem creation_preserves_store_wf_witness:
  "store_wf ex_store \<and>
   store_wf (snd (character_creation (ex_ctx ''A'') ''t0'' ''t1'' (ex_script ''A'' ''Thorin'') ex_store))"
proof -
  have w: "store_wf ex_store"
    by (simp add: store_wf_def ex_store_def game_wf_def ex_game_def)
  show ?thesis using creation_preserves_store_wf [OF w ex_run_A_pair] w by simp
qed

theorem read_points_reprompt_witness:
  "read_points (ex_ctx ''A'') 18 [Msg (ex_msg ''x''), Msg (ex_msg ''5'')] =
     read_points (ex_ctx ''A'') 18 [Msg (ex_msg ''5'')] \<and>
   read_points (ex_ctx ''A'') 18 [Msg (ex_msg ''5'')] = (Points 5, [])"
proof -
  have c: "check_response (ex_ctx ''A'') (ex_msg ''x'')" by code_simp
  have l: "py_lower (msg_content (ex_msg ''x'')) \<noteq> ''cancel''" by code_simp
  have n: "py_int (py_strip (msg_content (ex_msg ''x''))) = None" by code_simp
  have r: "read_points (ex_ctx ''A'') 18 [Msg (ex_msg ''5'')] = (Points 5, [])" by code_simp
  from read_points_reprompt [OF c l, of 18 "[Msg (ex_msg ''5'')]"] n r show ?thesis by simp
qed

theorem generate_scores_witness:
  "map_of (fst (generate_random_character ''now'' ex_draws)) ''race'' = Some (VStr ''Elf'') \<and>
   (\<exists>race vs. map_of (fst (generate_random_character ''now'' ex_draws)) ''race'' = Some (VStr race) \<and>
      race \<in> set races \<and> mset vs = mset base_scores \<and>
      map (score_of (fst (generate_random_character ''now'' ex_draws))) gen_abilities =
        map2 (\<lambda>a v. Some (v + racial_bonus race a)) gen_abilities vs)"
proof -
  have "map_of (fst (generate_random_character ''now'' ex_draws)) ''race'' = Some (VStr ''Elf'')"
    by code_simp
  with generate_scores [OF prod.collapse [symmetric]] show ?thesis by blast
qed

theorem generate_fields_witness:
  "map_of (fst (generate_random_character ''now'' ex_draws)) ''class'' = Some (VStr ''Barbarian'') \<and>
   ''Barbarian'' \<in> set classes"
proof -
  have c: "map_of (fst (generate_random_character ''now'' ex_draws)) ''class'' = Some (VStr ''Barbarian'')"
    by code_simp
  have e: "generate_random_character ''now'' ex_draws =
      (fst (generate_random_character ''now'' ex_draws), snd (generate_random_character ''now'' ex_draws))"
    by simp
  from generate_fields [OF e] c show ?thesis by auto
qed

theorem generate_score_bounds_witness:
  "''strength'' \<in> set gen_abilities \<and>
   (\<exists>v. score_of (fst (generate_random_character ''now'' ex_draws)) ''strength'' = Some v \<and> 8 \<le> v \<and> v \<le> 17)"
proof -
  have a: "''strength'' \<in> set gen_abilities" by (simp add: gen_abilities_def)
  from generate_score_bounds [OF prod.collapse [symmetric] a] a show ?thesis by blast
qed

theorem apply_racial_bonuses_eq_witness:
  "apply_racial_bonuses ''Elf'' [''dexterity'' \<mapsto> 13] ''dexterity'' = Some 15"
proof -
  have a: "''dexterity'' \<in> set gen_abilities" by (simp add: gen_abilities_def)
  have b: "racial_bonus ''Elf'' ''dexterity'' = 2" by code_simp
  from apply_racial_bonuses_eq [OF a, of "[''dexterity'' \<mapsto> 13]" 13 "''Elf''"] b show ?thesis by simp
qed

lemma ex_random_accepted:
  "case fst (random_character (ex_ctx ''A'') ''t'' ex_draws [dm ''A'' ''yes''] ex_store) of
     RAccepted cd b \<Rightarrow> True | _ \<Rightarrow> False"
  by code_simp

theorem random_persists_only_on_yes_witness:
  "\<exists>cd b. fst (random_character (ex_ctx ''A'') ''t'' ex_draws [dm ''A'' ''yes''] ex_store) = RAccepted cd b \<and>
     (snd (random_character (ex_ctx ''A'') ''t'' ex_draws [dm ''A'' ''yes''] ex_store) = ex_store \<or>
      get_game (snd (random_character (ex_ctx ''A'') ''t'' ex_draws [dm ''A'' ''yes''] ex_store)) ''ch'' =
        Some ((put_character ''A'' cd ex_game)\<lparr>last_updated := ''t''\<rparr>))"
proof -
  obtain cd b where r: "fst (random_character (ex_ctx ''A'') ''t'' ex_draws [dm ''A'' ''yes''] ex_store) = RAccepted cd b"
    using ex_random_accepted by (auto split: random_result.splits)
  have g: "get_game ex_store ''ch'' = Some ex_game" by (simp add: get_game_def ex_store_def)
  from random_persists_only_on_yes [of "ex_ctx ''A''" "''t''" ex_draws "[dm ''A'' ''yes'']" ex_store,
      OF prod.collapse [symmetric]] r g show ?thesis
    by (auto simp: ex_ctx_def)
qed

theorem random_accepted_scores_witness:
  "\<exists>cd b. fst (random_character (ex_ctx ''A'') ''t'' ex_draws [dm ''A'' ''yes''] ex_store) = RAccepted cd b \<and>
     (\<exists>race vs. map_of cd ''race'' = Some (VStr race) \<and> race \<in> set races \<and>
        mset vs = mset base_scores \<and>
        map (score_of cd) gen_abilities = map2 (\<lambda>a v. Some (v + racial_bonus race a)) gen_abilities vs)"
proof -
  obtain cd b where r: "fst (random_character (ex_ctx ''A'') ''t'' ex_draws [dm ''A'' ''yes''] ex_store) = RAccepted cd b"
    using ex_random_accepted by (auto split: random_result.splits)
  from random_accepted_scores [OF pair_of_fst [OF r]] r show ?thesis by blast
qed

theorem resolve_name_keeps_witness:
  "resolve_name (ex_cd ''Thorin'' ''t2'') ex_game_A ''A'' [3] = (ex_cd ''Thorin'' ''t2'', [3])"
proof -
  have "\<not> name_in_use ex_game_A ''A'' (get_str (ex_cd ''Thorin'' ''t2'') ''name'' '''')" by code_simp
  then show ?thesis by (rule resolve_name_keeps [OF disjI1])
qed

lemma ex_store_Aldrich:
  "get_game (snd (character_creation (ex_ctx ''A'') ''t0'' ''t1'' (ex_script ''A'' ''Aldrich'') ex_store)) ''ch'' =
     Some ((put_character ''A'' (ex_cd ''Aldrich'' ''t0'') ex_game)\<lparr>last_updated := ''t1''\<rparr>)"
  by code_simp

lemma ex_random_B_accepted:
  "case fst (random_character (ex_ctx ''B'') ''t'' ex_draws [dm ''B'' ''yes'']
      (snd (character_creation (ex_ctx ''A'') ''t0'' ''t1'' (ex_script ''A'' ''Aldrich'') ex_store))) of
     RAccepted cd b \<Rightarrow> True | _ \<Rightarrow> False"
  by code_simp

theorem random_name_unique_witness:
  "name_in_use ((put_character ''A'' (ex_cd ''Aldrich'' ''t0'') ex_game)\<lparr>last_updated := ''t1''\<rparr>) ''B''
     (get_str (fst (generate_random_character ''t'' ex_draws)) ''name'' '''') \<and>
   (\<exists>cd b. fst (random_character (ex_ctx ''B'') ''t'' ex_draws [dm ''B'' ''yes'']
        (snd (character_creation (ex_ctx ''A'') ''t0'' ''t1'' (ex_script ''A'' ''Aldrich'') ex_store))) =
        RAccepted cd b \<and>
      \<not> name_in_use ((put_character ''A'' (ex_cd ''Aldrich'' ''t0'') ex_game)\<lparr>last_updated := ''t1''\<rparr>) ''B''
          (get_str cd ''name'' ''''))"
proof -
  have clash: "name_in_use ((put_character ''A'' (ex_cd ''Aldrich'' ''t0'') ex_game)\<lparr>last_updated := ''t1''\<rparr>) ''B''
     (get_str (fst (generate_random_character ''t'' ex_draws)) ''name'' '''')" by code_simp
  have free: "\<exists>n \<in> set names. py_lower n \<notin>
      set (used_names ((put_character ''A'' (ex_cd ''Aldrich'' ''t0'') ex_game)\<lparr>last_updated := ''t1''\<rparr>) ''B'')"
  proof
    show "''Cedric'' \<in> set names" by (simp add: names_def)
    show "py_lower ''Cedric'' \<notin>
      set (used_names ((put_character ''A'' (ex_cd ''Aldrich'' ''t0'') ex_game)\<lparr>last_updated := ''t1''\<rparr>) ''B'')"
      by code_simp
  qed
  obtain cd b where r: "fst (random_character (ex_ctx ''B'') ''t'' ex_draws [dm ''B'' ''yes'']
        (snd (character_creation (ex_ctx ''A'') ''t0'' ''t1'' (ex_script ''A'' ''Aldrich'') ex_store))) = RAccepted cd b"
    using ex_random_B_accepted by (auto split: random_result.splits)
  have g: "get_game (snd (character_creation (ex_ctx ''A'') ''t0'' ''t1'' (ex_script ''A'' ''Aldrich'') ex_store))
      (ctx_channel (ex_ctx ''B'')) = Some ((put_character ''A'' (ex_cd ''Aldrich'' ''t0'') ex_game)\<lparr>last_updated := ''t1''\<rparr>)"
    using ex_store_Aldrich by (simp add: ex_ctx_def)
  from random_name_unique [OF pair_of_fst [OF r] g] free clash r show ?thesis
    by (auto simp: ex_ctx_def)
qed

theorem random_timeout_no_write_witness:
  "\<exists>cd. random_character (ex_ctx ''A'') ''t'' ex_draws [] ex_store = (RTimedOut cd, ex_store)"
proof -
  have "parent_loaded (ex_ctx ''A'')" "get_game ex_store (ctx_channel (ex_ctx ''A'')) = Some ex_game"
    "ctx_author (ex_ctx ''A'') \<in> set (player_ids ex_game)" "\<not> has_character ex_game (ctx_author (ex_ctx ''A''))"
    by (simp_all add: ex_ctx_def get_game_def ex_store_def ex_game_def has_character_def)
  then show ?thesis by (rule random_timeout_no_write)
qed

lemma ex_npc_created:
  "case fst (create_npc (ex_npc_ctx ''G'' True) (Some ''Gandalf'') ''t'' ex_draws ex_store) of
     Inr cd \<Rightarrow> map_of cd ''name'' = Some (VStr ''Gandalf'') | Inl _ \<Rightarrow> False"
  by code_simp

theorem create_npc_appends_witness:
  "\<exists>cd. fst (create_npc (ex_npc_ctx ''G'' True) (Some ''Gandalf'') ''t'' ex_draws ex_store) = Inr cd \<and>
     map_of cd ''is_npc'' = Some (VBool True) \<and> map_of cd ''name'' = Some (VStr ''Gandalf'') \<and>
     get_game ex_npc_store1 ''ch'' = Some (ex_game\<lparr>npcs := [cd], last_updated := ''t''\<rparr>)"
proof -
  obtain cd where r: "fst (create_npc (ex_npc_ctx ''G'' True) (Some ''Gandalf'') ''t'' ex_draws ex_store) = Inr cd"
    using ex_npc_created by (auto split: sum.splits)
  have g: "get_game ex_store ''ch'' = Some ex_game" by (simp add: get_game_def ex_store_def)
  from create_npc_appends [OF triple_of_fst [OF r]] g r show ?thesis
    by (auto simp: ex_npc_ctx_def ex_npc_store1_def ex_game_def)
qed

theorem npc_mutation_authorized_witness:
  "create_npc (ex_npc_ctx ''A'' True) None ''t'' ex_draws ex_store = (Inl NpcNotAuthorized, ex_store, ex_draws) \<and>
   remove_npc (ex_npc_ctx ''A'' True) ''Gandalf'' ''t'' ex_store = (Inl NpcNotAuthorized, ex_store)"
proof -
  have "get_game ex_store (ctx_channel (ex_npc_ctx ''A'' True)) = Some ex_game"
    "\<not> may_manage_npcs ex_game (ctx_author (ex_npc_ctx ''A'' True))"
    by (simp_all add: get_game_def ex_store_def ex_npc_ctx_def may_manage_npcs_def ex_game_def)
  from npc_mutation_authorized [OF this] show ?thesis by (simp add: ex_npc_ctx_def)
qed

theorem npc_errors_unchanged_witness:
  "fst (snd (create_npc (ex_npc_ctx ''A'' True) None ''t'' ex_draws ex_npc_store1)) = ex_npc_store1 \<and>
   snd (remove_npc (ex_npc_ctx ''A'' True) ''Gandalf'' ''t'' ex_npc_store1) = ex_npc_store1"
proof -
  have "fst (create_npc (ex_npc_ctx ''A'' True) None ''t'' ex_draws ex_npc_store1) = Inl NpcNotAuthorized"
    "fst (remove_npc (ex_npc_ctx ''A'' True) ''Gandalf'' ''t'' ex_npc_store1) = Inl NpcNotAuthorized"
    by code_simp+
  with npc_errors_unchanged [of "ex_npc_ctx ''A'' True" None "''t''" ex_draws ex_npc_store1 NpcNotAuthorized
      "''Gandalf''" NpcNotAuthorized]
  show ?thesis by simp
qed

lemma ex_npc_removed:
  "case fst (remove_npc (ex_npc_ctx ''G'' True) ''GANDALF'' ''t2'' ex_npc_store2) of
     Inr cd \<Rightarrow> map_of cd ''name'' = Some (VStr ''Gandalf'') | Inl _ \<Rightarrow> False"
  by code_simp

theorem remove_npc_first_match_witness:
  "\<exists>cd. fst (remove_npc (ex_npc_ctx ''G'' True) ''GANDALF'' ''t2'' ex_npc_store2) = Inr cd \<and>
     map_of cd ''name'' = Some (VStr ''Gandalf'') \<and> npc_matches ''GANDALF'' cd"
proof -
  obtain cd where r: "fst (remove_npc (ex_npc_ctx ''G'' True) ''GANDALF'' ''t2'' ex_npc_store2) = Inr cd"
    and n: "map_of cd ''name'' = Some (VStr ''Gandalf'')"
    using ex_npc_removed by (auto split: sum.splits)
  from remove_npc_first_match [OF pair_of_fst [OF r]] r n show ?thesis by blast
qed

theorem remove_npc_not_found_witness:
  "remove_npc (ex_npc_ctx ''G'' True) ''Saruman'' ''t'' ex_npc_store1 = (Inl (NpcNotFound ''Saruman''), ex_npc_store1)"
proof (rule remove_npc_not_found)
  show "parent_loaded (ex_npc_ctx ''G'' True)" by (simp add: ex_npc_ctx_def)
  show "get_game ex_npc_store1 (ctx_channel (ex_npc_ctx ''G'' True)) = Some (the (get_game ex_npc_store1 ''ch''))"
    by code_simp
  show "may_manage_npcs (the (get_game ex_npc_store1 ''ch'')) (ctx_author (ex_npc_ctx ''G'' True))" by code_simp
  show "npcs (the (get_game ex_npc_store1 ''ch'')) \<noteq> []" by code_simp
  show "\<forall>cd \<in> set (npcs (the (get_game ex_npc_store1 ''ch''))). \<not> npc_matches ''Saruman'' cd" by code_simp
qed

lemma ex_npc_detail:
  "case npc_detail (ex_npc_ctx ''A'' True) ''gandalf'' ex_npc_store2 of
     Inr (cd, l) \<Rightarrow> map_of cd ''name'' = Some (VStr ''Gandalf'') | Inl _ \<Rightarrow> False"
  by code_simp

theorem npc_detail_remove_agree_witness:
  "\<exists>cd l. npc_detail (ex_npc_ctx ''A'' True) ''gandalf'' ex_npc_store2 = Inr (cd, l) \<and>
     map_of cd ''name'' = Some (VStr ''Gandalf'') \<and>
     fst (remove_npc (ex_npc_ctx ''G'' True) ''gandalf'' ''t2'' ex_npc_store2) = Inr cd"
proof -
  obtain cd l where d: "npc_detail (ex_npc_ctx ''A'' True) ''gandalf'' ex_npc_store2 = Inr (cd, l)"
    and n: "map_of cd ''name'' = Some (VStr ''Gandalf'')"
    using ex_npc_detail by (auto split: sum.splits)
  have g: "get_game ex_npc_store2 (ctx_channel (ex_npc_ctx ''A'' True)) = Some (the (get_game ex_npc_store2 ''ch''))"
    by code_simp
  have m: "may_manage_npcs (the (get_game ex_npc_store2 ''ch'')) (ctx_author (ex_npc_ctx ''G'' True))" by code_simp
  have "parent_loaded (ex_npc_ctx ''G'' True)" "ctx_channel (ex_npc_ctx ''G'' True) = ctx_channel (ex_npc_ctx ''A'' True)"
    by (simp_all add: ex_npc_ctx_def)
  from npc_detail_remove_agree [OF d this g m] d n show ?thesis by blast
qed

theorem npc_detail_crash_witness:
  "npc_detail (ex_npc_ctx ''A'' False) ''Gandalf'' ex_npc_store1 = Inl NpcCrash"
proof (rule npc_detail_crash)
  show "parent_loaded (ex_npc_ctx ''A'' False)" "\<not> cc_loaded (ex_npc_ctx ''A'' False)"
    by (simp_all add: ex_npc_ctx_def)
  show "get_game ex_npc_store1 (ctx_channel (ex_npc_ctx ''A'' False)) = Some (the (get_game ex_npc_store1 ''ch''))"
    by code_simp
  show "find (npc_matches ''Gandalf'') (npcs (the (get_game ex_npc_store1 ''ch''))) =
      Some (hd (npcs (the (get_game ex_npc_store1 ''ch''))))" by code_simp
  show "hd (npcs (the (get_game ex_npc_store1 ''ch''))) \<noteq> []" by code_simp
qed

theorem npc_commands_preserve_invariants_witness:
  "store_wf ex_npc_store1 \<and> store_npcs_flagged ex_npc_store1 \<and>
   store_wf (snd (remove_npc (ex_npc_ctx ''G'' True) ''Gandalf'' ''t2'' ex_npc_store1))"
proof -
  have "store_wf ex_store" "store_npcs_flagged ex_store"
    by (simp_all add: store_wf_def store_npcs_flagged_def ex_store_def game_wf_def npcs_flagged_def ex_game_def)
  from npc_commands_preserve_invariants [OF this, of "ex_npc_ctx ''G'' True" "Some ''Gandalf''" "''t''" ex_draws]
  have "store_wf ex_npc_store1" "store_npcs_flagged ex_npc_store1" by (simp_all add: ex_npc_store1_def)
  from npc_commands_preserve_invariants [OF this] this show ?thesis by blast
qed

theorem create_npc_scores_witness:
  "\<exists>cd. fst (create_npc (ex_npc_ctx ''G'' True) (Some ''Gandalf'') ''t'' ex_draws ex_store) = Inr cd \<and>
     (\<exists>race vs. map_of cd ''race'' = Some (VStr race) \<and> race \<in> set races \<and>
        mset vs = mset base_scores \<and>
        map (score_of cd) gen_abilities = map2 (\<lambda>a v. Some (v + racial_bonus race a)) gen_abilities vs)"
proof -
  obtain cd where r: "fst (create_npc (ex_npc_ctx ''G'' True) (Some ''Gandalf'') ''t'' ex_draws ex_store) = Inr cd"
    using ex_npc_created by (auto split: sum.splits)
  from create_npc_scores [OF triple_of_fst [OF r]] r show ?thesis by blast
qed

lemma ex_view:
  "case view_character ex_img ex_thread_ctx None ex_store_AB of
     Inr (cd, url) \<Rightarrow> map_of cd ''name'' = Some (VStr ''Thorin'') | Inl _ \<Rightarrow> False"
  by code_simp

theorem view_character_owner_witness:
  "\<exists>cd url. view_character ex_img ex_thread_ctx None ex_store_AB = Inr (cd, url) \<and>
     map_of cd ''name'' = Some (VStr ''Thorin'') \<and>
     (\<exists>g. lookup_game ex_thread_ctx ex_store_AB = Some g \<and> map_of (characters g) ''A'' = Some cd)"
proof -
  obtain cd url where v: "view_character ex_img ex_thread_ctx None ex_store_AB = Inr (cd, url)"
    and n: "map_of cd ''name'' = Some (VStr ''Thorin'')"
    using ex_view by (auto split: sum.splits)
  from view_character_owner [OF v] v n show ?thesis by (auto simp: ex_thread_ctx_def)
qed

theorem view_image_consistent_witness:
  "view_image ex_img (ex_cd ''Thorin'' ''t0'') = card_image ex_img (ex_cd ''Thorin'' ''t0'')"
proof (rule view_image_consistent)
  show "dict_index (ex_cd ''Thorin'' ''t0'') ''race'' = Some ''Dwarf''" by code_simp
  show "normalize_race ''Dwarf'' = ''Dwarf''" by code_simp
qed

lemma ex_list:
  "list_characters ex_thread_ctx ex_store_AB = Inr (map character_line (characters (the (ex_store_AB ''ch''))))"
  by code_simp

theorem list_characters_each_once_witness:
  "map fst (map character_line (characters (the (ex_store_AB ''ch'')))) = [''A'', ''B''] \<and>
   distinct (map fst (map character_line (characters (the (ex_store_AB ''ch'')))))"
proof -
  have "session_inv ex_store"
    by (simp add: session_inv_def store_wf_def store_npcs_flagged_def ex_store_def game_wf_def
        npcs_flagged_def ex_game_def)
  then have "session_inv ex_store_AB" unfolding ex_store_AB_def by (intro creation_preserves_inv)
  then have wf: "store_wf ex_store_AB" by (simp add: session_inv_def)
  have "map fst (map character_line (characters (the (ex_store_AB ''ch'')))) = [''A'', ''B'']" by code_simp
  with list_characters_each_once [OF wf ex_list] show ?thesis by blast
qed

theorem reachable_session_inv_witness:
  "session_inv (run_command (CmdCreateNpc (ex_npc_ctx ''G'' True) (Some ''Gandalf'') ''t'' ex_draws)
     (run_command (CmdCreation (ex_ctx ''A'') ''t0'' ''t1'' (ex_script ''A'' ''Thorin'')) ex_store))"
proof (rule reachable_session_inv)
  show "reachable ex_store (run_command (CmdCreateNpc (ex_npc_ctx ''G'' True) (Some ''Gandalf'') ''t'' ex_draws)
     (run_command (CmdCreation (ex_ctx ''A'') ''t0'' ''t1'' (ex_script ''A'' ''Thorin'')) ex_store))"
    by (intro reach_step reach_init)
  show "session_inv ex_store"
    by (simp add: session_inv_def store_wf_def store_npcs_flagged_def ex_store_def game_wf_def
        npcs_flagged_def ex_game_def)
qed

lemma ex_store_conf: "store_conf ex_store"
  by (simp add: store_conf_def ex_store_def game_conf_def ex_game_def)

theorem boot_reach_inv_witness:
  "boot_inv (on_ready ''Emo#0001'' (\<lambda>_. None) (on_ready ''Emo#0001'' ex_ok_fail bot_init))"
  by (rule boot_reach_inv) (intro boot_ready boot_start)

theorem boot_run_first_decides_witness:
  "extensions ex_boot = [''cogs.private_groups'', ''cogs.gemini_chat'', ''cogs.character_creation'',
     ''cogs.emo_narration'', ''cogs.npc_manager''] \<and> \<not> cc_parent ex_boot \<and> \<not> npc_parent ex_boot \<and> npc_cc ex_boot"
  using boot_run_first_decides [OF ex_boot_def [symmetric, unfolded boot_run_def [symmetric]]]
  by (simp add: ex_ok_fail_def cogs_to_load_def)

theorem boot_failure_disables_witness:
  "character_creation (boot_ctx ex_boot ''ch'' ''A'') ''t0'' ''t1'' (ex_script ''A'' ''Thorin'') ex_store =
     (Aborted NoParent, ex_store) \<and>
   view_character ex_img (boot_view_ctx ex_boot ''thread'' ''A'' (Some ''ch'')) None ex_store = Inl ViewNoSystem"
proof -
  have "ex_ok_fail ''cogs.dnd_game'' \<noteq> None" by (simp add: ex_ok_fail_def)
  from boot_failure_disables [OF this ex_boot_def [symmetric]] show ?thesis by simp
qed

theorem reachable_store_conf_witness:
  "store_conf (run_command (CmdCreateNpc (ex_npc_ctx ''G'' True) (Some ''Gandalf'') ''t'' ex_draws)
     (run_command (CmdCreation (ex_ctx ''A'') ''t0'' ''t1'' (ex_script ''A'' ''Thorin'')) ex_store))"
  by (rule reachable_store_conf [OF _ ex_store_conf]) (intro reach_step reach_init)

theorem view_never_key_error_witness:
  "view_character ex_img ex_thread_ctx None
     (run_command (CmdRandom (ex_ctx ''A'') ''t'' ex_draws [dm ''A'' ''yes''])
       (run_command (CmdCreation (ex_ctx ''B'') ''t0'' ''t1'' (ex_script ''B'' ''Gimli'')) ex_store)) \<noteq> Inl ViewKeyError"
  by (rule view_never_key_error [OF _ ex_store_conf]) (intro reach_step reach_init)

theorem reroll_consumes_witness:
  "display_and_confirm (ex_ctx ''A'') ''t'' (ex_cd ''Thorin'' ''t0'') ex_game [] [dm ''A'' ''no'', dm ''A'' ''yes''] ex_store =
      (Rerolled, ex_cd ''Thorin'' ''t0'', [], [dm ''A'' ''yes''], ex_store) \<and>
   length [dm ''A'' ''yes''] < length [dm ''A'' ''no'', dm ''A'' ''yes'']"
proof -
  have e: "display_and_confirm (ex_ctx ''A'') ''t'' (ex_cd ''Thorin'' ''t0'') ex_game [] [dm ''A'' ''no'', dm ''A'' ''yes''] ex_store =
      (Rerolled, ex_cd ''Thorin'' ''t0'', [], [dm ''A'' ''yes''], ex_store)"
    by (simp add: display_and_confirm_def resolve_name_def name_in_use_def ex_game_def ex_ctx_def dm_def
        check_dm_confirm_def)
  from e reroll_consumes [OF e] show ?thesis by simp
qed

theorem random_accepts_eventually_witness:
  "\<exists>cd b. random_character (ex_ctx ''A'') ''t'' ex_draws
     (replicate 2 (dm_reply (ex_ctx ''A'') ''no'') @ [dm_reply (ex_ctx ''A'') ''yes'']) ex_store =
     (RAccepted cd b, save_game ''ch'' ((put_character ''A'' cd ex_game)\<lparr>last_updated := ''t''\<rparr>) ex_store)"
proof -
  have "parent_loaded (ex_ctx ''A'')" "get_game ex_store (ctx_channel (ex_ctx ''A'')) = Some ex_game"
    "ctx_author (ex_ctx ''A'') \<in> set (player_ids ex_game)" "\<not> has_character ex_game (ctx_author (ex_ctx ''A''))"
    by (simp_all add: ex_ctx_def ex_store_def get_game_def ex_game_def has_character_def)
  from random_accepts_eventually [OF this, of "''t''" ex_draws 2] show ?thesis by (simp add: ex_ctx_def)
qed

theorem view_character_sends_witness:
  "\<exists>e. embed_thumbnail e = Some ''default.png'' \<and>
      embed_fields e = fst (add_character_fields (ex_cd ''Thorin'' ''t0'') (Some (ex_dname ''A''))) \<and>
      hd (fst ex_view_run) = (Invoking, Card e) \<and>
      (\<forall>n. (Ooc n, Card e) \<in> set (fst ex_view_run) \<longleftrightarrow>
         (\<exists>s. ooc_channel_id ex_ooc_game = Some s \<and> py_int s = Some n \<and> ex_chans n \<in> {Some GText, Some GThread})) \<and>
      set (fst ex_view_run) \<subseteq> insert (Invoking, Card e) (range (\<lambda>n. (Ooc n, Card e))) \<and>
      (snd ex_view_run \<noteq> None \<longleftrightarrow> (\<exists>s. ooc_channel_id ex_ooc_game = Some s \<and> s \<noteq> [] \<and> py_int s = None))"
proof -
  have v: "view_character ex_img ex_thread_ctx None ex_store_ooc = Inr (ex_cd ''Thorin'' ''t0'', ''default.png'')"
    by code_simp
  have l: "lookup_game ex_thread_ctx ex_store_ooc = Some ex_ooc_game"
    by code_simp
  from view_character_sends [OF v l prod.collapse [symmetric]] show ?thesis
    by (simp add: ex_view_run_def ex_thread_ctx_def)
qed

theorem list_characters_value_error_witness:
  "list_characters_run ex_users ex_chans ex_thread_ctx ex_store_ooc = ([], Some ValueError)"
proof -
  have "parent_loaded ex_thread_ctx" by (simp add: ex_thread_ctx_def)
  moreover have "lookup_game ex_thread_ctx ex_store_ooc = Some ex_ooc_game" by code_simp
  moreover have "\<exists>(u, cd) \<in> set (characters ex_ooc_game). py_int u = None" by code_simp
  ultimately show ?thesis by (rule list_characters_value_error)
qed

theorem npc_detail_score_fields_witness:
  "npc_detail_run ex_img (ex_npc_ctx ''G'' True) ''Gandalf'' ex_npc_store1 = ([(Invoking, Card ex_gandalf_card)], None) \<and>
   filter (\<lambda>f. fst f = ''Ability Scores'') (embed_fields ex_gandalf_card) =
     [(''Ability Scores'', ability_line ex_gandalf, False), (''Ability Scores'', npc_scores_line ex_gandalf, False)] \<and>
   embed_description ex_gandalf_card = field_str ex_gandalf ''backstory'' ''No backstory available.'' \<and>
   (''Backstory'', field_str ex_gandalf ''backstory'' ''None'', False) \<in> set (embed_fields ex_gandalf_card)"
proof -
  have d: "npc_detail (ex_npc_ctx ''G'' True) ''Gandalf'' ex_npc_store1 =
      Inr (ex_gandalf, snd (projr (npc_detail (ex_npc_ctx ''G'' True) ''Gandalf'' ex_npc_store1)))"
    by code_simp
  have c: "npc_detail_card ex_img ex_gandalf = Inr ex_gandalf_card"
    by code_simp
  from npc_detail_score_fields [OF d c] show ?thesis .
qed

theorem create_npc_sends_card_witness:
  "\<exists>g' e. get_game (fst (snd ex_npc_create)) (ctx_channel (ex_npc_ctx ''G'' True)) = Some g' \<and>
     last (npcs g') = projr (fst ex_npc_create) \<and>
     create_npc_run ex_img (ex_npc_ctx ''G'' True) (Some ''Gandalf'') ''t'' ex_draws ex_store =
       (([(Invoking, Card e)], None), fst (snd ex_npc_create)) \<and>
     embed_fields e = fst (add_character_fields (projr (fst ex_npc_create)) None) \<and> embed_footer e = None \<and>
     embed_thumbnail e = card_image ex_img (projr (fst ex_npc_create)) \<and> embed_thumbnail e \<noteq> None"
proof -
  have "fst ex_npc_create = Inr (projr (fst ex_npc_create))" by code_simp
  then have "create_npc (ex_npc_ctx ''G'' True) (Some ''Gandalf'') ''t'' ex_draws ex_store =
      (Inr (projr (fst ex_npc_create)), fst (snd ex_npc_create), snd (snd ex_npc_create))"
    unfolding ex_npc_create_def by (metis prod3_collapse)
  from create_npc_sends_card [OF this] show ?thesis .
qed

theorem generate_any_assignment_witness:
  "\<exists>rs cd rs'. generate_random_character ''now'' rs = (cd, rs') \<and>
     map_of cd ''race'' = Some (VStr ''Elf'') \<and> map_of cd ''class'' = Some (VStr ''Barbarian'') \<and>
     map (score_of cd) gen_abilities = map Some [8, 16, 13, 13, 10, 15]"
proof -
  have h: "''Elf'' \<in> set races" "''Barbarian'' \<in> set classes" "mset [8, 14, 13, 12, 10, 15] = mset base_scores"
    by (simp_all add: races_def classes_def base_scores_def)
  have b: "map2 (\<lambda>a v. Some (v + racial_bonus ''Elf'' a)) gen_abilities [8, 14, 13, 12, 10, 15] =
      map Some [8, 16, 13, 13, 10, 15]"
    by code_simp
  from generate_any_assignment [OF h, of "''now''"] show ?thesis unfolding b .
qed

lemma ex_run_AB_replace:
  "fst (character_creation (ex_ctx ''A'') ''t4'' ''t5'' (pub ''A'' ''yes'' # ex_script ''A'' ''Balin'') ex_store_AB) =
     Created (ex_cd ''Balin'' ''t4'') 0 True"
  by code_simp

theorem creation_replace_notice_witness:
  "fst (character_creation (ex_ctx ''A'') ''t4'' ''t5'' (pub ''A'' ''yes'' # ex_script ''A'' ''Balin'') ex_store_AB) =
     Created (ex_cd ''Balin'' ''t4'') 0 True \<and>
   has_character (the (get_game ex_store_AB ''ch'')) ''A'' \<and> all_ready (the (get_game ex_store_AB ''ch''))"
proof -
  have g: "get_game ex_store_AB (ctx_channel (ex_ctx ''A'')) = Some (the (get_game ex_store_AB ''ch''))"
    by code_simp
  have h: "has_character (the (get_game ex_store_AB ''ch'')) (ctx_author (ex_ctx ''A''))"
    by code_simp
  from creation_replace_notice [OF pair_of_fst [OF ex_run_AB_replace] g h]
  show ?thesis using ex_run_AB_replace h by (simp add: ex_ctx_def)
qed

lemma ex_npc_plain:
  "fst (create_npc (ex_npc_ctx ''G'' True) None ''t'' ex_draws ex_store) =
     Inr (projr (fst (create_npc (ex_npc_ctx ''G'' True) None ''t'' ex_draws ex_store)))"
  by code_simp

lemma ex_npc_Ald:
  "fst (create_npc (ex_npc_ctx ''G'' True) None ''t'' ex_draws ex_store_Ald) =
     Inr (projr (fst (create_npc (ex_npc_ctx ''G'' True) None ''t'' ex_draws ex_store_Ald)))"
  by code_simp

theorem create_npc_ignores_names_witness:
  "projr (fst (create_npc (ex_npc_ctx ''G'' True) None ''t'' ex_draws ex_store_Ald)) =
     projr (fst (create_npc (ex_npc_ctx ''G'' True) None ''t'' ex_draws ex_store)) \<and>
   get_str (projr (fst (create_npc (ex_npc_ctx ''G'' True) None ''t'' ex_draws ex_store_Ald))) ''name'' '''' = ''Aldrich'' \<and>
   name_in_use (the (get_game ex_store_Ald ''ch'')) ''G'' ''Aldrich''"
proof -
  have n: "get_str (fst (generate_random_character ''t'' ex_draws)) ''name'' '''' = ''Aldrich''" by code_simp
  have u: "name_in_use (the (get_game ex_store_Ald ''ch'')) ''G'' ''Aldrich''" by code_simp
  have r1: "create_npc (ex_npc_ctx ''G'' True) None ''t'' ex_draws ex_store_Ald =
      (Inr (projr (fst (create_npc (ex_npc_ctx ''G'' True) None ''t'' ex_draws ex_store_Ald))),
       fst (snd (create_npc (ex_npc_ctx ''G'' True) None ''t'' ex_draws ex_store_Ald)),
       snd (snd (create_npc (ex_npc_ctx ''G'' True) None ''t'' ex_draws ex_store_Ald)))"
    using ex_npc_Ald prod3_collapse by metis
  have r2: "create_npc (ex_npc_ctx ''G'' True) None ''t'' ex_draws ex_store =
      (Inr (projr (fst (create_npc (ex_npc_ctx ''G'' True) None ''t'' ex_draws ex_store))),
       fst (snd (create_npc (ex_npc_ctx ''G'' True) None ''t'' ex_draws ex_store)),
       snd (snd (create_npc (ex_npc_ctx ''G'' True) None ''t'' ex_draws ex_store)))"
    using ex_npc_plain prod3_collapse by metis
  from create_npc_ignores_names [OF r1 r2]
  have e: "projr (fst (create_npc (ex_npc_ctx ''G'' True) None ''t'' ex_draws ex_store_Ald)) =
      projr (fst (create_npc (ex_npc_ctx ''G'' True) None ''t'' ex_draws ex_store))"
    and nm: "get_str (projr (fst (create_npc (ex_npc_ctx ''G'' True) None ''t'' ex_draws ex_store_Ald))) ''name'' '''' =
      get_str (fst (generate_random_character ''t'' ex_draws)) ''name'' ''''"
    by blast+
  show ?thesis by (intro conjI e u) (simp only: nm n)
qed


end
